theory Spec2Isabelle
  imports Complex_Main "HOL-Library.Sublist" "HOL-Library.Multiset"
begin

section \<open>The Home Assistant MCP server (ha-mcp-server/index.js)\<close>

text \<open>
  The server is one JavaScript module: a log-level variable, a helper that calls the
  Home Assistant REST API, a small rule-based intelligence layer (anomalies, search,
  relationships, deprecation patterns) and eight request handlers registered on the MCP
  server object. The embedding keeps the names of the source.

  Strings are lists of 8-bit code units (the Latin-1 range of JavaScript's code units).
  Values received as JSON are \<open>json\<close>; JavaScript's \<open>undefined\<close> is \<open>None\<close> of an
  option type. A thrown exception is the \<open>Inl\<close> of a sum.
\<close>

subsection \<open>Values\<close>

datatype json =
    JNull
  | JBool bool
  | JNum rat
  | JStr string
  | JArr "json list"
  | JObj "(string \<times> json) list"

text \<open>The values the handlers throw: \<open>new Error(message)\<close>, the TypeError of the
  runtime (reading a property of \<open>undefined\<close>, calling a method a value does not have)
  and the URIError of \<open>encodeURIComponent\<close>.
  The message of a runtime TypeError is the engine's text; the model records the failing
  expression in its place.\<close>

datatype exn = Error string | TypeError string | URIError string

fun message :: "exn \<Rightarrow> string" where
  "message (Error m) = m"
| "message (TypeError m) = m"
| "message (URIError m) = m"

subsection \<open>Logging system\<close>

text \<open>\<open>let currentLogLevel = "info"\<close> is the only \<open>let\<close> binding at module level. The
  other module-level bindings are \<open>const\<close>; the one among them that holds objects with a
  writable property used by the code is \<open>DEPRECATION_PATTERNS\<close>, whose RegExp objects
  carry \<open>lastIndex\<close>.\<close>

record regexp =
  source :: string
  flags :: string
  lastIndex :: nat

record deprecation_pattern =
  pattern :: regexp
  message_text :: string
  suggestion :: "string option"
  integration :: "string option"
  deprecated_in :: "string option"
  severity :: "string option"

record module_state =
  currentLogLevel :: string
  DEPRECATION_PATTERNS :: "deprecation_pattern list"

definition LOG_LEVELS :: "string list" where
  "LOG_LEVELS = [''debug'', ''info'', ''notice'', ''warning'', ''error'', ''critical'',
                 ''alert'', ''emergency'']"

text \<open>\<open>Array.prototype.indexOf\<close>: the first index, or \<open>-1\<close>.\<close>

fun indexOf :: "'a list \<Rightarrow> 'a \<Rightarrow> int" where
  "indexOf [] x = -1"
| "indexOf (y # ys) x = (if y = x then 0 else (let i = indexOf ys x in if i < 0 then -1 else i + 1))"

definition getLogLevelIndex :: "string \<Rightarrow> int" where
  "getLogLevelIndex level = indexOf LOG_LEVELS level"

definition shouldLog :: "module_state \<Rightarrow> string \<Rightarrow> bool" where
  "shouldLog m level \<longleftrightarrow> getLogLevelIndex level \<ge> getLogLevelIndex (currentLogLevel m)"

text \<open>What a handler does to the outside: a \<open>fetch\<close> (URL, method, body) and a line on
  stderr (level, logger, data, timestamp).\<close>

datatype event =
    Fetch string string "json option"
  | Stderr string string "(string \<times> json option) list" string

text \<open>The wall clock as the code reads it: \<open>Date.now()\<close>, \<open>new Date().getHours()\<close> and
  \<open>new Date().toISOString()\<close>.\<close>

record clock =
  now :: int
  hours :: nat
  iso :: string

text \<open>A computation of the module: from the module state and the events so far to a
  result or an exception, with the new state and events.\<close>

type_synonym run = "module_state \<times> event list"
type_synonym 'a io = "run \<Rightarrow> (exn + 'a) \<times> run"

definition return :: "'a \<Rightarrow> 'a io" where
  "return x = (\<lambda>s. (Inr x, s))"

definition throw :: "exn \<Rightarrow> 'a io" where
  "throw e = (\<lambda>s. (Inl e, s))"

text \<open>\<open>const x = await m; f x\<close> (and plain sequencing): an exception of \<open>m\<close> skips \<open>f\<close>.\<close>

definition await :: "'a io \<Rightarrow> ('a \<Rightarrow> 'b io) \<Rightarrow> 'b io" where
  "await m f = (\<lambda>s. case m s of (Inl e, s') \<Rightarrow> (Inl e, s') | (Inr x, s') \<Rightarrow> f x s')"

text \<open>\<open>try { m } catch (error) { h error }\<close>.\<close>

definition try_catch :: "'a io \<Rightarrow> (exn \<Rightarrow> 'a io) \<Rightarrow> 'a io" where
  "try_catch m h = (\<lambda>s. case m s of (Inl e, s') \<Rightarrow> h e s' | (Inr x, s') \<Rightarrow> (Inr x, s'))"

definition emit :: "event \<Rightarrow> unit io" where
  "emit ev = (\<lambda>(m, evs). (Inr (), (m, evs @ [ev])))"

definition sendLog :: "clock \<Rightarrow> string \<Rightarrow> string \<Rightarrow> (string \<times> json option) list \<Rightarrow> unit io" where
  "sendLog clk level logger data =
     (\<lambda>(m, evs). if shouldLog m level
                  then emit (Stderr level logger data (iso clk)) (m, evs)
                  else (Inr (), (m, evs)))"

subsection \<open>Request handler: logging/setLevel\<close>

definition set_currentLogLevel :: "string \<Rightarrow> unit io" where
  "set_currentLogLevel level = (\<lambda>(m, evs). (Inr (), (m\<lparr>currentLogLevel := level\<rparr>, evs)))"

text \<open>The handler returns the empty object \<open>{}\<close>.\<close>

definition SetLevel :: "clock \<Rightarrow> string \<Rightarrow> json io" where
  "SetLevel clk level =
     (if level \<in> set LOG_LEVELS
      then await (set_currentLogLevel level) (\<lambda>_.
           await (sendLog clk ''info'' ''mcp-server''
                    [(''action'', Some (JStr ''log_level_changed'')), (''level'', Some (JStr level))]) (\<lambda>_.
           return (JObj [])))
      else throw (Error (''Invalid log level: '' @ level)))"

subsection \<open>Strings\<close>

text \<open>\<open>String.prototype.includes\<close> (named \<open>str_includes\<close> here), \<open>startsWith\<close>,
  \<open>toLowerCase\<close>, \<open>Array.prototype.join\<close> and the two uses of \<open>split\<close>: \<open>entity_id.split(".")\<close>, of which the code keeps the first component, and
  \<open>split(/\s+/)\<close>.\<close>

definition startsWith :: "string \<Rightarrow> string \<Rightarrow> bool" where
  "startsWith s t \<longleftrightarrow> prefix t s"

fun str_includes :: "string \<Rightarrow> string \<Rightarrow> bool" where
  "str_includes [] t \<longleftrightarrow> t = []"
| "str_includes (c # cs) t \<longleftrightarrow> prefix t (c # cs) \<or> str_includes cs t"

fun join :: "string \<Rightarrow> string list \<Rightarrow> string" where
  "join sep [] = []"
| "join sep [x] = x"
| "join sep (x # y # ys) = x @ sep @ join sep (y # ys)"

text \<open>\<open>x || ""\<close> for a string that may be \<open>undefined\<close>, and the truth value of such a
  string: \<open>undefined\<close> and the empty string are falsy.\<close>

definition or_empty :: "string option \<Rightarrow> string" where
  "or_empty x = (case x of Some v \<Rightarrow> v | None \<Rightarrow> [])"

definition truthy :: "string option \<Rightarrow> bool" where
  "truthy x \<longleftrightarrow> (case x of Some v \<Rightarrow> v \<noteq> [] | None \<Rightarrow> False)"

definition lower_char :: "char \<Rightarrow> char" where
  "lower_char c =
     (let n = (of_char c :: nat)
      in if (65 \<le> n \<and> n \<le> 90) \<or> (192 \<le> n \<and> n \<le> 222 \<and> n \<noteq> 215)
         then char_of (n + 32) else c)"

definition toLowerCase :: "string \<Rightarrow> string" where
  "toLowerCase s = map lower_char s"

text \<open>The first element of \<open>s.split(".")\<close>.\<close>

definition split_dot_first :: "string \<Rightarrow> string" where
  "split_dot_first s = takeWhile (\<lambda>c. c \<noteq> CHR ''.'') s"

text \<open>The class \<open>\s\<close> on 8-bit code units: tab, line feed, vertical tab, form feed,
  carriage return, space and no-break space.\<close>

definition is_space :: "char \<Rightarrow> bool" where
  "is_space c \<longleftrightarrow> (of_char c :: nat) \<in> {9, 10, 11, 12, 13, 32, 160}"

text \<open>\<open>s.split(/\s+/)\<close>: the pieces between the maximal runs of white space; a run at
  either end leaves an empty piece there, and the empty string gives one empty piece.\<close>

fun split_ws :: "string \<Rightarrow> string list" where
  "split_ws [] = [[]]"
| "split_ws (c # cs) =
     (if is_space c
      then (case cs of
              d # _ \<Rightarrow> if is_space d then split_ws cs else [] # split_ws cs
            | [] \<Rightarrow> [] # split_ws cs)
      else (case split_ws cs of
              w # ws \<Rightarrow> (c # w) # ws
            | [] \<Rightarrow> [[c]]))"

text \<open>Decimal digits of a natural number, as \<open>${n}\<close> prints an integer count.\<close>

fun show_nat :: "nat \<Rightarrow> string" where
  "show_nat n = (if n < 10 then [char_of (48 + n)] else show_nat (n div 10) @ [char_of (48 + n mod 10)])"

declare show_nat.simps [simp del]

subsection \<open>Entity states\<close>

text \<open>A state object of the Home Assistant API, with the fields the code reads. An
  attribute that is absent reads as \<open>undefined\<close> (\<open>None\<close>); the attributes the code never
  names are kept in \<open>other_attributes\<close>.\<close>

record attributes =
  friendly_name :: "string option"
  device_class :: "string option"
  device_id :: "string option"
  area_id :: "string option"
  battery_level :: "rat option"
  unit_of_measurement :: "string option"
  last_triggered :: "json option"
  other_attributes :: "(string \<times> json) list"

record entity_state =
  entity_id :: string
  state :: string
  attributes :: attributes
  last_changed :: string
  last_updated :: string

subsection \<open>The JavaScript runtime\<close>

text \<open>A JavaScript number that \<open>parseFloat\<close> can return.\<close>

datatype number = NaN | NegInfinity | Finite rat | Infinity

fun isNaN :: "number \<Rightarrow> bool" where
  "isNaN NaN = True"
| "isNaN _ = False"

text \<open>\<open>x < b\<close> and \<open>x > b\<close> for a finite bound \<open>b\<close>; every comparison with NaN is false.\<close>

fun num_lt :: "number \<Rightarrow> rat \<Rightarrow> bool" where
  "num_lt NaN b = False"
| "num_lt NegInfinity b = True"
| "num_lt (Finite x) b = (x < b)"
| "num_lt Infinity b = False"

fun num_gt :: "number \<Rightarrow> rat \<Rightarrow> bool" where
  "num_gt NaN b = False"
| "num_gt NegInfinity b = False"
| "num_gt (Finite x) b = (x > b)"
| "num_gt Infinity b = True"

text \<open>The built-ins of the runtime that the module calls and that are no part of the
  repository. They are parameters of the model: every theorem holds for every runtime.
  \<^item> \<open>parseFloat\<close>;
  \<^item> \<open>Number_toString\<close>: a number inside a template literal;
  \<open>toFixed1\<close>: \<open>Number.prototype.toFixed(1)\<close>;
  \<^item> \<open>Date_getTime\<close>: \<open>new Date(s).getTime()\<close>, \<open>None\<close> for NaN (an invalid date);
  \<open>Date_toISOString\<close>: \<open>new Date(ms).toISOString()\<close>;
  \<^item> \<open>JSON_stringify\<close>: \<open>JSON.stringify(v, null, 2)\<close>;
  \<^item> \<open>RegExp_exec\<close>: the match of a regular expression (source, flags) in a string
  from a start index, as the index just after the match, \<open>None\<close> when there is none;
  \<open>String_match\<close>: the text of the first match, as \<open>s.match(re)[0]\<close> gives it;
  \<^item> \<open>encodeURIComponent\<close>: \<open>None\<close> when the built-in throws its URIError, which it
  does on a string with a lone surrogate;
  \<^item> \<open>URLSearchParams_toString\<close>.\<close>

record runtime =
  parseFloat :: "string \<Rightarrow> number"
  Number_toString :: "rat \<Rightarrow> string"
  toFixed1 :: "rat \<Rightarrow> string"
  Date_getTime :: "string \<Rightarrow> int option"
  Date_toISOString :: "int \<Rightarrow> string"
  JSON_stringify :: "json \<Rightarrow> string"
  RegExp_exec :: "string \<Rightarrow> string \<Rightarrow> nat \<Rightarrow> string \<Rightarrow> nat option"
  String_match :: "string \<Rightarrow> string \<Rightarrow> string \<Rightarrow> string option"
  encodeURIComponent :: "string \<Rightarrow> string option"
  URLSearchParams_toString :: "(string \<times> string) list \<Rightarrow> string"

subsection \<open>Intelligence layer: detectAnomaly\<close>

record anomaly =
  anomaly_entity_id :: string
  reason :: string
  anomaly_severity :: string

text \<open>The string literal of the source for the default unit: the code units C2, B0
  and the letter C.\<close>

definition default_unit :: string where
  "default_unit = [char_of (194::nat), char_of (176::nat), CHR ''C'']"

text \<open>The five rules of \<open>detectAnomaly\<close>, in the order of the source; each returns from
  the function when it fires, and falls through to the next one otherwise.\<close>

definition battery_rule :: "runtime \<Rightarrow> entity_state \<Rightarrow> anomaly option" where
  "battery_rule rt s =
     (case battery_level (attributes s) of
        Some b \<Rightarrow>
          if b < 20
          then Some \<lparr>anomaly_entity_id = entity_id s,
                     reason = ''Low battery ('' @ Number_toString rt b @ ''%)'',
                     anomaly_severity = ''warning''\<rparr>
          else None
      | None \<Rightarrow> None)"

definition temperature_rule :: "runtime \<Rightarrow> entity_state \<Rightarrow> anomaly option" where
  "temperature_rule rt s =
     (if split_dot_first (entity_id s) = ''sensor'' \<and>
         device_class (attributes s) = Some ''temperature''
      then (let temp = parseFloat rt (state s)
            in if \<not> isNaN temp
               then (let unit = (case unit_of_measurement (attributes s) of
                                   Some u \<Rightarrow> if u = [] then default_unit else u
                                 | None \<Rightarrow> default_unit);
                         isCelsius = str_includes unit ''C'';
                         normalMin = (if isCelsius then -10 else 14);
                         normalMax = (if isCelsius then 50 else 122)
                     in if num_lt temp normalMin \<or> num_gt temp normalMax
                        then Some \<lparr>anomaly_entity_id = entity_id s,
                                   reason = ''Unusual temperature: '' @ state s @ unit,
                                   anomaly_severity = ''warning''\<rparr>
                        else None)
               else None)
      else None)"

definition humidity_rule :: "runtime \<Rightarrow> entity_state \<Rightarrow> anomaly option" where
  "humidity_rule rt s =
     (if split_dot_first (entity_id s) = ''sensor'' \<and>
         device_class (attributes s) = Some ''humidity''
      then (let humidity = parseFloat rt (state s)
            in if \<not> isNaN humidity \<and> (num_lt humidity 10 \<or> num_gt humidity 95)
               then Some \<lparr>anomaly_entity_id = entity_id s,
                          reason = ''Unusual humidity: '' @ state s @ ''%'',
                          anomaly_severity = ''warning''\<rparr>
               else None)
      else None)"

text \<open>\<open>hoursOpen = (Date.now() - lastChanged.getTime()) / (1000 * 60 * 60)\<close>; with an
  invalid date it is NaN and \<open>hoursOpen > 4\<close> is false.\<close>

definition opening_rule :: "runtime \<Rightarrow> clock \<Rightarrow> entity_state \<Rightarrow> anomaly option" where
  "opening_rule rt clk s =
     (if split_dot_first (entity_id s) = ''binary_sensor'' \<and>
         (device_class (attributes s) = Some ''door'' \<or>
          device_class (attributes s) = Some ''window'') \<and>
         state s = ''on''
      then (case Date_getTime rt (last_changed s) of
              Some lastChanged \<Rightarrow>
                (let hoursOpen = (of_int (now clk - lastChanged) :: rat) / (1000 * 60 * 60)
                 in if hoursOpen > 4
                    then Some \<lparr>anomaly_entity_id = entity_id s,
                               reason = ''Open for '' @ toFixed1 rt hoursOpen @ '' hours'',
                               anomaly_severity = ''info''\<rparr>
                    else None)
            | None \<Rightarrow> None)
      else None)"

definition light_rule :: "clock \<Rightarrow> entity_state \<Rightarrow> anomaly option" where
  "light_rule clk s =
     (if split_dot_first (entity_id s) = ''light'' \<and> state s = ''on''
      then (let hour = hours clk
            in if hour \<ge> 10 \<and> hour \<le> 16
               then Some \<lparr>anomaly_entity_id = entity_id s,
                          reason = ''Light on during daytime'',
                          anomaly_severity = ''info''\<rparr>
               else None)
      else None)"

definition detectAnomaly :: "runtime \<Rightarrow> clock \<Rightarrow> entity_state \<Rightarrow> anomaly option" where
  "detectAnomaly rt clk s =
     (case battery_rule rt s of Some a \<Rightarrow> Some a | None \<Rightarrow>
      case temperature_rule rt s of Some a \<Rightarrow> Some a | None \<Rightarrow>
      case humidity_rule rt s of Some a \<Rightarrow> Some a | None \<Rightarrow>
      case opening_rule rt clk s of Some a \<Rightarrow> Some a | None \<Rightarrow>
      light_rule clk s)"

subsection \<open>Intelligence layer: searchEntities\<close>

record search_result =
  result_entity_id :: string
  result_state :: string
  result_friendly_name :: "string option"
  result_device_class :: "string option"
  score :: nat

definition searchText :: "entity_state \<Rightarrow> string" where
  "searchText s =
     toLowerCase (join '' '' [entity_id s,
                              or_empty (friendly_name (attributes s)),
                              or_empty (device_class (attributes s)),
                              state s])"

text \<open>The body of \<open>for (const term of terms)\<close>, as the new value of \<open>score\<close>.\<close>

definition score_term :: "entity_state \<Rightarrow> nat \<Rightarrow> string \<Rightarrow> nat" where
  "score_term s sc term =
     (if str_includes (searchText s) term
      then (let sc1 = sc + 1;
                sc2 = (if str_includes (toLowerCase (or_empty (friendly_name (attributes s)))) term
                       then sc1 + 2 else sc1)
            in if str_includes (entity_id s) term then sc2 + 1 else sc2)
      else sc)"

definition score_of :: "string list \<Rightarrow> entity_state \<Rightarrow> nat" where
  "score_of terms s = foldl (score_term s) 0 terms"

text \<open>\<open>Array.prototype.sort\<close> is stable; with the comparator \<open>b.score - a.score\<close> it is
  the stable sort by decreasing score, the insertion sort \<open>sort_key\<close> on the negated
  score.\<close>

definition searchEntities :: "entity_state list \<Rightarrow> string \<Rightarrow> search_result list" where
  "searchEntities states query =
     (let queryLower = toLowerCase query;
          terms = split_ws queryLower;
          scored = map (\<lambda>s. (s, score_of terms s)) states;
          kept = filter (\<lambda>r. snd r > 0) scored;
          sorted = sort_key (\<lambda>r. - int (snd r)) kept
      in map (\<lambda>r. \<lparr>result_entity_id = entity_id (fst r),
                     result_state = state (fst r),
                     result_friendly_name = friendly_name (attributes (fst r)),
                     result_device_class = device_class (attributes (fst r)),
                     score = snd r\<rparr>)
           (take 20 sorted))"

text \<open>The \<open>{ state, score }\<close> pairs of \<open>searchEntities\<close> after \<open>slice(0, 20)\<close>, before
  the last \<open>map\<close>.\<close>

definition ranked :: "entity_state list \<Rightarrow> string \<Rightarrow> (entity_state \<times> nat) list" where
  "ranked states query =
     take 20 (sort_key (\<lambda>r. - int (snd r))
       (filter (\<lambda>r. snd r > 0)
          (map (\<lambda>s. (s, score_of (split_ws (toLowerCase query)) s)) states)))"

subsection \<open>Intelligence layer: getEntityRelationships\<close>

record related_entity =
  related_entity_id :: string
  related_friendly_name :: "string option"
  related_state :: string
  relationship :: string

record entity_details =
  details_entity_id :: string
  details_friendly_name :: "string option"
  details_state :: string
  details_domain :: string
  details_device_class :: "string option"
  details_device_id :: "string option"
  details_area_id :: "string option"
  details_attributes :: attributes
  related_entities :: "related_entity list"

text \<open>The function returns either the object \<open>{ error: "Entity not found" }\<close> or the
  details object.\<close>

datatype relationships = Failure string | Details entity_details

text \<open>The predicate of \<open>states.filter\<close> and the function of \<open>map\<close> in the source, for
  the entity found.\<close>

definition is_related :: "string \<Rightarrow> entity_state \<Rightarrow> entity_state \<Rightarrow> bool" where
  "is_related entityId entity s \<longleftrightarrow>
     (if entity_id s = entityId then False
      else if truthy (device_id (attributes entity)) \<and>
              device_id (attributes s) = device_id (attributes entity) then True
      else if truthy (area_id (attributes entity)) \<and>
              area_id (attributes s) = area_id (attributes entity) then True
      else False)"

definition to_related :: "entity_state \<Rightarrow> entity_state \<Rightarrow> related_entity" where
  "to_related entity s =
     \<lparr>related_entity_id = entity_id s,
      related_friendly_name = friendly_name (attributes s),
      related_state = state s,
      relationship = (if device_id (attributes s) = device_id (attributes entity)
                      then ''same_device'' else ''same_area'')\<rparr>"

text \<open>The part of \<open>getEntityRelationships\<close> after \<open>await callHA("/states")\<close>.\<close>

definition relationships_of :: "entity_state list \<Rightarrow> string \<Rightarrow> relationships" where
  "relationships_of states entityId =
     (case find (\<lambda>s. entity_id s = entityId) states of
        None \<Rightarrow> Failure ''Entity not found''
      | Some entity \<Rightarrow>
          (let domain = split_dot_first entityId;
               deviceId = device_id (attributes entity);
               areaId = area_id (attributes entity);
               related = map (to_related entity) (filter (is_related entityId entity) states)
           in Details
                \<lparr>details_entity_id = entityId,
                 details_friendly_name = friendly_name (attributes entity),
                 details_state = state entity,
                 details_domain = domain,
                 details_device_class = device_class (attributes entity),
                 details_device_id = deviceId,
                 details_area_id = areaId,
                 details_attributes = attributes entity,
                 related_entities = take 10 related\<rparr>))"

subsection \<open>Intelligence layer: generateStateSummary\<close>

text \<open>An entry of the object \<open>byDomain\<close> (its array \<open>entities\<close> is written and never
  read).\<close>

record domain_info =
  count :: nat
  on_count :: nat
  off_count :: nat

text \<open>\<open>byDomain\<close> is a plain object used as a dictionary, here an association list in
  the order of insertion. For a domain that names a member of \<open>Object.prototype\<close> the
  test \<open>!byDomain[domain]\<close> sees the inherited member, no entry is created, and
  \<open>byDomain[domain].entities.push\<close> throws a TypeError.\<close>

definition Object_prototype_names :: "string list" where
  "Object_prototype_names =
     [''constructor'', ''toString'', ''toLocaleString'', ''valueOf'', ''hasOwnProperty'',
      ''isPrototypeOf'', ''propertyIsEnumerable'', ''__proto__'', ''__defineGetter__'',
      ''__defineSetter__'', ''__lookupGetter__'', ''__lookupSetter__'']"

fun bump_domain :: "string \<Rightarrow> string \<Rightarrow> (string \<times> domain_info) list \<Rightarrow> (string \<times> domain_info) list" where
  "bump_domain d v [] =
     [(d, \<lparr>count = 1, on_count = (if v = ''on'' then 1 else 0),
            off_count = (if v = ''off'' then 1 else 0)\<rparr>)]"
| "bump_domain d v ((k, i) # rest) =
     (if k = d
      then (k, \<lparr>count = count i + 1,
                on_count = (if v = ''on'' then on_count i + 1 else on_count i),
                off_count = (if v = ''off'' then off_count i + 1 else off_count i)\<rparr>) # rest
      else (k, i) # bump_domain d v rest)"

text \<open>The loop \<open>for (const state of states)\<close> with its three accumulators.\<close>

fun summary_loop ::
  "runtime \<Rightarrow> clock \<Rightarrow> entity_state list
     \<Rightarrow> (string \<times> domain_info) list \<times> anomaly list \<times> string list
     \<Rightarrow> exn + (string \<times> domain_info) list \<times> anomaly list \<times> string list" where
  "summary_loop rt clk [] acc = Inr acc"
| "summary_loop rt clk (s # rest) (byDomain, anomalies, unavailable) =
     (let domain = split_dot_first (entity_id s)
      in if domain \<in> set Object_prototype_names
         then Inl (TypeError ''byDomain[domain].entities.push'')
         else summary_loop rt clk rest
                (bump_domain domain (state s) byDomain,
                 (case detectAnomaly rt clk s of
                    Some a \<Rightarrow> anomalies @ [a]
                  | None \<Rightarrow> anomalies),
                 (if state s = ''unavailable'' \<or> state s = ''unknown''
                  then unavailable @ [entity_id s] else unavailable)))"

text \<open>\<open>Object.entries\<close> lists the keys that are array indices first, in ascending
  numeric order, and the other keys in the order of insertion.\<close>

definition is_digit :: "char \<Rightarrow> bool" where
  "is_digit c \<longleftrightarrow> 48 \<le> (of_char c :: nat) \<and> (of_char c :: nat) \<le> 57"

definition read_nat :: "string \<Rightarrow> nat" where
  "read_nat s = foldl (\<lambda>n c. 10 * n + (of_char c - 48)) 0 s"

definition is_array_index :: "string \<Rightarrow> bool" where
  "is_array_index k \<longleftrightarrow>
     k \<noteq> [] \<and> list_all is_digit k \<and> (k = ''0'' \<or> hd k \<noteq> CHR ''0'') \<and>
     read_nat k < 4294967295"

definition Object_entries :: "(string \<times> 'a) list \<Rightarrow> (string \<times> 'a) list" where
  "Object_entries kvs =
     sort_key (\<lambda>kv. read_nat (fst kv)) (filter (\<lambda>kv. is_array_index (fst kv)) kvs)
     @ filter (\<lambda>kv. \<not> is_array_index (fst kv)) kvs"

definition domain_line :: "string \<times> domain_info \<Rightarrow> string" where
  "domain_line kv =
     (let detail = show_nat (count (snd kv)) @ '' entities'';
          detail' = (if on_count (snd kv) > 0 \<or> off_count (snd kv) > 0
                     then detail @ '' ('' @ show_nat (on_count (snd kv)) @ '' on, ''
                          @ show_nat (off_count (snd kv)) @ '' off)''
                     else detail)
      in ''- **'' @ fst kv @ ''**: '' @ detail')"

definition generateStateSummary :: "runtime \<Rightarrow> clock \<Rightarrow> entity_state list \<Rightarrow> exn + string" where
  "generateStateSummary rt clk states =
     (case summary_loop rt clk states ([], [], []) of
        Inl e \<Rightarrow> Inl e
      | Inr (byDomain, anomalies, unavailable) \<Rightarrow>
          Inr (join ''\<newline>''
            ([''## Home Assistant State Summary\<newline>'', ''### By Domain'']
             @ map domain_line
                 (sort_key (\<lambda>kv. - int (count (snd kv))) (Object_entries byDomain))
             @ (if length unavailable > 0
                then [''\<newline>### Unavailable/Unknown Entities'']
                     @ map (\<lambda>i. ''- '' @ i) (take 10 unavailable)
                     @ (if length unavailable > 10
                        then [''- ... and '' @ show_nat (length unavailable - 10) @ '' more'']
                        else [])
                else [])
             @ (if length anomalies > 0
                then [''\<newline>### Potential Anomalies Detected'']
                     @ map (\<lambda>a. ''- **'' @ anomaly_entity_id a @ ''**: '' @ reason a)
                         (take 5 anomalies)
                else []))))"

subsection \<open>Intelligence layer: generateSuggestions\<close>

text \<open>The suggestions are objects of four shapes, built here as the JSON they are
  printed as.\<close>

definition name_of :: "entity_state \<Rightarrow> string" where
  "name_of s = (if truthy (friendly_name (attributes s))
                then or_empty (friendly_name (attributes s)) else entity_id s)"

definition motion_suggestions :: "entity_state list \<Rightarrow> json list" where
  "motion_suggestions states =
     (let motionSensors = filter (\<lambda>s. device_class (attributes s) = Some ''motion'' \<or>
                                       str_includes (entity_id s) ''motion'') states;
          lights = filter (\<lambda>s. startsWith (entity_id s) ''light.'') states
      in concat (map (\<lambda>motion.
           (let areaId = area_id (attributes motion)
            in if truthy areaId
               then (let areaLights = filter (\<lambda>l. area_id (attributes l) = areaId) lights
                     in if length areaLights > 0
                        then [JObj [(''type'', JStr ''motion_light''),
                                    (''title'', JStr ''Motion-Activated Lighting''),
                                    (''description'', JStr (''Create automation: When ''
                                       @ name_of motion @ '' detects motion, turn on ''
                                       @ join '', '' (map name_of areaLights))),
                                    (''trigger_entity'', JStr (entity_id motion)),
                                    (''action_entities'',
                                       JArr (map (\<lambda>l. JStr (entity_id l)) areaLights))]]
                        else [])
               else [])) motionSensors))"

definition generateSuggestions :: "entity_state list \<Rightarrow> json list" where
  "generateSuggestions states =
     (let openings = filter (\<lambda>s. device_class (attributes s) = Some ''door'' \<or>
                                  device_class (attributes s) = Some ''window'') states;
          thermostats = filter (\<lambda>s. startsWith (entity_id s) ''climate.'') states;
          tempSensors = filter (\<lambda>s. device_class (attributes s) = Some ''temperature'') states;
          powerSensors = filter (\<lambda>s. device_class (attributes s) = Some ''power'' \<or>
                                     device_class (attributes s) = Some ''energy'') states
      in motion_suggestions states
         @ (if length openings > 0
            then [JObj [(''type'', JStr ''security_alert''),
                        (''title'', JStr ''Security Alert Automation''),
                        (''description'', JStr ''Create notification when doors/windows are left open for extended periods''),
                        (''entities'', JArr (take 5 (map (\<lambda>s. JStr (entity_id s)) openings)))]]
            else [])
         @ (if length thermostats > 0 \<and> length tempSensors > 0
            then [JObj [(''type'', JStr ''climate_optimization''),
                        (''title'', JStr ''Climate Optimization''),
                        (''description'', JStr ''Create automations to adjust thermostat based on occupancy or outdoor temperature''),
                        (''climate_entities'', JArr (map (\<lambda>s. JStr (entity_id s)) thermostats)),
                        (''sensor_entities'',
                           JArr (take 3 (map (\<lambda>s. JStr (entity_id s)) tempSensors)))]]
            else [])
         @ (if length powerSensors > 0
            then [JObj [(''type'', JStr ''energy_monitoring''),
                        (''title'', JStr ''Energy Usage Alerts''),
                        (''description'', JStr ''Create alerts for unusual energy consumption patterns''),
                        (''entities'', JArr (take 5 (map (\<lambda>s. JStr (entity_id s)) powerSensors)))]]
            else []))"


subsection \<open>Deprecation patterns\<close>

text \<open>\<open>RegExp.prototype.test\<close>. A regular expression with the flag \<open>g\<close> or \<open>y\<close> starts
  at its \<open>lastIndex\<close> and writes it (the end of the match, or 0 when there is none); one
  without them starts at 0 and leaves \<open>lastIndex\<close> alone.\<close>

definition RegExp_test :: "runtime \<Rightarrow> regexp \<Rightarrow> string \<Rightarrow> bool \<times> regexp" where
  "RegExp_test rt r s =
     (if CHR ''g'' \<in> set (flags r) \<or> CHR ''y'' \<in> set (flags r)
      then (if lastIndex r > length s then (False, r\<lparr>lastIndex := 0\<rparr>)
            else (case RegExp_exec rt (source r) (flags r) (lastIndex r) s of
                    None \<Rightarrow> (False, r\<lparr>lastIndex := 0\<rparr>)
                  | Some e \<Rightarrow> (True, r\<lparr>lastIndex := e\<rparr>)))
      else (RegExp_exec rt (source r) (flags r) 0 s \<noteq> None, r))"

text \<open>The backslash of a regular expression source, which a string literal here cannot
  hold.\<close>

definition bs :: string where
  "bs = [char_of (92::nat)]"

definition regex :: "string \<Rightarrow> string \<Rightarrow> regexp" where
  "regex src fl = \<lparr>source = src, flags = fl, lastIndex = 0\<rparr>"

definition time_date_source :: string where
  "time_date_source = ''^'' @ bs @ ''s*-'' @ bs @ ''s*platform:'' @ bs @ ''s*time_date''"

text \<open>The table \<open>DEPRECATION_PATTERNS\<close> as the module creates it: ten entries, every
  regular expression with the flag \<open>m\<close> only.\<close>

definition DEPRECATION_PATTERNS_table :: "deprecation_pattern list" where
  "DEPRECATION_PATTERNS_table =
    [\<lparr>pattern = regex (''^sensor:'' @ bs @ ''s*'' @ bs @ ''n'' @ bs @ ''s*-?'' @ bs
                        @ ''s*platform:'' @ bs @ ''s*template'') ''m'',
      message_text = ''Legacy template sensor syntax detected. Use top-level 'template:' key instead.'',
      suggestion = Some ''template:\<newline>  - sensor:\<newline>      - name: \"My Sensor\"\<newline>        state: \"{{ states('...') }}\"'',
      integration = Some ''template'', deprecated_in = Some ''2024.1'', severity = None\<rparr>,
     \<lparr>pattern = regex (''^binary_sensor:'' @ bs @ ''s*'' @ bs @ ''n'' @ bs @ ''s*-?'' @ bs
                        @ ''s*platform:'' @ bs @ ''s*template'') ''m'',
      message_text = ''Legacy template binary_sensor syntax detected. Use top-level 'template:' key instead.'',
      suggestion = Some ''template:\<newline>  - binary_sensor:\<newline>      - name: \"My Sensor\"\<newline>        state: \"{{ is_state('...', 'on') }}\"'',
      integration = Some ''template'', deprecated_in = Some ''2024.1'', severity = None\<rparr>,
     \<lparr>pattern = regex ''entity_namespace:'' ''m'',
      message_text = [CHR 0x27] @ ''entity_namespace' is deprecated. Use 'unique_id' for entity identification instead.'',
      suggestion = Some ''Remove entity_namespace and add unique_id to each entity.'',
      integration = None, deprecated_in = Some ''2023.8'', severity = None\<rparr>,
     \<lparr>pattern = regex time_date_source ''m'',
      message_text = ''The time_date sensor platform is deprecated.'',
      suggestion = Some ''Use template sensors with now() or built-in date/time entities.'',
      integration = Some ''time_date'', deprecated_in = Some ''2024.6'', severity = None\<rparr>,
     \<lparr>pattern = regex (''automation:'' @ bs @ ''s*'' @ bs @ ''n'' @ bs @ ''s*-?'' @ bs
                        @ ''s*alias:'') ''m'',
      message_text = ''Consider using automation ID for better organization.'',
      suggestion = Some ''Add 'id: unique_automation_id' to enable UI editing and better tracking.'',
      integration = None, deprecated_in = None, severity = Some ''info''\<rparr>,
     \<lparr>pattern = regex (''device_tracker:'' @ bs @ ''s*'' @ bs @ ''n'' @ bs @ ''s*-?'' @ bs
                        @ ''s*platform:'' @ bs @ ''s*(?:nmap|netgear|ping)'') ''m'',
      message_text = ''Legacy device tracker platforms may have limited functionality.'',
      suggestion = Some ''Consider using the device_tracker integration with the UI for better device tracking.'',
      integration = None, deprecated_in = None, severity = Some ''info''\<rparr>,
     \<lparr>pattern = regex (''cover:'' @ bs @ ''s*'' @ bs @ ''n'' @ bs @ ''s*-?'' @ bs
                        @ ''s*platform:'' @ bs @ ''s*template'') ''m'',
      message_text = ''Legacy template cover syntax detected. Use top-level 'template:' key instead.'',
      suggestion = Some ''template:\<newline>  - cover:\<newline>      - name: \"My Cover\"\<newline>        state: \"{{ ... }}\"'',
      integration = Some ''template'', deprecated_in = Some ''2024.1'', severity = None\<rparr>,
     \<lparr>pattern = regex (''switch:'' @ bs @ ''s*'' @ bs @ ''n'' @ bs @ ''s*-?'' @ bs
                        @ ''s*platform:'' @ bs @ ''s*template'') ''m'',
      message_text = ''Legacy template switch syntax detected. Consider using top-level 'template:' key.'',
      suggestion = Some ''template:\<newline>  - switch:\<newline>      - name: \"My Switch\"\<newline>        state: \"{{ ... }}\"'',
      integration = Some ''template'', deprecated_in = Some ''2024.4'', severity = None\<rparr>,
     \<lparr>pattern = regex (''homeassistant:'' @ bs @ ''s*'' @ bs @ ''n'' @ bs @ ''s*customize:'') ''m'',
      message_text = ''Entity customizations in configuration.yaml work but UI customizations are preferred.'',
      suggestion = Some ''Consider using the UI (Settings -> Devices & Services -> Entities) for customizations.'',
      integration = None, deprecated_in = None, severity = Some ''info''\<rparr>,
     \<lparr>pattern = regex (''^'' @ bs @ ''s*white_value:'') ''m'',
      message_text = [CHR 0x27] @ ''white_value' is deprecated in light services.'',
      suggestion = Some ''Use 'white' instead of 'white_value' in light service calls.'',
      integration = None, deprecated_in = Some ''2023.3'', severity = None\<rparr>]"

text \<open>The module state after the module has loaded.\<close>

definition initial_state :: module_state where
  "initial_state = \<lparr>currentLogLevel = ''info'', DEPRECATION_PATTERNS = DEPRECATION_PATTERNS_table\<rparr>"

record deprecation_result =
  deprecated :: bool
  warnings :: "string list"
  suggestions :: "string list"

text \<open>\<open>${x}\<close> and the conversion of an argument to a string, for a string that may be
  \<open>undefined\<close>.\<close>

definition template_string :: "string option \<Rightarrow> string" where
  "template_string x = (case x of Some v \<Rightarrow> v | None \<Rightarrow> ''undefined'')"

text \<open>The test at the head of the loop body: a pattern not relevant to the specified
  integration is skipped.\<close>

definition skipped :: "string option \<Rightarrow> deprecation_pattern \<Rightarrow> bool" where
  "skipped integ p \<longleftrightarrow> truthy integ \<and> truthy (integration p) \<and> integration p \<noteq> integ"

text \<open>What a matched pattern appends to \<open>warnings\<close>.\<close>

definition warning_of :: "deprecation_pattern \<Rightarrow> string" where
  "warning_of p =
     (if truthy (deprecated_in p)
      then ''[DEPRECATED since '' @ template_string (deprecated_in p) @ ''] '' @ message_text p
      else ''[INFO] '' @ message_text p)"

text \<open>The loop \<open>for (const pattern of DEPRECATION_PATTERNS)\<close>: the three accumulators go
  through the patterns in order, and each pattern object comes back as \<open>test\<close> left it.
  (The constant \<open>severity\<close> of the loop body is never read.)\<close>

fun check_patterns ::
  "runtime \<Rightarrow> string \<Rightarrow> string option \<Rightarrow> deprecation_pattern list \<Rightarrow> deprecation_result
     \<Rightarrow> deprecation_result \<times> deprecation_pattern list" where
  "check_patterns rt yamlConfig integ [] acc = (acc, [])"
| "check_patterns rt yamlConfig integ (p # ps) acc =
     (if skipped integ p
      then (let (res, ps') = check_patterns rt yamlConfig integ ps acc in (res, p # ps'))
      else (let (matched, re) = RegExp_test rt (pattern p) yamlConfig;
                p' = p\<lparr>pattern := re\<rparr>;
                acc' = (if matched
                        then \<lparr>deprecated = (deprecated acc \<or> deprecated_in p \<noteq> None),
                              warnings = warnings acc @ [warning_of p],
                              suggestions = (if truthy (suggestion p)
                                             then suggestions acc @ [or_empty (suggestion p)]
                                             else suggestions acc)\<rparr>
                        else acc);
                (res, ps') = check_patterns rt yamlConfig integ ps acc'
            in (res, p' # ps')))"

definition checkConfigForDeprecations ::
  "runtime \<Rightarrow> string option \<Rightarrow> string option \<Rightarrow> deprecation_result io" where
  "checkConfigForDeprecations rt yamlConfig integ =
     (\<lambda>(m, evs).
        let (res, ps') = check_patterns rt (template_string yamlConfig) integ
                           (DEPRECATION_PATTERNS m)
                           \<lparr>deprecated = False, warnings = [], suggestions = []\<rparr>
        in (Inr res, (m\<lparr>DEPRECATION_PATTERNS := ps'\<rparr>, evs)))"

text \<open>A pattern whose regular expression matches the configuration, and the patterns of
  a list that the loop of \<open>checkConfigForDeprecations\<close> neither skips nor fails to
  match.\<close>

definition matches :: "runtime \<Rightarrow> deprecation_pattern \<Rightarrow> string \<Rightarrow> bool" where
  "matches rt p yamlConfig \<longleftrightarrow> fst (RegExp_test rt (pattern p) yamlConfig)"

definition hits ::
  "runtime \<Rightarrow> string \<Rightarrow> string option \<Rightarrow> deprecation_pattern list \<Rightarrow> deprecation_pattern list" where
  "hits rt yamlConfig integ ps =
     filter (\<lambda>p. \<not> skipped integ p \<and> matches rt p yamlConfig) ps"

subsection \<open>Home Assistant API helpers\<close>

text \<open>What a call of the REST API resolves to. The array of state objects of
  \<open>GET /states\<close> and the state object of \<open>GET /states/<id>\<close> are typed; any other
  JSON value is \<open>Json\<close>, and \<open>Text\<close> is a body read with \<open>response.text()\<close>.\<close>

datatype payload = States "entity_state list" | State entity_state | Json json | Text string

text \<open>The \<open>Response\<close> of \<open>fetch\<close>: \<open>ok\<close>, \<open>status\<close>, \<open>statusText\<close>, the content-type
  header (\<open>None\<close> for \<open>null\<close>), the body as \<open>text()\<close> gives it and as \<open>json()\<close> parses it
  (\<open>None\<close> when it is no JSON, where \<open>json()\<close> throws).\<close>

record response =
  ok :: bool
  status :: nat
  statusText :: string
  content_type :: "string option"
  body_text :: string
  body_json :: "payload option"

text \<open>The network and the servers behind it: for the events so far and a request (URL,
  method, body), the exception \<open>fetch\<close> rejects with or the response it resolves to.
  It is a parameter of every handler.\<close>

type_synonym world = "event list \<Rightarrow> string \<Rightarrow> string \<Rightarrow> json option \<Rightarrow> exn + response"

definition fetch :: "world \<Rightarrow> string \<Rightarrow> string \<Rightarrow> json option \<Rightarrow> response io" where
  "fetch W url method body =
     (\<lambda>(m, evs). (W evs url method body, (m, evs @ [Fetch url method body])))"

definition SUPERVISOR_API :: string where
  "SUPERVISOR_API = ''http://supervisor/core/api''"

definition HA_DOCS_BASE :: string where
  "HA_DOCS_BASE = ''https://www.home-assistant.io''"

definition HA_INTEGRATIONS_URL :: string where
  "HA_INTEGRATIONS_URL = HA_DOCS_BASE @ ''/integrations''"

definition HA_BLOG_URL :: string where
  "HA_BLOG_URL = HA_DOCS_BASE @ ''/blog''"

text \<open>The truth value of a JSON value, and of one that may be \<open>undefined\<close>.\<close>

fun json_truthy :: "json \<Rightarrow> bool" where
  "json_truthy JNull = False"
| "json_truthy (JBool b) = b"
| "json_truthy (JNum n) = (n \<noteq> 0)"
| "json_truthy (JStr s) = (s \<noteq> [])"
| "json_truthy (JArr xs) = True"
| "json_truthy (JObj kvs) = True"

definition truthy_json :: "json option \<Rightarrow> bool" where
  "truthy_json x \<longleftrightarrow> (case x of Some v \<Rightarrow> json_truthy v | None \<Rightarrow> False)"

definition callHA :: "world \<Rightarrow> clock \<Rightarrow> string \<Rightarrow> string \<Rightarrow> json option \<Rightarrow> payload io" where
  "callHA W clk endpoint method body =
     await (sendLog clk ''debug'' ''ha-api''
              [(''action'', Some (JStr ''request'')), (''endpoint'', Some (JStr endpoint)),
               (''method'', Some (JStr method))]) (\<lambda>_.
     await (fetch W (SUPERVISOR_API @ endpoint) method
              (if truthy_json body then body else None)) (\<lambda>response.
     if \<not> ok response
     then await (sendLog clk ''error'' ''ha-api''
                   [(''action'', Some (JStr ''error'')), (''endpoint'', Some (JStr endpoint)),
                    (''status'', Some (JNum (of_nat (status response)))),
                    (''error'', Some (JStr (body_text response)))]) (\<lambda>_.
          throw (Error (''HA API error ('' @ show_nat (status response) @ ''): ''
                        @ body_text response)))
     else if truthy (content_type response) \<and>
             str_includes (or_empty (content_type response)) ''application/json''
     then (case body_json response of
             None \<Rightarrow> throw (Error ''response.json(): the body is not JSON'')
           | Some result \<Rightarrow>
               await (sendLog clk ''debug'' ''ha-api''
                        [(''action'', Some (JStr ''response'')),
                         (''endpoint'', Some (JStr endpoint)),
                         (''success'', Some (JBool True))]) (\<lambda>_.
               return result))
     else return (Text (body_text response))))"

text \<open>The reply to \<open>GET /states\<close> used as an array of state objects: the array methods
  \<open>filter\<close>, \<open>map\<close> and \<open>find\<close> throw a TypeError on anything else.\<close>

definition as_states :: "payload \<Rightarrow> entity_state list io" where
  "as_states p =
     (case p of
        States xs \<Rightarrow> return xs
      | Json (JArr []) \<Rightarrow> return []
      | _ \<Rightarrow> throw (TypeError ''states is not an array of state objects''))"

definition getEntityRelationships :: "world \<Rightarrow> clock \<Rightarrow> string option \<Rightarrow> relationships io" where
  "getEntityRelationships W clk entityId =
     await (callHA W clk ''/states'' ''GET'' None) (\<lambda>p.
     await (as_states p) (\<lambda>states.
     return (case entityId of
               None \<Rightarrow> Failure ''Entity not found''
             | Some i \<Rightarrow> relationships_of states i)))"

subsection \<open>Objects as JSON\<close>

text \<open>\<open>JSON.stringify\<close> leaves out a property whose value is \<open>undefined\<close>.\<close>

definition opt_str :: "string \<Rightarrow> string option \<Rightarrow> (string \<times> json) list" where
  "opt_str k v = (case v of Some x \<Rightarrow> [(k, JStr x)] | None \<Rightarrow> [])"

definition opt_json :: "string \<Rightarrow> json option \<Rightarrow> (string \<times> json) list" where
  "opt_json k v = (case v of Some x \<Rightarrow> [(k, x)] | None \<Rightarrow> [])"

text \<open>A state object received from the API, as JSON again. The model fixes an order of
  the keys; the order in which the API sent them is not kept.\<close>

definition attributes_json :: "attributes \<Rightarrow> json" where
  "attributes_json a =
     JObj (opt_str ''friendly_name'' (friendly_name a)
           @ opt_str ''device_class'' (device_class a)
           @ opt_str ''device_id'' (device_id a)
           @ opt_str ''area_id'' (area_id a)
           @ (case battery_level a of Some b \<Rightarrow> [(''battery_level'', JNum b)] | None \<Rightarrow> [])
           @ opt_str ''unit_of_measurement'' (unit_of_measurement a)
           @ opt_json ''last_triggered'' (last_triggered a)
           @ other_attributes a)"

definition state_json :: "entity_state \<Rightarrow> json" where
  "state_json s =
     JObj [(''entity_id'', JStr (entity_id s)), (''state'', JStr (state s)),
           (''attributes'', attributes_json (attributes s)),
           (''last_changed'', JStr (last_changed s)),
           (''last_updated'', JStr (last_updated s))]"

fun payload_json :: "payload \<Rightarrow> json" where
  "payload_json (States xs) = JArr (map state_json xs)"
| "payload_json (State s) = state_json s"
| "payload_json (Json j) = j"
| "payload_json (Text t) = JStr t"

text \<open>The object literals of the handlers, with the keys in the order of the source.\<close>

definition simplified_json :: "entity_state \<Rightarrow> json" where
  "simplified_json s =
     JObj ([(''entity_id'', JStr (entity_id s)), (''state'', JStr (state s))]
           @ opt_str ''friendly_name'' (friendly_name (attributes s))
           @ opt_str ''device_class'' (device_class (attributes s)))"

definition search_result_json :: "search_result \<Rightarrow> json" where
  "search_result_json r =
     JObj ([(''entity_id'', JStr (result_entity_id r)), (''state'', JStr (result_state r))]
           @ opt_str ''friendly_name'' (result_friendly_name r)
           @ opt_str ''device_class'' (result_device_class r)
           @ [(''score'', JNum (of_nat (score r)))])"

definition related_json :: "related_entity \<Rightarrow> json" where
  "related_json r =
     JObj ([(''entity_id'', JStr (related_entity_id r))]
           @ opt_str ''friendly_name'' (related_friendly_name r)
           @ [(''state'', JStr (related_state r)), (''relationship'', JStr (relationship r))])"

fun relationships_json :: "relationships \<Rightarrow> json" where
  "relationships_json (Failure e) = JObj [(''error'', JStr e)]"
| "relationships_json (Details d) =
     JObj ([(''entity_id'', JStr (details_entity_id d))]
           @ opt_str ''friendly_name'' (details_friendly_name d)
           @ [(''state'', JStr (details_state d)), (''domain'', JStr (details_domain d))]
           @ opt_str ''device_class'' (details_device_class d)
           @ opt_str ''device_id'' (details_device_id d)
           @ opt_str ''area_id'' (details_area_id d)
           @ [(''attributes'', attributes_json (details_attributes d)),
              (''related_entities'', JArr (map related_json (related_entities d)))])"

definition anomaly_json :: "anomaly \<Rightarrow> json" where
  "anomaly_json a =
     JObj [(''entity_id'', JStr (anomaly_entity_id a)), (''reason'', JStr (reason a)),
           (''severity'', JStr (anomaly_severity a))]"

text \<open>A JSON value inside a template literal.\<close>

fun json_toString :: "runtime \<Rightarrow> json \<Rightarrow> string" where
  "json_toString rt JNull = ''null''"
| "json_toString rt (JBool b) = (if b then ''true'' else ''false'')"
| "json_toString rt (JNum n) = Number_toString rt n"
| "json_toString rt (JStr s) = s"
| "json_toString rt (JArr xs) =
     join '','' (map (\<lambda>x. if x = JNull then [] else json_toString rt x) xs)"
| "json_toString rt (JObj kvs) = ''[object Object]''"

text \<open>\<open>Object.assign(target, source)\<close> on the own properties: a key of the source
  replaces the value in place or is added at the end.\<close>

fun set_property :: "string \<Rightarrow> json \<Rightarrow> (string \<times> json) list \<Rightarrow> (string \<times> json) list" where
  "set_property k v [] = [(k, v)]"
| "set_property k v ((k', v') # rest) =
     (if k' = k then (k, v) # rest else (k', v') # set_property k v rest)"

definition Object_assign :: "(string \<times> json) list \<Rightarrow> (string \<times> json) list \<Rightarrow> (string \<times> json) list" where
  "Object_assign target src = foldl (\<lambda>t kv. set_property (fst kv) (snd kv) t) target src"

subsection \<open>Tool calls: arguments and responses\<close>

text \<open>The arguments of a tool call. The request schema of the protocol makes
  \<open>arguments\<close> an object or absent (\<open>None\<close>); the properties are typed as the tools'
  input schemas declare them, and any of them may be absent, since the server does not
  check \<open>required\<close>.\<close>

record arguments =
  arg_entity_id :: "string option"
  arg_domain :: "string option"
  arg_summarize :: "bool option"
  arg_query :: "string option"
  arg_service :: "string option"
  arg_target :: "(string \<times> json) list option"
  arg_data :: "(string \<times> json) list option"
  arg_start_time :: "string option"
  arg_end_time :: "string option"
  arg_minimal :: "bool option"
  arg_area_id :: "string option"
  arg_lines :: "rat option"
  arg_event_type :: "string option"
  arg_event_data :: "(string \<times> json) list option"
  arg_template :: "string option"
  arg_calendar_entity :: "string option"
  arg_start :: "string option"
  arg_end :: "string option"
  arg_integration :: "string option"
  arg_section :: "string option"
  arg_version :: "string option"
  arg_yaml_config :: "string option"

definition arguments_json :: "arguments \<Rightarrow> json" where
  "arguments_json a =
     JObj (opt_str ''entity_id'' (arg_entity_id a) @ opt_str ''domain'' (arg_domain a)
           @ opt_json ''summarize'' (map_option JBool (arg_summarize a))
           @ opt_str ''query'' (arg_query a) @ opt_str ''service'' (arg_service a)
           @ opt_json ''target'' (map_option JObj (arg_target a))
           @ opt_json ''data'' (map_option JObj (arg_data a))
           @ opt_str ''start_time'' (arg_start_time a) @ opt_str ''end_time'' (arg_end_time a)
           @ opt_json ''minimal'' (map_option JBool (arg_minimal a))
           @ opt_str ''area_id'' (arg_area_id a)
           @ opt_json ''lines'' (map_option JNum (arg_lines a))
           @ opt_str ''event_type'' (arg_event_type a)
           @ opt_json ''event_data'' (map_option JObj (arg_event_data a))
           @ opt_str ''template'' (arg_template a)
           @ opt_str ''calendar_entity'' (arg_calendar_entity a)
           @ opt_str ''start'' (arg_start a) @ opt_str ''end'' (arg_end a)
           @ opt_str ''integration'' (arg_integration a) @ opt_str ''section'' (arg_section a)
           @ opt_str ''version'' (arg_version a) @ opt_str ''yaml_config'' (arg_yaml_config a))"

text \<open>\<open>args?.x\<close> reads \<open>undefined\<close> when \<open>args\<close> is \<open>undefined\<close>; \<open>args.x\<close> and a
  destructuring of \<open>args\<close> throw a TypeError then.\<close>

definition optional :: "arguments option \<Rightarrow> (arguments \<Rightarrow> 'a option) \<Rightarrow> 'a option" where
  "optional args f = (case args of Some a \<Rightarrow> f a | None \<Rightarrow> None)"

definition defined :: "arguments option \<Rightarrow> arguments io" where
  "defined args = (case args of Some a \<Rightarrow> return a | None \<Rightarrow> throw (TypeError ''args is undefined''))"

text \<open>A text content item (\<open>createTextContent\<close>, always called with an audience and a
  priority) and the response that \<open>makeCompatibleResponse\<close> keeps: \<open>content\<close>, and
  \<open>isError\<close> when it is true. The text is a string in all but the three tools that pass
  the reply of the template API on as it is.\<close>

record text_content =
  text_of :: json
  audience :: "string list"
  priority :: rat

record tool_response =
  content :: "text_content list"
  isError :: bool

definition createTextContent :: "json \<Rightarrow> string list \<Rightarrow> rat \<Rightarrow> text_content" where
  "createTextContent t aud prio = \<lparr>text_of = t, audience = aud, priority = prio\<rparr>"

definition makeCompatibleResponse :: "text_content list \<Rightarrow> bool \<Rightarrow> tool_response" where
  "makeCompatibleResponse c err = \<lparr>content = c, isError = err\<rparr>"

text \<open>\<open>return makeCompatibleResponse({ content: [createTextContent(t, ...)] })\<close>.\<close>

definition respond :: "json \<Rightarrow> string list \<Rightarrow> rat \<Rightarrow> tool_response io" where
  "respond t aud prio = return (makeCompatibleResponse [createTextContent t aud prio] False)"


subsection \<open>Tool handlers: state management and service calls\<close>

text \<open>The reply to \<open>GET /states\<close> under \<open>for (const state of states)\<close>. An array of
  state objects is \<open>States\<close>; an empty array or an empty string iterates over nothing;
  anything else is not iterable or has elements without \<open>entity_id\<close>, and throws.\<close>

definition as_iterable :: "payload \<Rightarrow> entity_state list io" where
  "as_iterable p =
     (case p of
        States xs \<Rightarrow> return xs
      | Json (JArr []) \<Rightarrow> return []
      | Json (JStr []) \<Rightarrow> return []
      | Text [] \<Rightarrow> return []
      | _ \<Rightarrow> throw (TypeError ''states is not an iterable of state objects''))"

text \<open>\<open>if (args?.domain) { states = states.filter((s) =>
  s.entity_id.startsWith(`${args.domain}.`)); }\<close>, the same statement in \<open>get_states\<close>
  and in \<open>detect_anomalies\<close>.\<close>

definition domain_filter :: "string option \<Rightarrow> entity_state list \<Rightarrow> entity_state list" where
  "domain_filter domain states =
     filter (\<lambda>s. startsWith (entity_id s) (template_string domain @ ''.'')) states"

definition filter_by_domain :: "string option \<Rightarrow> payload \<Rightarrow> payload io" where
  "filter_by_domain domain p =
     (if truthy domain
      then await (as_states p) (\<lambda>states. return (States (domain_filter domain states)))
      else return p)"

text \<open>A possibly failing pure step inside a handler.\<close>

definition lift :: "exn + 'a \<Rightarrow> 'a io" where
  "lift r = (case r of Inl e \<Rightarrow> throw e | Inr x \<Rightarrow> return x)"

definition tool_get_states ::
  "runtime \<Rightarrow> world \<Rightarrow> clock \<Rightarrow> arguments option \<Rightarrow> tool_response io" where
  "tool_get_states rt W clk args =
     (if truthy (optional args arg_entity_id)
      then await (callHA W clk (''/states/'' @ template_string (optional args arg_entity_id))
                    ''GET'' None) (\<lambda>state.
           respond (JStr (JSON_stringify rt (payload_json state))) [''assistant''] (8 / 10))
      else await (callHA W clk ''/states'' ''GET'' None) (\<lambda>p.
           await (filter_by_domain (optional args arg_domain) p) (\<lambda>states.
           if optional args arg_summarize = Some True
           then await (as_iterable states) (\<lambda>xs.
                await (lift (generateStateSummary rt clk xs)) (\<lambda>summary.
                respond (JStr summary) [''user'', ''assistant''] (9 / 10)))
           else await (as_states states) (\<lambda>xs.
                respond (JStr (JSON_stringify rt (JArr (map simplified_json xs))))
                  [''assistant''] (7 / 10)))))"

definition tool_search_entities ::
  "runtime \<Rightarrow> world \<Rightarrow> clock \<Rightarrow> arguments option \<Rightarrow> tool_response io" where
  "tool_search_entities rt W clk args =
     await (callHA W clk ''/states'' ''GET'' None) (\<lambda>p.
     await (defined args) (\<lambda>a.
     case arg_query a of
       None \<Rightarrow> throw (TypeError ''query.toLowerCase'')
     | Some query \<Rightarrow>
         await (as_states p) (\<lambda>states.
         let results = searchEntities states query
         in respond (JStr (if length results > 0
                           then JSON_stringify rt (JArr (map search_result_json results))
                           else ''No entities found matching \"'' @ query @ ''\"''))
              [''assistant''] (8 / 10))))"

definition tool_get_entity_details ::
  "runtime \<Rightarrow> world \<Rightarrow> clock \<Rightarrow> arguments option \<Rightarrow> tool_response io" where
  "tool_get_entity_details rt W clk args =
     await (defined args) (\<lambda>a.
     await (getEntityRelationships W clk (arg_entity_id a)) (\<lambda>relationships.
     respond (JStr (JSON_stringify rt (relationships_json relationships)))
       [''assistant''] (8 / 10)))"

definition tool_call_service ::
  "runtime \<Rightarrow> world \<Rightarrow> clock \<Rightarrow> arguments option \<Rightarrow> tool_response io" where
  "tool_call_service rt W clk args =
     await (defined args) (\<lambda>a.
     await (sendLog clk ''notice'' ''ha-service''
              [(''action'', Some (JStr ''call'')),
               (''domain'', map_option JStr (arg_domain a)),
               (''service'', map_option JStr (arg_service a)),
               (''target'', map_option JObj (arg_target a))]) (\<lambda>_.
     let payload = (case arg_data a of Some d \<Rightarrow> d | None \<Rightarrow> []);
         payload' = (case arg_target a of Some t \<Rightarrow> Object_assign payload t | None \<Rightarrow> payload)
     in await (callHA W clk (''/services/'' @ template_string (arg_domain a) @ ''/''
                             @ template_string (arg_service a))
                 ''POST'' (Some (JObj payload'))) (\<lambda>result.
        respond (JStr (''Service '' @ template_string (arg_domain a) @ ''.''
                       @ template_string (arg_service a) @ '' called successfully.\<newline>''
                       @ JSON_stringify rt (payload_json result)))
          [''user'', ''assistant''] (9 / 10))))"

text \<open>A property of a JSON value that is not \<open>null\<close>, for a key that is neither
  \<open>length\<close> nor an index: only an object has it.\<close>

definition json_get :: "json \<Rightarrow> string \<Rightarrow> json option" where
  "json_get j k = (case j of JObj kvs \<Rightarrow> map_of kvs k | _ \<Rightarrow> None)"

text \<open>\<open>services.filter((s) => s.domain === args.domain)\<close>: a TypeError when the reply
  is no array, or at the first element that is \<open>null\<close>.\<close>

fun filter_services :: "string \<Rightarrow> json list \<Rightarrow> exn + json list" where
  "filter_services d [] = Inr []"
| "filter_services d (x # xs) =
     (if x = JNull then Inl (TypeError ''s.domain'')
      else (case filter_services d xs of
              Inl e \<Rightarrow> Inl e
            | Inr ys \<Rightarrow> Inr (if json_get x ''domain'' = Some (JStr d) then x # ys else ys)))"

definition tool_get_services ::
  "runtime \<Rightarrow> world \<Rightarrow> clock \<Rightarrow> arguments option \<Rightarrow> tool_response io" where
  "tool_get_services rt W clk args =
     await (callHA W clk ''/services'' ''GET'' None) (\<lambda>services.
     await (if truthy (optional args arg_domain)
            then (case payload_json services of
                    JArr xs \<Rightarrow>
                      await (lift (filter_services (or_empty (optional args arg_domain)) xs))
                        (\<lambda>ys. return (JArr ys))
                  | _ \<Rightarrow> throw (TypeError ''services.filter''))
            else return (payload_json services)) (\<lambda>services'.
     respond (JStr (JSON_stringify rt services')) [''assistant''] (6 / 10)))"

text \<open>\<open>new Date(Date.now() + d).toISOString()\<close>.\<close>

definition iso_after :: "runtime \<Rightarrow> clock \<Rightarrow> int \<Rightarrow> string" where
  "iso_after rt clk d = Date_toISOString rt (now clk + d)"

text \<open>\<open>encodeURIComponent(s)\<close> inside the template literal of an endpoint: the call is
  evaluated, and may throw, before \<open>callHA\<close> is entered.\<close>

definition encoded :: "runtime \<Rightarrow> string \<Rightarrow> string io" where
  "encoded rt s =
     (case encodeURIComponent rt s of
        Some e \<Rightarrow> return e
      | None \<Rightarrow> throw (URIError ''URI malformed''))"

text \<open>\<open>const startTime = args.start_time || new Date(Date.now() - 24 * 60 * 60 *
  1000).toISOString()\<close>, the same statement in \<open>get_history\<close> and in \<open>get_logbook\<close>.\<close>

definition startTime_of :: "runtime \<Rightarrow> clock \<Rightarrow> arguments \<Rightarrow> string" where
  "startTime_of rt clk a =
     (if truthy (arg_start_time a) then or_empty (arg_start_time a)
      else iso_after rt clk (- (24 * 60 * 60 * 1000)))"

definition tool_get_history ::
  "runtime \<Rightarrow> world \<Rightarrow> clock \<Rightarrow> arguments option \<Rightarrow> tool_response io" where
  "tool_get_history rt W clk args =
     await (defined args) (\<lambda>a.
     let entityId = arg_entity_id a;
         startTime = startTime_of rt clk a;
         params = [(''filter_entity_id'', template_string entityId)]
                  @ (if truthy (arg_end_time a)
                     then [(''end_time'', or_empty (arg_end_time a))] else [])
                  @ (if arg_minimal a = Some True
                     then [(''minimal_response'', ''true''), (''no_attributes'', ''true'')]
                     else [])
     in await (encoded rt startTime) (\<lambda>encodedStart.
        await (callHA W clk (''/history/period/'' @ encodedStart @ ''?''
                             @ URLSearchParams_toString rt params) ''GET'' None) (\<lambda>history.
        respond (JStr (JSON_stringify rt (payload_json history))) [''assistant''] (7 / 10))))"

definition tool_get_logbook ::
  "runtime \<Rightarrow> world \<Rightarrow> clock \<Rightarrow> arguments option \<Rightarrow> tool_response io" where
  "tool_get_logbook rt W clk args =
     await (defined args) (\<lambda>a.
     let startTime = startTime_of rt clk a;
         params = (if truthy (arg_entity_id a)
                   then [(''entity'', or_empty (arg_entity_id a))] else [])
                  @ (if truthy (arg_end_time a)
                     then [(''end_time'', or_empty (arg_end_time a))] else [])
     in await (encoded rt startTime) (\<lambda>encodedStart.
        await (callHA W clk (''/logbook/'' @ encodedStart @ ''?''
                             @ URLSearchParams_toString rt params) ''GET'' None) (\<lambda>logbook.
        respond (JStr (JSON_stringify rt (payload_json logbook))) [''assistant''] (7 / 10))))"


subsection \<open>Tool handlers: configuration, events, calendars\<close>

definition tool_get_config ::
  "runtime \<Rightarrow> world \<Rightarrow> clock \<Rightarrow> arguments option \<Rightarrow> tool_response io" where
  "tool_get_config rt W clk args =
     await (callHA W clk ''/config'' ''GET'' None) (\<lambda>config.
     respond (JStr (JSON_stringify rt (payload_json config))) [''assistant''] (6 / 10))"

definition AREAS_TEMPLATE :: string where
  "AREAS_TEMPLATE = ''{% set area_list = [] %}{% for area in areas() %}{% set area_list = area_list + [{'id': area, 'name': area_name(area)}] %}{% endfor %}{{ area_list | tojson }}''"

definition tool_get_areas ::
  "runtime \<Rightarrow> world \<Rightarrow> clock \<Rightarrow> arguments option \<Rightarrow> tool_response io" where
  "tool_get_areas rt W clk args =
     await (callHA W clk ''/template'' ''POST''
              (Some (JObj [(''template'', JStr AREAS_TEMPLATE)]))) (\<lambda>result.
     respond (payload_json result) [''assistant''] (7 / 10))"

definition tool_get_devices ::
  "runtime \<Rightarrow> world \<Rightarrow> clock \<Rightarrow> arguments option \<Rightarrow> tool_response io" where
  "tool_get_devices rt W clk args =
     (let template = (if truthy (optional args arg_area_id)
                      then ''{{ area_devices('' @ [CHR 0x27] @ or_empty (optional args arg_area_id)
                           @ [CHR 0x27] @ '') | list }}''
                      else ''{{ devices() | list }}'')
      in await (callHA W clk ''/template'' ''POST''
                  (Some (JObj [(''template'', JStr template)]))) (\<lambda>result.
         respond (payload_json result) [''assistant''] (6 / 10)))"

definition tool_validate_config ::
  "runtime \<Rightarrow> world \<Rightarrow> clock \<Rightarrow> arguments option \<Rightarrow> tool_response io" where
  "tool_validate_config rt W clk args =
     await (callHA W clk ''/config/core/check_config'' ''POST'' None) (\<lambda>result.
     respond (JStr (JSON_stringify rt (payload_json result))) [''user'', ''assistant''] (9 / 10))"

text \<open>\<open>log.split("\n")\<close> and \<open>slice(-lines)\<close>: the start of the slice is \<open>-lines\<close>
  truncated to an integer, counted from the end when negative.\<close>

fun split_char :: "char \<Rightarrow> string \<Rightarrow> string list" where
  "split_char sep [] = [[]]"
| "split_char sep (c # cs) =
     (if c = sep then [] # split_char sep cs
      else (case split_char sep cs of
              w # ws \<Rightarrow> (c # w) # ws
            | [] \<Rightarrow> [[c]]))"

definition truncate :: "rat \<Rightarrow> int" where
  "truncate q = (if q \<ge> 0 then \<lfloor>q\<rfloor> else \<lceil>q\<rceil>)"

definition slice_from :: "int \<Rightarrow> 'a list \<Rightarrow> 'a list" where
  "slice_from k xs =
     (if k < 0 then drop (nat (max (int (length xs) + k) 0)) xs else drop (nat k) xs)"

definition tool_get_error_log ::
  "runtime \<Rightarrow> world \<Rightarrow> clock \<Rightarrow> arguments option \<Rightarrow> tool_response io" where
  "tool_get_error_log rt W clk args =
     await (callHA W clk ''/error_log'' ''GET'' None) (\<lambda>log.
     let lines = (case optional args arg_lines of
                    Some n \<Rightarrow> if n \<noteq> 0 then n else 100
                  | None \<Rightarrow> 100)
     in (case payload_json log of
           JStr t \<Rightarrow>
             respond (JStr (join ''\<newline>'' (slice_from (truncate (- lines))
                                               (split_char CHR ''\<newline>'' t))))
               [''assistant''] (8 / 10)
         | _ \<Rightarrow> throw (TypeError ''log.split'')))"

definition tool_fire_event ::
  "runtime \<Rightarrow> world \<Rightarrow> clock \<Rightarrow> arguments option \<Rightarrow> tool_response io" where
  "tool_fire_event rt W clk args =
     await (defined args) (\<lambda>a.
     await (sendLog clk ''notice'' ''ha-event''
              [(''action'', Some (JStr ''fire'')),
               (''event_type'', map_option JStr (arg_event_type a))]) (\<lambda>_.
     await (callHA W clk (''/events/'' @ template_string (arg_event_type a)) ''POST''
              (Some (JObj (case arg_event_data a of Some d \<Rightarrow> d | None \<Rightarrow> [])))) (\<lambda>_.
     respond (JStr (''Event '' @ [CHR 0x27] @ template_string (arg_event_type a) @ [CHR 0x27]
                    @ '' fired successfully.''))
       [''user''] (9 / 10))))"

definition tool_render_template ::
  "runtime \<Rightarrow> world \<Rightarrow> clock \<Rightarrow> arguments option \<Rightarrow> tool_response io" where
  "tool_render_template rt W clk args =
     await (defined args) (\<lambda>a.
     await (callHA W clk ''/template'' ''POST''
              (Some (JObj (opt_str ''template'' (arg_template a))))) (\<lambda>result.
     respond (payload_json result) [''assistant''] (8 / 10)))"

definition tool_get_calendars ::
  "runtime \<Rightarrow> world \<Rightarrow> clock \<Rightarrow> arguments option \<Rightarrow> tool_response io" where
  "tool_get_calendars rt W clk args =
     await (callHA W clk ''/calendars'' ''GET'' None) (\<lambda>calendars.
     respond (JStr (JSON_stringify rt (payload_json calendars))) [''assistant''] (6 / 10))"

text \<open>\<open>const start = args.start || new Date().toISOString()\<close> and \<open>const end =
  args.end || new Date(Date.now() + 7 * 24 * 60 * 60 * 1000).toISOString()\<close>.\<close>

definition start_of :: "clock \<Rightarrow> arguments \<Rightarrow> string" where
  "start_of clk a = (if truthy (arg_start a) then or_empty (arg_start a) else iso clk)"

definition end_of :: "runtime \<Rightarrow> clock \<Rightarrow> arguments \<Rightarrow> string" where
  "end_of rt clk a =
     (if truthy (arg_end a) then or_empty (arg_end a)
      else iso_after rt clk (7 * 24 * 60 * 60 * 1000))"

definition tool_get_calendar_events ::
  "runtime \<Rightarrow> world \<Rightarrow> clock \<Rightarrow> arguments option \<Rightarrow> tool_response io" where
  "tool_get_calendar_events rt W clk args =
     await (defined args) (\<lambda>a.
     let start = start_of clk a;
         end_time = end_of rt clk a
     in await (encoded rt start) (\<lambda>encodedStart.
        await (encoded rt end_time) (\<lambda>encodedEnd.
        await (callHA W clk (''/calendars/'' @ template_string (arg_calendar_entity a)
                             @ ''?start='' @ encodedStart
                             @ ''&end='' @ encodedEnd) ''GET'' None) (\<lambda>events.
        respond (JStr (JSON_stringify rt (payload_json events))) [''assistant''] (7 / 10)))))"

subsection \<open>Tool handlers: intelligence\<close>

text \<open>The constant \<open>anomalies\<close> of the case \<open>detect_anomalies\<close>:
  \<open>states.map(detectAnomaly).filter(Boolean).sort(...)\<close>. The comparator puts an anomaly
  of severity \<open>warning\<close> before one of another severity and leaves the rest to the
  stability of the sort.\<close>

definition detected_anomalies :: "runtime \<Rightarrow> clock \<Rightarrow> entity_state list \<Rightarrow> anomaly list" where
  "detected_anomalies rt clk states =
     sort_key (\<lambda>a. if anomaly_severity a = ''warning'' then 0 else (1::nat))
       (List.map_filter (detectAnomaly rt clk) states)"

definition tool_detect_anomalies ::
  "runtime \<Rightarrow> world \<Rightarrow> clock \<Rightarrow> arguments option \<Rightarrow> tool_response io" where
  "tool_detect_anomalies rt W clk args =
     await (callHA W clk ''/states'' ''GET'' None) (\<lambda>p.
     await (filter_by_domain (optional args arg_domain) p) (\<lambda>p'.
     await (as_states p') (\<lambda>states.
     let anomalies = detected_anomalies rt clk states
     in if length anomalies = 0
        then respond (JStr ''No anomalies detected. All entities appear to be operating normally.'')
               [''user''] (9 / 10)
        else respond (JStr (''Found '' @ show_nat (length anomalies)
                            @ '' potential anomalies:\<newline>\<newline>''
                            @ JSON_stringify rt (JArr (map anomaly_json anomalies))))
               [''user'', ''assistant''] (9 / 10))))"

definition tool_get_suggestions ::
  "runtime \<Rightarrow> world \<Rightarrow> clock \<Rightarrow> arguments option \<Rightarrow> tool_response io" where
  "tool_get_suggestions rt W clk args =
     await (callHA W clk ''/states'' ''GET'' None) (\<lambda>p.
     await (as_states p) (\<lambda>states.
     let suggestions = generateSuggestions states
     in if length suggestions = 0
        then respond (JStr ''No suggestions at this time. Your Home Assistant setup looks well configured!'')
               [''user''] (8 / 10)
        else respond (JStr (JSON_stringify rt (JArr suggestions)))
               [''user'', ''assistant''] (8 / 10)))"


definition as_state :: "payload \<Rightarrow> entity_state io" where
  "as_state p =
     (case p of
        State s \<Rightarrow> return s
      | _ \<Rightarrow> throw (TypeError ''state is not a state object''))"

text \<open>Running a computation and keeping its exception as a value.\<close>

definition attempt :: "'a io \<Rightarrow> (exn + 'a) io" where
  "attempt m = (\<lambda>s. case m s of (r, s') \<Rightarrow> (Inr r, s'))"

text \<open>\<open>history[0]\<close> and \<open>x.length\<close> on a JSON value.\<close>

definition json_first :: "json \<Rightarrow> json option" where
  "json_first j =
     (case j of
        JArr (h # _) \<Rightarrow> Some h
      | JStr (c # _) \<Rightarrow> Some (JStr [c])
      | JObj kvs \<Rightarrow> map_of kvs ''0''
      | _ \<Rightarrow> None)"

definition json_length :: "json \<Rightarrow> json option" where
  "json_length j =
     (case j of
        JArr xs \<Rightarrow> Some (JNum (of_nat (length xs)))
      | JStr s \<Rightarrow> Some (JNum (of_nat (length s)))
      | JObj kvs \<Rightarrow> map_of kvs ''length''
      | _ \<Rightarrow> None)"

definition check_json :: "string \<Rightarrow> string \<Rightarrow> string \<Rightarrow> json" where
  "check_json c st d = JObj [(''check'', JStr c), (''status'', JStr st), (''details'', JStr d)]"

text \<open>The object \<open>diagnostics\<close> of the case \<open>diagnose_entity\<close>: the fixed properties
  \<open>entity_id\<close>, \<open>timestamp\<close> and \<open>checks\<close>, and the properties added by the steps of the
  \<open>try\<close> block.\<close>

record diagnostics =
  diag_entity_id :: "string option"
  diag_timestamp :: string
  diag_checks :: "json list"
  diag_added :: "(string \<times> json) list"

definition diagnostics_json :: "diagnostics \<Rightarrow> json" where
  "diagnostics_json d =
     JObj (opt_str ''entity_id'' (diag_entity_id d)
           @ [(''timestamp'', JStr (diag_timestamp d)), (''checks'', JArr (diag_checks d))]
           @ diag_added d)"

text \<open>The \<open>catch\<close> of the inner \<open>try\<close>: one more check on the diagnostics as the failing
  step left them, and then the \<open>return\<close> after the \<open>try\<close>.\<close>

definition diagnose_finish :: "runtime \<Rightarrow> diagnostics \<Rightarrow> tool_response io" where
  "diagnose_finish rt d =
     respond (JStr (JSON_stringify rt (diagnostics_json d))) [''assistant''] (9 / 10)"

definition lookup_failed :: "diagnostics \<Rightarrow> exn \<Rightarrow> diagnostics" where
  "lookup_failed d error =
     d\<lparr>diag_checks := diag_checks d @ [check_json ''Entity Lookup'' ''error'' (message error)]\<rparr>"

definition relationship_count :: "runtime \<Rightarrow> relationships \<Rightarrow> string" where
  "relationship_count rt r =
     (case r of
        Failure _ \<Rightarrow> ''0''
      | Details d \<Rightarrow> show_nat (length (related_entities d)))"

definition activity_check :: "runtime \<Rightarrow> entity_state \<Rightarrow> json \<Rightarrow> diagnostics \<Rightarrow> diagnostics" where
  "activity_check rt st history d =
     (if json_truthy history \<and> truthy_json (json_first history)
      then (let stateChanges = (case json_first history of
                                  Some h \<Rightarrow> json_length h | None \<Rightarrow> None)
            in d\<lparr>diag_added := diag_added d
                    @ [(''history_summary'',
                        JObj (opt_json ''state_changes_24h'' stateChanges
                              @ [(''last_changed'', JStr (last_changed st)),
                                 (''last_updated'', JStr (last_updated st))]))],
                  diag_checks := diag_checks d
                    @ [check_json ''Activity''
                         (if stateChanges = Some (JNum 0) then ''info'' else ''ok'')
                         (if stateChanges = Some (JNum 0)
                          then ''No state changes in last 24 hours''
                          else (case stateChanges of
                                  Some n \<Rightarrow> json_toString rt n
                                | None \<Rightarrow> ''undefined'')
                               @ '' state changes in last 24 hours'')]\<rparr>)
      else d)"

definition anomaly_check :: "runtime \<Rightarrow> clock \<Rightarrow> entity_state \<Rightarrow> diagnostics \<Rightarrow> diagnostics" where
  "anomaly_check rt clk st d =
     (case detectAnomaly rt clk st of
        Some anomaly \<Rightarrow>
          d\<lparr>diag_checks := diag_checks d
               @ [check_json ''Anomaly Detection'' (anomaly_severity anomaly) (reason anomaly)]\<rparr>
      | None \<Rightarrow> d)"

definition tool_diagnose_entity ::
  "runtime \<Rightarrow> world \<Rightarrow> clock \<Rightarrow> arguments option \<Rightarrow> tool_response io" where
  "tool_diagnose_entity rt W clk args =
     await (defined args) (\<lambda>a.
     await (sendLog clk ''info'' ''diagnostics''
              [(''action'', Some (JStr ''diagnose'')),
               (''entity_id'', map_option JStr (arg_entity_id a))]) (\<lambda>_.
     let d0 = \<lparr>diag_entity_id = arg_entity_id a, diag_timestamp = iso clk,
                diag_checks = [], diag_added = []\<rparr>
     in await (attempt (await (callHA W clk (''/states/'' @ template_string (arg_entity_id a))
                                 ''GET'' None) as_state)) (\<lambda>r1.
        case r1 of
          Inl error \<Rightarrow> diagnose_finish rt (lookup_failed d0 error)
        | Inr st \<Rightarrow>
            (let d1 = d0\<lparr>diag_added := [(''current_state'', state_json st)],
                         diag_checks :=
                           [check_json ''Current State'' ''ok'' (state st)]
                           @ (if state st = ''unavailable'' \<or> state st = ''unknown''
                              then [check_json ''Availability'' ''warning''
                                      (''Entity is '' @ state st @ ''. Check device connectivity.'')]
                              else [])\<rparr>
             in await (attempt (getEntityRelationships W clk (arg_entity_id a))) (\<lambda>r2.
                case r2 of
                  Inl error \<Rightarrow> diagnose_finish rt (lookup_failed d1 error)
                | Inr relationships \<Rightarrow>
                    (let d2 = d1\<lparr>diag_added := diag_added d1
                                   @ [(''relationships'', relationships_json relationships)],
                                 diag_checks := diag_checks d1
                                   @ [check_json ''Relationships'' ''ok''
                                        (''Found '' @ relationship_count rt relationships
                                         @ '' related entities'')]\<rparr>;
                         startTime = iso_after rt clk (- (24 * 60 * 60 * 1000));
                         params = [(''filter_entity_id'', template_string (arg_entity_id a)),
                                   (''minimal_response'', ''true'')]
                     in await (attempt
                                (await (encoded rt startTime) (\<lambda>encodedStart.
                                 callHA W clk
                                   (''/history/period/'' @ encodedStart @ ''?''
                                    @ URLSearchParams_toString rt params) ''GET'' None))) (\<lambda>r3.
                        case r3 of
                          Inl error \<Rightarrow> diagnose_finish rt (lookup_failed d2 error)
                        | Inr history \<Rightarrow>
                            diagnose_finish rt
                              (anomaly_check rt clk st
                                 (activity_check rt st (payload_json history) d2)))))))))"


subsection \<open>Documentation fetching helpers\<close>

definition fetchUrl :: "world \<Rightarrow> clock \<Rightarrow> string \<Rightarrow> string io" where
  "fetchUrl W clk url =
     await (sendLog clk ''debug'' ''docs''
              [(''action'', Some (JStr ''fetch'')), (''url'', Some (JStr url))]) (\<lambda>_.
     try_catch
       (await (fetch W url ''GET'' None) (\<lambda>response.
        if \<not> ok response
        then throw (Error (''HTTP '' @ show_nat (status response) @ '': '' @ statusText response))
        else return (body_text response)))
       (\<lambda>error.
        await (sendLog clk ''error'' ''docs''
                 [(''action'', Some (JStr ''fetch_error'')), (''url'', Some (JStr url)),
                  (''error'', Some (JStr (message error)))]) (\<lambda>_.
        throw error)))"

text \<open>\<open>extractContentFromHtml\<close> and \<open>extractYamlExamples\<close> are chains of
  \<open>String.prototype.replace\<close> and \<open>RegExp.prototype.exec\<close> over regular expressions
  created in the function body. They read and write nothing outside their argument, and
  are parameters of the model, like the runtime they are made of.\<close>

record html_content =
  title :: string
  description :: string
  html_text :: string

record docs_helpers =
  extractContentFromHtml :: "string \<Rightarrow> html_content"
  extractYamlExamples :: "string \<Rightarrow> string list"

text \<open>\<open>String.prototype.trim\<close>.\<close>

definition trim :: "string \<Rightarrow> string" where
  "trim s = rev (dropWhile is_space (rev (dropWhile is_space s)))"

text \<open>\<open>extractConfigurationSection\<close>: the first of four expressions that matches gives
  the section.\<close>

definition configPatterns :: "(string \<times> string) list" where
  "configPatterns =
     [(''## Configuration['' @ bs @ ''s'' @ bs @ ''S]*?(?='' @ bs @ ''n## |$)'', ''i''),
      (''## YAML Configuration['' @ bs @ ''s'' @ bs @ ''S]*?(?='' @ bs @ ''n## |$)'', ''i''),
      (''### Configuration Variables['' @ bs @ ''s'' @ bs @ ''S]*?(?='' @ bs @ ''n### |''
         @ bs @ ''n## |$)'', ''i''),
      (''## Setup['' @ bs @ ''s'' @ bs @ ''S]*?(?='' @ bs @ ''n## |$)'', ''i'')]"

fun first_match :: "runtime \<Rightarrow> (string \<times> string) list \<Rightarrow> string \<Rightarrow> string option" where
  "first_match rt [] s = None"
| "first_match rt ((src, fl) # ps) s =
     (case String_match rt src fl s of
        Some m \<Rightarrow> Some (trim m)
      | None \<Rightarrow> first_match rt ps s)"

definition extractConfigurationSection :: "runtime \<Rightarrow> string \<Rightarrow> string option" where
  "extractConfigurationSection rt c = first_match rt configPatterns c"

subsection \<open>Tool handlers: documentation\<close>

text \<open>\<open>config.version || "unknown"\<close> on the reply to \<open>GET /config\<close>; reading a property
  of \<open>null\<close> throws.\<close>

definition config_version :: "payload \<Rightarrow> exn + json" where
  "config_version config =
     (case payload_json config of
        JNull \<Rightarrow> Inl (TypeError ''config.version'')
      | JObj kvs \<Rightarrow>
          Inr (if truthy_json (map_of kvs ''version'')
               then (case map_of kvs ''version'' of Some v \<Rightarrow> v | None \<Rightarrow> JStr ''unknown'')
               else JStr ''unknown'')
      | _ \<Rightarrow> Inr (JStr ''unknown''))"

text \<open>The first \<open>try\<close> of both documentation tools: the version of Home Assistant, or
  \<open>"unknown"\<close> with a warning in the log.\<close>

definition get_haVersion :: "world \<Rightarrow> clock \<Rightarrow> json io" where
  "get_haVersion W clk =
     try_catch
       (await (callHA W clk ''/config'' ''GET'' None) (\<lambda>config. lift (config_version config)))
       (\<lambda>e.
        await (sendLog clk ''warning'' ''docs''
                 [(''action'', Some (JStr ''version_fetch_failed'')),
                  (''error'', Some (JStr (message e)))]) (\<lambda>_.
        return (JStr ''unknown'')))"

definition example_block :: "nat \<times> string \<Rightarrow> string" where
  "example_block ix =
     ''### Example '' @ show_nat (fst ix + 1) @ ''\<newline>```yaml\<newline>'' @ snd ix @ ''\<newline>```''"

definition tool_get_integration_docs ::
  "runtime \<Rightarrow> docs_helpers \<Rightarrow> world \<Rightarrow> clock \<Rightarrow> arguments option \<Rightarrow> tool_response io" where
  "tool_get_integration_docs rt dh W clk args =
     await (defined args) (\<lambda>a.
     let integ = arg_integration a;
         section = (case arg_section a of Some s \<Rightarrow> s | None \<Rightarrow> ''configuration'')
     in await (sendLog clk ''info'' ''docs''
                 [(''action'', Some (JStr ''get_integration_docs'')),
                  (''integration'', map_option JStr integ),
                  (''section'', Some (JStr section))]) (\<lambda>_.
        let url = HA_INTEGRATIONS_URL @ ''/'' @ template_string integ @ ''/''
        in await (get_haVersion W clk) (\<lambda>haVersion.
           try_catch
             (await (fetchUrl W clk url) (\<lambda>html.
              let page = extractContentFromHtml dh html;
                  examples = extractYamlExamples dh (html_text page);
                  resultContent =
                    (if section = ''configuration''
                     then (case extractConfigurationSection rt (html_text page) of
                             Some configSection \<Rightarrow>
                               if configSection \<noteq> [] then configSection else html_text page
                           | None \<Rightarrow> html_text page)
                     else if section = ''examples'' \<and> length examples > 0
                     then ''## YAML Examples\<newline>\<newline>''
                          @ join ''\<newline>\<newline>''
                              (map example_block (zip [0 ..< length examples] examples))
                     else html_text page);
                  result_title = (if title page \<noteq> [] then title page else template_string integ)
              in respond (JStr (''# '' @ result_title @ ''\<newline>\<newline>''
                                @ ''**Integration:** '' @ template_string integ @ ''\<newline>''
                                @ ''**Docs URL:** '' @ url @ ''\<newline>''
                                @ ''**Your HA Version:** '' @ json_toString rt haVersion @ ''\<newline>''
                                @ ''**Fetched:** '' @ iso clk @ ''\<newline>\<newline>''
                                @ ''---\<newline>\<newline>'' @ take 15000 resultContent))
                   [''assistant''] (9 / 10)))
             (\<lambda>error.
              respond (JStr (''Unable to fetch documentation for '' @ [CHR 0x27]
                             @ template_string integ @ [CHR 0x27] @ ''.\<newline>\<newline>''
                             @ ''**Docs URL:** '' @ url @ ''\<newline>''
                             @ ''**Error:** '' @ message error @ ''\<newline>\<newline>''
                             @ ''**Suggestion:** You can:\<newline>''
                             @ ''1. Try visiting the URL directly: '' @ url @ ''\<newline>''
                             @ ''2. Check if the integration name is correct\<newline>''
                             @ ''3. Use `validate_config` to check your configuration\<newline>\<newline>''
                             @ ''**Your HA Version:** '' @ json_toString rt haVersion))
                [''assistant''] (8 / 10)))))"


record breaking_change =
  change_version :: string
  change_title :: string
  change_description :: string
  change_integration :: "string option"
  change_url :: string

definition knownBreakingChanges :: "breaking_change list" where
  "knownBreakingChanges =
    [\<lparr>change_version = ''2024.12'', change_title = ''Template sensor/binary_sensor syntax change'',
      change_description = ''Legacy 'platform: template' under sensor/binary_sensor is deprecated. Use top-level 'template:' key.'',
      change_integration = Some ''template'',
      change_url = ''https://www.home-assistant.io/integrations/template/''\<rparr>,
     \<lparr>change_version = ''2024.11'', change_title = ''MQTT discovery changes'',
      change_description = ''MQTT discovery payload format updated for better device support.'',
      change_integration = Some ''mqtt'',
      change_url = ''https://www.home-assistant.io/integrations/mqtt/''\<rparr>,
     \<lparr>change_version = ''2024.10'', change_title = ''REST sensor authentication'',
      change_description = ''REST sensors now support digest authentication; some configurations may need updating.'',
      change_integration = Some ''rest'',
      change_url = ''https://www.home-assistant.io/integrations/rest/''\<rparr>,
     \<lparr>change_version = ''2024.8'', change_title = ''Automation trigger variables'',
      change_description = ''Trigger variables are now more strictly typed in automations.'',
      change_integration = Some ''automation'',
      change_url = ''https://www.home-assistant.io/docs/automation/trigger/''\<rparr>,
     \<lparr>change_version = ''2024.6'', change_title = ''Time & Date sensor deprecation'',
      change_description = ''The time_date platform is deprecated. Use template sensors with now() instead.'',
      change_integration = Some ''time_date'',
      change_url = ''https://www.home-assistant.io/integrations/time_date/''\<rparr>,
     \<lparr>change_version = ''2024.4'', change_title = ''Template switch/cover/fan syntax'',
      change_description = ''Template platforms for switch, cover, and fan can now use the top-level 'template:' key.'',
      change_integration = Some ''template'',
      change_url = ''https://www.home-assistant.io/integrations/template/''\<rparr>,
     \<lparr>change_version = ''2024.1'', change_title = ''Legacy template sensor syntax deprecated'',
      change_description = ''The 'platform: template' syntax under sensor: is deprecated in favor of the template: integration.'',
      change_integration = Some ''template'',
      change_url = ''https://www.home-assistant.io/integrations/template/''\<rparr>,
     \<lparr>change_version = ''2023.12'', change_title = ''Entity naming convention changes'',
      change_description = ''Entities now follow stricter naming conventions. Some entity IDs may have changed.'',
      change_integration = None,
      change_url = ''https://www.home-assistant.io/blog/2023/12/''\<rparr>,
     \<lparr>change_version = ''2023.8'', change_title = ''entity_namespace deprecated'',
      change_description = ''The entity_namespace option is deprecated. Use unique_id instead.'',
      change_integration = None,
      change_url = ''https://www.home-assistant.io/blog/2023/08/''\<rparr>,
     \<lparr>change_version = ''2023.3'', change_title = ''white_value deprecated in light services'',
      change_description = ''Use 'white' instead of 'white_value' in light service calls.'',
      change_integration = Some ''light'',
      change_url = ''https://www.home-assistant.io/integrations/light/''\<rparr>]"

text \<open>\<open>s.replace(".", "/")\<close> replaces the first dot.\<close>

fun replace_first_dot :: "string \<Rightarrow> string" where
  "replace_first_dot [] = []"
| "replace_first_dot (c # cs) = (if c = CHR ''.'' then CHR ''/'' # cs else c # replace_first_dot cs)"

text \<open>\<open>version || haVersion.split(".").slice(0, 2).join(".")\<close>; \<open>split\<close> is a method of
  strings only.\<close>

definition targetVersion_of :: "string option \<Rightarrow> json \<Rightarrow> exn + string" where
  "targetVersion_of version haVersion =
     (if truthy version then Inr (or_empty version)
      else (case haVersion of
              JStr v \<Rightarrow> Inr (join ''.'' (take 2 (split_char CHR ''.'' v)))
            | _ \<Rightarrow> Inl (TypeError ''haVersion.split'')))"

definition change_text :: "breaking_change \<Rightarrow> string" where
  "change_text c =
     ''### '' @ change_version c @ '': '' @ change_title c @ ''\<newline>''
     @ change_description c @ ''\<newline>''
     @ ''**More info:** '' @ change_url c @ ''\<newline>\<newline>''"

definition breaking_source :: string where
  "breaking_source = ''breaking changes?['' @ bs @ ''s'' @ bs @ ''S]*?(?='' @ bs @ ''n## |$)''"

definition tool_get_breaking_changes ::
  "runtime \<Rightarrow> docs_helpers \<Rightarrow> world \<Rightarrow> clock \<Rightarrow> arguments option \<Rightarrow> tool_response io" where
  "tool_get_breaking_changes rt dh W clk args =
     await (defined args) (\<lambda>a.
     let integ = arg_integration a; version = arg_version a
     in await (sendLog clk ''info'' ''docs''
                 [(''action'', Some (JStr ''get_breaking_changes'')),
                  (''integration'', map_option JStr integ),
                  (''version'', map_option JStr version)]) (\<lambda>_.
        await (get_haVersion W clk) (\<lambda>haVersion.
        let byIntegration =
              (if truthy integ
               then filter (\<lambda>c. change_integration c = integ \<or> change_integration c = None)
                      knownBreakingChanges
               else knownBreakingChanges);
            filteredChanges =
              (if truthy version
               then filter (\<lambda>c. change_version c = or_empty version) byIntegration
               else byIntegration)
        in await (lift (targetVersion_of version haVersion)) (\<lambda>targetVersion.
           await (try_catch
                    (await (fetchUrl W clk (HA_BLOG_URL @ ''/'' @ replace_first_dot targetVersion
                                            @ ''/'')) (\<lambda>html.
                     return (case String_match rt breaking_source ''i''
                                    (html_text (extractContentFromHtml dh html)) of
                               Some m \<Rightarrow> take 5000 m
                             | None \<Rightarrow> [])))
                    (\<lambda>e.
                     await (sendLog clk ''debug'' ''docs''
                              [(''action'', Some (JStr ''release_notes_fetch_failed'')),
                               (''error'', Some (JStr (message e)))]) (\<lambda>_.
                     return []))) (\<lambda>releaseNotesContent.
           respond
             (JStr (''# Breaking Changes\<newline>\<newline>''
                    @ ''**Your HA Version:** '' @ json_toString rt haVersion @ ''\<newline>''
                    @ ''**Queried:** ''
                    @ (if truthy integ
                       then ''integration '' @ [CHR 0x27] @ or_empty integ @ [CHR 0x27]
                       else ''all integrations'')
                    @ (if truthy version then '' for version '' @ or_empty version else [])
                    @ ''\<newline>\<newline>''
                    @ (if length filteredChanges > 0
                       then ''## Known Breaking Changes\<newline>\<newline>''
                            @ concat (map change_text filteredChanges)
                       else ''No specific breaking changes found for the query.\<newline>\<newline>'')
                    @ (if releaseNotesContent \<noteq> []
                       then ''## From Release Notes\<newline>\<newline>'' @ releaseNotesContent
                            @ ''\<newline>''
                       else [])
                    @ ''\<newline>---\<newline>**Tip:** Always check '' @ HA_BLOG_URL
                    @ ''/categories/release-notes/ for the latest changes.''))
             [''assistant''] (9 / 10))))))"

text \<open>The case \<open>check_config_syntax\<close>. It analyses the text it is given and calls no
  API. Its three regular expressions are literals of the case body, created anew at each
  call, with the flag \<open>m\<close>.\<close>

definition test_literal :: "runtime \<Rightarrow> string \<Rightarrow> string \<Rightarrow> bool" where
  "test_literal rt src s = fst (RegExp_test rt (regex src ''m'') s)"

definition tool_check_config_syntax ::
  "runtime \<Rightarrow> clock \<Rightarrow> arguments option \<Rightarrow> tool_response io" where
  "tool_check_config_syntax rt clk args =
     await (defined args) (\<lambda>a.
     let yaml_config = arg_yaml_config a; integ = arg_integration a
     in await (sendLog clk ''info'' ''docs''
                 [(''action'', Some (JStr ''check_config_syntax'')),
                  (''integration'', map_option JStr integ)]) (\<lambda>_.
        await (checkConfigForDeprecations rt yaml_config integ) (\<lambda>res.
        case yaml_config of
          None \<Rightarrow> throw (TypeError ''yaml_config.includes'')
        | Some yaml \<Rightarrow>
            (let tabs = str_includes yaml [char_of (9::nat)];
                 additionalWarnings =
                   (if tabs
                    then [''Tab characters detected. YAML requires spaces for indentation.'']
                    else [])
                   @ (if \<not> test_literal rt ''^[a-z_]+:'' yaml
                      then [''No top-level key detected. Configuration should start with a domain key.'']
                      else []);
                 additionalSuggestions =
                   (if tabs
                    then [''Replace all tabs with spaces (2 spaces per indent level is standard for Home Assistant).'']
                    else [])
                   @ (if test_literal rt ('': '' @ bs @ ''|$'') yaml
                      then [''Multi-line strings with '|' should have content on the following lines, indented.'']
                      else [])
                   @ (if test_literal rt ''entity_id:.*,'' yaml
                      then [''Multiple entity_ids should be formatted as a YAML list, not comma-separated.'']
                      else []);
                 allWarnings = warnings res @ additionalWarnings;
                 allSuggestions = suggestions res @ additionalSuggestions;
                 docsUrl = (if truthy integ
                            then HA_INTEGRATIONS_URL @ ''/'' @ or_empty integ @ ''/''
                            else ''https://www.home-assistant.io/docs/configuration/'');
                 valid = (length (filter (\<lambda>w. str_includes w ''DEPRECATED'') allWarnings) = 0)
             in respond
                  (JStr (''# Configuration Syntax Check\<newline>\<newline>''
                         @ ''**Status:** '' @ (if valid then ''OK'' else ''Issues Found'') @ ''\<newline>''
                         @ ''**Deprecated Syntax:** '' @ (if deprecated res then ''Yes'' else ''No'')
                         @ ''\<newline>''
                         @ ''**Docs:** '' @ docsUrl @ ''\<newline>\<newline>''
                         @ (if length allWarnings > 0
                            then ''## Warnings\<newline>\<newline>''
                                 @ concat (map (\<lambda>w. ''- '' @ w @ ''\<newline>'') allWarnings)
                                 @ ''\<newline>''
                            else [])
                         @ (if length allSuggestions > 0
                            then ''## Suggestions\<newline>\<newline>''
                                 @ concat (map (\<lambda>w. ''- '' @ w @ ''\<newline>'') allSuggestions)
                                 @ ''\<newline>''
                            else [])
                         @ (if length allWarnings = 0 \<and> length allSuggestions = 0
                            then ''No issues detected in the configuration syntax.\<newline>\<newline>''
                                 @ ''**Note:** This is a basic syntax check. Use `validate_config` for full Home Assistant validation.\<newline>''
                            else [])))
                  [''assistant''] (9 / 10)))))"


subsection \<open>Request handler: tools/call\<close>

text \<open>The \<open>switch (name)\<close> of the handler: twenty-two cases and the default.\<close>

definition dispatch ::
  "runtime \<Rightarrow> docs_helpers \<Rightarrow> world \<Rightarrow> clock \<Rightarrow> string \<Rightarrow> arguments option
     \<Rightarrow> tool_response io" where
  "dispatch rt dh W clk name args =
     (if name = ''get_states'' then tool_get_states rt W clk args
      else if name = ''search_entities'' then tool_search_entities rt W clk args
      else if name = ''get_entity_details'' then tool_get_entity_details rt W clk args
      else if name = ''call_service'' then tool_call_service rt W clk args
      else if name = ''get_services'' then tool_get_services rt W clk args
      else if name = ''get_history'' then tool_get_history rt W clk args
      else if name = ''get_logbook'' then tool_get_logbook rt W clk args
      else if name = ''get_config'' then tool_get_config rt W clk args
      else if name = ''get_areas'' then tool_get_areas rt W clk args
      else if name = ''get_devices'' then tool_get_devices rt W clk args
      else if name = ''validate_config'' then tool_validate_config rt W clk args
      else if name = ''get_error_log'' then tool_get_error_log rt W clk args
      else if name = ''fire_event'' then tool_fire_event rt W clk args
      else if name = ''render_template'' then tool_render_template rt W clk args
      else if name = ''get_calendars'' then tool_get_calendars rt W clk args
      else if name = ''get_calendar_events'' then tool_get_calendar_events rt W clk args
      else if name = ''detect_anomalies'' then tool_detect_anomalies rt W clk args
      else if name = ''get_suggestions'' then tool_get_suggestions rt W clk args
      else if name = ''diagnose_entity'' then tool_diagnose_entity rt W clk args
      else if name = ''get_integration_docs'' then tool_get_integration_docs rt dh W clk args
      else if name = ''get_breaking_changes'' then tool_get_breaking_changes rt dh W clk args
      else if name = ''check_config_syntax'' then tool_check_config_syntax rt clk args
      else throw (Error (''Unknown tool: '' @ name)))"

text \<open>The response of the \<open>catch\<close> block.\<close>

definition error_response :: "exn \<Rightarrow> tool_response" where
  "error_response error =
     makeCompatibleResponse
       [createTextContent (JStr (''Error: '' @ message error)) [''user''] 1] True"

definition CallTool ::
  "runtime \<Rightarrow> docs_helpers \<Rightarrow> world \<Rightarrow> clock \<Rightarrow> string \<Rightarrow> arguments option
     \<Rightarrow> tool_response io" where
  "CallTool rt dh W clk name args =
     await (sendLog clk ''info'' ''mcp-server''
              [(''action'', Some (JStr ''call_tool'')), (''tool'', Some (JStr name)),
               (''args'', map_option arguments_json args)]) (\<lambda>_.
     try_catch (dispatch rt dh W clk name args)
       (\<lambda>error.
        await (sendLog clk ''error'' ''mcp-server''
                 [(''action'', Some (JStr ''tool_error'')), (''tool'', Some (JStr name)),
                  (''error'', Some (JStr (message error)))]) (\<lambda>_.
        return (error_response error))))"

subsection \<open>Request handlers: the lists\<close>

text \<open>The tables \<open>TOOLS\<close>, \<open>RESOURCES\<close>, \<open>RESOURCE_TEMPLATES\<close> and \<open>PROMPTS\<close> are
  constant data; of each entry the model keeps the name, or the URI.\<close>

definition TOOLS :: "string list" where
  "TOOLS = [''get_states'', ''search_entities'', ''get_entity_details'', ''call_service'',
            ''get_services'', ''get_history'', ''get_logbook'', ''get_config'', ''get_areas'',
            ''get_devices'', ''validate_config'', ''get_error_log'', ''fire_event'',
            ''render_template'', ''get_calendars'', ''get_calendar_events'',
            ''detect_anomalies'', ''get_suggestions'', ''diagnose_entity'',
            ''get_integration_docs'', ''get_breaking_changes'', ''check_config_syntax'']"

definition RESOURCES :: "string list" where
  "RESOURCES = [''ha://states/summary'', ''ha://automations'', ''ha://scripts'', ''ha://scenes'',
                ''ha://areas'', ''ha://config'', ''ha://integrations'', ''ha://anomalies'',
                ''ha://suggestions'']"

definition RESOURCE_TEMPLATES :: "string list" where
  "RESOURCE_TEMPLATES = [''ha://states/{domain}'', ''ha://entity/{entity_id}'',
                         ''ha://area/{area_id}'', ''ha://history/{entity_id}'']"

definition PROMPTS :: "string list" where
  "PROMPTS = [''troubleshoot_entity'', ''create_automation'', ''energy_audit'',
              ''scene_builder'', ''security_review'', ''morning_routine'']"

definition ListTools :: "clock \<Rightarrow> string list io" where
  "ListTools clk =
     await (sendLog clk ''debug'' ''mcp-server'' [(''action'', Some (JStr ''list_tools''))]) (\<lambda>_.
     return TOOLS)"

definition ListResources :: "clock \<Rightarrow> string list io" where
  "ListResources clk =
     await (sendLog clk ''debug'' ''mcp-server'' [(''action'', Some (JStr ''list_resources''))]) (\<lambda>_.
     return RESOURCES)"

definition ListResourceTemplates :: "string list io" where
  "ListResourceTemplates = return RESOURCE_TEMPLATES"

definition ListPrompts :: "clock \<Rightarrow> string list io" where
  "ListPrompts clk =
     await (sendLog clk ''debug'' ''mcp-server'' [(''action'', Some (JStr ''list_prompts''))]) (\<lambda>_.
     return PROMPTS)"


subsection \<open>Request handler: resources/read\<close>

record resource_content =
  res_uri :: string
  mimeType :: string
  res_text :: json
  res_audience :: "string list"
  res_priority :: rat

definition contents :: "string \<Rightarrow> string \<Rightarrow> json \<Rightarrow> string list \<Rightarrow> rat \<Rightarrow> resource_content io" where
  "contents uri mime t aud prio =
     return \<lparr>res_uri = uri, mimeType = mime, res_text = t, res_audience = aud, res_priority = prio\<rparr>"

text \<open>The three kinds of regular expression the handler matches the URI with: a fixed
  prefix followed by \<open>(\w+)$\<close> or by \<open>(.+)$\<close>. The result is the captured group.\<close>

definition is_word :: "char \<Rightarrow> bool" where
  "is_word c \<longleftrightarrow>
     (let n = (of_char c :: nat)
      in (48 \<le> n \<and> n \<le> 57) \<or> (65 \<le> n \<and> n \<le> 90) \<or> (97 \<le> n \<and> n \<le> 122) \<or> n = 95)"

definition is_line_terminator :: "char \<Rightarrow> bool" where
  "is_line_terminator c \<longleftrightarrow> (of_char c :: nat) = 10 \<or> (of_char c :: nat) = 13"

definition match_word :: "string \<Rightarrow> string \<Rightarrow> string option" where
  "match_word pre uri =
     (let rest = drop (length pre) uri
      in if prefix pre uri \<and> rest \<noteq> [] \<and> list_all is_word rest then Some rest else None)"

definition match_any :: "string \<Rightarrow> string \<Rightarrow> string option" where
  "match_any pre uri =
     (let rest = drop (length pre) uri
      in if prefix pre uri \<and> rest \<noteq> [] \<and> list_all (\<lambda>c. \<not> is_line_terminator c) rest
         then Some rest else None)"

definition automation_json :: "entity_state \<Rightarrow> json" where
  "automation_json s =
     JObj ([(''entity_id'', JStr (entity_id s))]
           @ opt_str ''friendly_name'' (friendly_name (attributes s))
           @ [(''state'', JStr (state s))]
           @ opt_json ''last_triggered'' (last_triggered (attributes s)))"

definition script_json :: "entity_state \<Rightarrow> json" where
  "script_json s =
     JObj ([(''entity_id'', JStr (entity_id s))]
           @ opt_str ''friendly_name'' (friendly_name (attributes s))
           @ [(''state'', JStr (state s))])"

definition scene_json :: "entity_state \<Rightarrow> json" where
  "scene_json s =
     JObj ([(''entity_id'', JStr (entity_id s))]
           @ opt_str ''friendly_name'' (friendly_name (attributes s)))"

definition area_entity_json :: "entity_state \<Rightarrow> json" where
  "area_entity_json s =
     JObj ([(''entity_id'', JStr (entity_id s)), (''state'', JStr (state s))]
           @ opt_str ''friendly_name'' (friendly_name (attributes s)))"

text \<open>\<open>config.components || []\<close>.\<close>

definition config_components :: "payload \<Rightarrow> exn + json" where
  "config_components config =
     (case payload_json config of
        JNull \<Rightarrow> Inl (TypeError ''config.components'')
      | JObj kvs \<Rightarrow>
          Inr (if truthy_json (map_of kvs ''components'')
               then (case map_of kvs ''components'' of Some v \<Rightarrow> v | None \<Rightarrow> JArr [])
               else JArr [])
      | _ \<Rightarrow> Inr (JArr []))"

text \<open>The states of a domain, as three static resources and the template resource list
  them.\<close>

definition states_of_domain ::
  "world \<Rightarrow> clock \<Rightarrow> string \<Rightarrow> entity_state list io" where
  "states_of_domain W clk domain =
     await (callHA W clk ''/states'' ''GET'' None) (\<lambda>p.
     await (as_states p) (\<lambda>states.
     return (filter (\<lambda>s. startsWith (entity_id s) (domain @ ''.'')) states)))"

definition read_resource :: "runtime \<Rightarrow> world \<Rightarrow> clock \<Rightarrow> string \<Rightarrow> resource_content io" where
  "read_resource rt W clk uri =
     (if uri = ''ha://states/summary''
      then await (callHA W clk ''/states'' ''GET'' None) (\<lambda>p.
           await (as_iterable p) (\<lambda>states.
           await (lift (generateStateSummary rt clk states)) (\<lambda>summary.
           contents uri ''text/markdown'' (JStr summary) [''user'', ''assistant''] (9 / 10))))
      else if uri = ''ha://automations''
      then await (states_of_domain W clk ''automation'') (\<lambda>automations.
           contents uri ''application/json''
             (JStr (JSON_stringify rt (JArr (map automation_json automations))))
             [''assistant''] (7 / 10))
      else if uri = ''ha://scripts''
      then await (states_of_domain W clk ''script'') (\<lambda>scripts.
           contents uri ''application/json''
             (JStr (JSON_stringify rt (JArr (map script_json scripts))))
             [''assistant''] (6 / 10))
      else if uri = ''ha://scenes''
      then await (states_of_domain W clk ''scene'') (\<lambda>scenes.
           contents uri ''application/json''
             (JStr (JSON_stringify rt (JArr (map scene_json scenes))))
             [''assistant''] (6 / 10))
      else if uri = ''ha://areas''
      then await (callHA W clk ''/template'' ''POST''
                    (Some (JObj [(''template'', JStr AREAS_TEMPLATE)]))) (\<lambda>result.
           contents uri ''application/json'' (payload_json result) [''assistant''] (7 / 10))
      else if uri = ''ha://config''
      then await (callHA W clk ''/config'' ''GET'' None) (\<lambda>config.
           contents uri ''application/json''
             (JStr (JSON_stringify rt (payload_json config))) [''assistant''] (5 / 10))
      else if uri = ''ha://integrations''
      then await (callHA W clk ''/config'' ''GET'' None) (\<lambda>config.
           await (lift (config_components config)) (\<lambda>components.
           contents uri ''application/json''
             (JStr (JSON_stringify rt components)) [''assistant''] (4 / 10)))
      else if uri = ''ha://anomalies''
      then await (callHA W clk ''/states'' ''GET'' None) (\<lambda>p.
           await (as_states p) (\<lambda>states.
           contents uri ''application/json''
             (JStr (JSON_stringify rt
                      (JArr (map anomaly_json (List.map_filter (detectAnomaly rt clk) states)))))
             [''user'', ''assistant''] (8 / 10)))
      else if uri = ''ha://suggestions''
      then await (callHA W clk ''/states'' ''GET'' None) (\<lambda>p.
           await (as_states p) (\<lambda>states.
           contents uri ''application/json''
             (JStr (JSON_stringify rt (JArr (generateSuggestions states))))
             [''user'', ''assistant''] (7 / 10)))
      else (case match_word ''ha://states/'' uri of
        Some domain \<Rightarrow>
          await (states_of_domain W clk domain) (\<lambda>filtered.
          contents uri ''application/json''
            (JStr (JSON_stringify rt (JArr (map simplified_json filtered))))
            [''assistant''] (7 / 10))
      | None \<Rightarrow>
      (case match_any ''ha://entity/'' uri of
        Some entityId \<Rightarrow>
          await (getEntityRelationships W clk (Some entityId)) (\<lambda>relationships.
          contents uri ''application/json''
            (JStr (JSON_stringify rt (relationships_json relationships)))
            [''assistant''] (8 / 10))
      | None \<Rightarrow>
      (case match_any ''ha://area/'' uri of
        Some areaId \<Rightarrow>
          await (callHA W clk ''/states'' ''GET'' None) (\<lambda>p.
          await (as_states p) (\<lambda>states.
          let areaEntities = filter (\<lambda>s. area_id (attributes s) = Some areaId) states
          in await (callHA W clk ''/template'' ''POST''
                      (Some (JObj [(''template'',
                                    JStr (''{{ area_name('' @ [CHR 0x27] @ areaId @ [CHR 0x27]
                                          @ '') }}''))]))) (\<lambda>areaNameResult.
             contents uri ''application/json''
               (JStr (JSON_stringify rt
                        (JObj [(''area_id'', JStr areaId),
                               (''area_name'', payload_json areaNameResult),
                               (''entities'', JArr (map area_entity_json areaEntities))])))
               [''assistant''] (7 / 10))))
      | None \<Rightarrow>
      (case match_any ''ha://history/'' uri of
        Some entityId \<Rightarrow>
          (let startTime = iso_after rt clk (- (24 * 60 * 60 * 1000));
               params = [(''filter_entity_id'', entityId), (''minimal_response'', ''true'')]
           in await (encoded rt startTime) (\<lambda>encodedStart.
              await (callHA W clk (''/history/period/'' @ encodedStart @ ''?''
                                   @ URLSearchParams_toString rt params) ''GET'' None) (\<lambda>history.
              contents uri ''application/json''
                (JStr (JSON_stringify rt (payload_json history))) [''assistant''] (6 / 10))))
      | None \<Rightarrow> throw (Error (''Unknown resource: '' @ uri)))))))"

definition ReadResource :: "runtime \<Rightarrow> world \<Rightarrow> clock \<Rightarrow> string \<Rightarrow> resource_content io" where
  "ReadResource rt W clk uri =
     await (sendLog clk ''debug'' ''mcp-server''
              [(''action'', Some (JStr ''read_resource'')), (''uri'', Some (JStr uri))]) (\<lambda>_.
     try_catch (read_resource rt W clk uri)
       (\<lambda>error.
        await (sendLog clk ''error'' ''mcp-server''
                 [(''action'', Some (JStr ''read_resource_error'')), (''uri'', Some (JStr uri)),
                  (''error'', Some (JStr (message error)))]) (\<lambda>_.
        throw (Error (''Failed to read resource '' @ uri @ '': '' @ message error)))))"

subsection \<open>Request handler: prompts/get\<close>

text \<open>The arguments of a prompt are strings. The message texts are fixed templates; the
  model keeps the description and, in place of the text, the values put into it.\<close>

record prompt_arguments =
  prompt_entity_id :: "string option"
  problem_description :: "string option"
  goal :: "string option"
  area :: "string option"
  mood :: "string option"
  wake_time :: "string option"

record prompt_result =
  prompt_description :: string
  inserted :: "string list"

definition prompt_arg ::
  "prompt_arguments option \<Rightarrow> (prompt_arguments \<Rightarrow> string option) \<Rightarrow> string option" where
  "prompt_arg args f = (case args of Some a \<Rightarrow> f a | None \<Rightarrow> None)"

definition or_default :: "string option \<Rightarrow> string \<Rightarrow> string" where
  "or_default x d = (if truthy x then or_empty x else d)"

definition get_prompt :: "string \<Rightarrow> prompt_arguments option \<Rightarrow> prompt_result io" where
  "get_prompt name args =
     (if name = ''troubleshoot_entity''
      then (let entityId = prompt_arg args prompt_entity_id
            in if \<not> truthy entityId then throw (Error ''entity_id is required'')
               else return \<lparr>prompt_description = ''Troubleshooting guide for '' @ or_empty entityId,
                             inserted = [or_empty entityId,
                                         or_default (prompt_arg args problem_description)
                                           ''not working as expected'']\<rparr>)
      else if name = ''create_automation''
      then (let g = prompt_arg args goal
            in if \<not> truthy g then throw (Error ''goal is required'')
               else return \<lparr>prompt_description = ''Automation creation guide'',
                             inserted = [or_empty g]\<rparr>)
      else if name = ''energy_audit''
      then return \<lparr>prompt_description = ''Energy usage analysis and optimization'',
                    inserted = []\<rparr>
      else if name = ''scene_builder''
      then return \<lparr>prompt_description = ''Interactive scene creation'',
                    inserted = [or_default (prompt_arg args area) ''the specified area'',
                                or_default (prompt_arg args mood) ''comfortable'']\<rparr>
      else if name = ''security_review''
      then return \<lparr>prompt_description = ''Security review of Home Assistant setup'',
                    inserted = []\<rparr>
      else if name = ''morning_routine''
      then return \<lparr>prompt_description = ''Morning routine automation design'',
                    inserted = [or_default (prompt_arg args wake_time) ''7:00 AM'']\<rparr>
      else throw (Error (''Unknown prompt: '' @ name)))"

definition GetPrompt :: "clock \<Rightarrow> string \<Rightarrow> prompt_arguments option \<Rightarrow> prompt_result io" where
  "GetPrompt clk name args =
     await (sendLog clk ''info'' ''mcp-server''
              [(''action'', Some (JStr ''get_prompt'')), (''prompt'', Some (JStr name))]) (\<lambda>_.
     try_catch (get_prompt name args)
       (\<lambda>error.
        await (sendLog clk ''error'' ''mcp-server''
                 [(''action'', Some (JStr ''get_prompt_error'')), (''prompt'', Some (JStr name)),
                  (''error'', Some (JStr (message error)))]) (\<lambda>_.
        throw (Error (''Failed to get prompt '' @ name @ '': '' @ message error)))))"

subsection \<open>The requests of the server\<close>

text \<open>The eight handlers registered with \<open>server.setRequestHandler\<close>, as one function
  of the request; the result of each handler is kept apart from its effect.\<close>

datatype request =
    SetLevelRequest string
  | ListToolsRequest
  | CallToolRequest string "arguments option"
  | ListResourcesRequest
  | ListResourceTemplatesRequest
  | ReadResourceRequest string
  | ListPromptsRequest
  | GetPromptRequest string "prompt_arguments option"

datatype reply =
    EmptyResult
  | NameList "string list"
  | ToolResult tool_response
  | ResourceResult resource_content
  | PromptResult prompt_result

fun handle :: "runtime \<Rightarrow> docs_helpers \<Rightarrow> world \<Rightarrow> clock \<Rightarrow> request \<Rightarrow> reply io" where
  "handle rt dh W clk (SetLevelRequest level) =
     await (SetLevel clk level) (\<lambda>_. return EmptyResult)"
| "handle rt dh W clk ListToolsRequest =
     await (ListTools clk) (\<lambda>r. return (NameList r))"
| "handle rt dh W clk (CallToolRequest name args) =
     await (CallTool rt dh W clk name args) (\<lambda>r. return (ToolResult r))"
| "handle rt dh W clk ListResourcesRequest =
     await (ListResources clk) (\<lambda>r. return (NameList r))"
| "handle rt dh W clk ListResourceTemplatesRequest =
     await ListResourceTemplates (\<lambda>r. return (NameList r))"
| "handle rt dh W clk (ReadResourceRequest uri) =
     await (ReadResource rt W clk uri) (\<lambda>r. return (ResourceResult r))"
| "handle rt dh W clk ListPromptsRequest =
     await (ListPrompts clk) (\<lambda>r. return (NameList r))"
| "handle rt dh W clk (GetPromptRequest name args) =
     await (GetPrompt clk name args) (\<lambda>r. return (PromptResult r))"


subsection \<open>Serving requests\<close>

text \<open>The module state and the events after a sequence of requests, each served in
  the world and at the time it arrives.\<close>

fun serve :: "runtime \<Rightarrow> docs_helpers \<Rightarrow> (world \<times> clock \<times> request) list \<Rightarrow> run \<Rightarrow> run" where
  "serve rt dh [] s = s"
| "serve rt dh ((W, clk, request) # rest) s = serve rt dh rest (snd (handle rt dh W clk request s))"

subsection \<open>Effects of a computation\<close>

text \<open>The module state in which the table of deprecation patterns is as the module
  created it. Every handler keeps it so.\<close>

definition table_intact :: "module_state \<Rightarrow> bool" where
  "table_intact m \<longleftrightarrow> DEPRECATION_PATTERNS m = DEPRECATION_PATTERNS_table"

text \<open>\<open>appends P c\<close>: started with the table intact, \<open>c\<close> leaves the module state as it
  was and adds to the events only events that satisfy \<open>P\<close>.\<close>

definition appends :: "(event \<Rightarrow> bool) \<Rightarrow> 'a io \<Rightarrow> bool" where
  "appends P c \<longleftrightarrow>
     (\<forall>m evs. table_intact m \<longrightarrow>
        (\<exists>new. snd (c (m, evs)) = (m, evs @ new) \<and> list_all P new))"

fun is_fetch :: "event \<Rightarrow> bool" where
  "is_fetch (Fetch url method body) = True"
| "is_fetch (Stderr level logger data ts) = False"

text \<open>A request to the Supervisor API, and one to the documentation site.\<close>

fun is_supervisor_call :: "event \<Rightarrow> bool" where
  "is_supervisor_call (Fetch url method body) = prefix SUPERVISOR_API url"
| "is_supervisor_call (Stderr level logger data ts) = False"

fun is_docs_call :: "event \<Rightarrow> bool" where
  "is_docs_call (Fetch url method body) = prefix HA_DOCS_BASE url"
| "is_docs_call (Stderr level logger data ts) = False"

text \<open>Three classes of events: a log line only; a log line or a request to the
  Supervisor API; a log line or a request to the Supervisor API or to the documentation
  site.\<close>

fun log_only :: "event \<Rightarrow> bool" where
  "log_only (Fetch url method body) = False"
| "log_only (Stderr level logger data ts) = True"

fun api_or_log :: "event \<Rightarrow> bool" where
  "api_or_log (Fetch url method body) = prefix SUPERVISOR_API url"
| "api_or_log (Stderr level logger data ts) = True"

fun docs_api_or_log :: "event \<Rightarrow> bool" where
  "docs_api_or_log (Fetch url method body) =
     (prefix SUPERVISOR_API url \<or> prefix HA_DOCS_BASE url)"
| "docs_api_or_log (Stderr level logger data ts) = True"

text \<open>\<open>calls_api c\<close>: started with the table intact, \<open>c\<close> leaves the module state as it
  was and adds at least one request to the Supervisor API to the events.\<close>

definition calls_api :: "'a io \<Rightarrow> bool" where
  "calls_api c \<longleftrightarrow>
     (\<forall>m evs. table_intact m \<longrightarrow>
        (\<exists>new. snd (c (m, evs)) = (m, evs @ new) \<and> list_ex is_supervisor_call new))"

text \<open>\<open>sends_or P E c\<close>: started with the table intact, \<open>c\<close> leaves the module state as
  it was, and it adds an event that satisfies \<open>P\<close> to the events or throws an exception
  that satisfies \<open>E\<close>.\<close>

definition sends_or :: "(event \<Rightarrow> bool) \<Rightarrow> (exn \<Rightarrow> bool) \<Rightarrow> 'a io \<Rightarrow> bool" where
  "sends_or P E c \<longleftrightarrow>
     (\<forall>m evs. table_intact m \<longrightarrow>
        (\<exists>r new. c (m, evs) = (r, (m, evs @ new)) \<and>
           (list_ex P new \<or> (\<exists>e. r = Inl e \<and> E e))))"

text \<open>The strings that the case of a tool hands to \<open>encodeURIComponent\<close> before its first
  request, and \<open>encodes\<close>: the built-in throws on none of them.\<close>

definition encoded_strings :: "runtime \<Rightarrow> clock \<Rightarrow> string \<Rightarrow> arguments option \<Rightarrow> string list" where
  "encoded_strings rt clk name args =
     (case args of
        None \<Rightarrow> []
      | Some a \<Rightarrow>
          if name = ''get_history'' \<or> name = ''get_logbook'' then [startTime_of rt clk a]
          else if name = ''get_calendar_events'' then [start_of clk a, end_of rt clk a]
          else [])"

definition encodes :: "runtime \<Rightarrow> clock \<Rightarrow> string \<Rightarrow> arguments option \<Rightarrow> bool" where
  "encodes rt clk name args \<longleftrightarrow>
     list_all (\<lambda>s. encodeURIComponent rt s \<noteq> None) (encoded_strings rt clk name args)"

text \<open>The tools that read their arguments with \<open>args?.\<close> only, or not at all.\<close>

definition TOOLS_without_required_arguments :: "string list" where
  "TOOLS_without_required_arguments =
     [''get_states'', ''get_services'', ''get_config'', ''get_areas'', ''get_devices'',
      ''validate_config'', ''get_error_log'', ''get_calendars'', ''detect_anomalies'',
      ''get_suggestions'']"


subsection \<open>Example data\<close>

text \<open>A runtime to evaluate examples with. Its functions agree with the JavaScript
  built-ins on the inputs the examples use: numbers and times written as unsigned
  decimal integers, regular expressions without metacharacters.\<close>

definition literal_exec :: "string \<Rightarrow> string \<Rightarrow> nat \<Rightarrow> string \<Rightarrow> nat option" where
  "literal_exec src fl i s =
     (case filter (\<lambda>k. prefix src (drop k s)) [i ..< Suc (length s)] of
        [] \<Rightarrow> None | k # _ \<Rightarrow> Some (k + length src))"

text \<open>\<open>JSON.stringify(v, null, 2)\<close> for the example runtime, on values whose strings
  need no escape but that of the quote and whose numbers are natural numbers.\<close>

definition quote_string :: "string \<Rightarrow> string" where
  "quote_string s =
     [CHR 0x22] @ concat (map (\<lambda>c. if c = CHR 0x22 then [char_of (92::nat), c] else [c]) s)
     @ [CHR 0x22]"

fun show_json :: "nat \<Rightarrow> json \<Rightarrow> string" where
  "show_json n JNull = ''null''"
| "show_json n (JBool b) = (if b then ''true'' else ''false'')"
| "show_json n (JNum q) = show_nat (nat \<lfloor>q\<rfloor>)"
| "show_json n (JStr s) = quote_string s"
| "show_json n (JArr xs) =
     (if xs = [] then ''[]''
      else ''[\<newline>''
           @ join '',\<newline>'' (map (\<lambda>x. replicate (n + 2) CHR '' '' @ show_json (n + 2) x) xs)
           @ ''\<newline>'' @ replicate n CHR '' '' @ '']'')"
| "show_json n (JObj kvs) =
     (if kvs = [] then ''{}''
      else ''{\<newline>''
           @ join '',\<newline>'' (map (\<lambda>(k, v). replicate (n + 2) CHR '' '' @ quote_string k @ '': ''
                                             @ show_json (n + 2) v) kvs)
           @ ''\<newline>'' @ replicate n CHR '' '' @ ''}'')"

text \<open>The example configuration \<open>- platform: time_date\<close>: the expression of the
  time_date pattern matches all of it, and no other expression of the module matches.\<close>

definition example_exec :: "string \<Rightarrow> string \<Rightarrow> nat \<Rightarrow> string \<Rightarrow> nat option" where
  "example_exec src fl i s =
     (if src = time_date_source \<and> s = ''- platform: time_date''
      then (if i = 0 then Some 21 else None)
      else literal_exec src fl i s)"

text \<open>\<open>encodeURIComponent\<close> on the strings of the model: a code unit below 128 is kept
  when it is unreserved and is one escape otherwise; a code unit from 128 to 255 is the
  two escapes of its UTF-8 form. No string of the model has a surrogate.\<close>

definition unreserved :: "char \<Rightarrow> bool" where
  "unreserved c \<longleftrightarrow>
     c \<in> set (''ABCDEFGHIJKLMNOPQRSTUVWXYZabcdefghijklmnopqrstuvwxyz0123456789-_.!~*()''
              @ [CHR 0x27])"

definition escape :: "nat \<Rightarrow> string" where
  "escape n = [CHR ''%'', ''0123456789ABCDEF'' ! (n div 16), ''0123456789ABCDEF'' ! (n mod 16)]"

definition encode_unit :: "char \<Rightarrow> string" where
  "encode_unit c =
     (let n = (of_char c :: nat)
      in if unreserved c then [c]
         else if n < 128 then escape n
         else escape (192 + n div 64) @ escape (128 + n mod 64))"

definition example_runtime :: runtime where
  "example_runtime =
     \<lparr>parseFloat = (\<lambda>s. if s \<noteq> [] \<and> list_all is_digit s then Finite (of_nat (read_nat s)) else NaN),
      Number_toString = (\<lambda>q. show_nat (nat \<lfloor>q\<rfloor>)),
      toFixed1 = (\<lambda>q. show_nat (nat \<lfloor>q\<rfloor>) @ ''.'' @ show_nat (nat \<lfloor>q * 10\<rfloor> mod 10)),
      Date_getTime = (\<lambda>s. if s \<noteq> [] \<and> list_all is_digit s then Some (int (read_nat s)) else None),
      Date_toISOString = (\<lambda>t. show_nat (nat t)),
      JSON_stringify = show_json 0,
      RegExp_exec = example_exec,
      String_match = (\<lambda>src fl s. if str_includes s src then Some src else None),
      encodeURIComponent = (\<lambda>s. Some (concat (map encode_unit s))),
      URLSearchParams_toString = (\<lambda>ps. concat (map (\<lambda>(k, v). k @ ''='' @ v @ ''&'') ps))\<rparr>"

text \<open>A runtime whose \<open>encodeURIComponent\<close> throws on one given string and is that
  of \<open>example_runtime\<close> on every other. The built-in throws on a string with a lone
  surrogate, which no string of the model is; in the example below the string
  \<open>U+D800\<close> stands for one.\<close>

definition rejecting :: "string \<Rightarrow> runtime" where
  "rejecting bad =
     example_runtime\<lparr>encodeURIComponent :=
       (\<lambda>s. if s = bad then None else encodeURIComponent example_runtime s)\<rparr>"

definition noon :: clock where
  "noon = \<lparr>now = 43200000, hours = 12, iso = ''43200000''\<rparr>"

definition evening :: clock where
  "evening = \<lparr>now = 72000000, hours = 20, iso = ''72000000''\<rparr>"

definition kitchen_light :: entity_state where
  "kitchen_light = \<lparr>entity_id = ''light.kitchen'', state = ''on'',
     attributes = \<lparr>friendly_name = Some ''Kitchen'', device_class = None, device_id = None,
       area_id = Some ''kitchen'', battery_level = None, unit_of_measurement = None,
       last_triggered = None, other_attributes = []\<rparr>,
     last_changed = ''1000'', last_updated = ''1000''\<rparr>"

definition bedroom_lamp :: entity_state where
  "bedroom_lamp = \<lparr>entity_id = ''light.bedroom_lamp'', state = ''off'',
     attributes = \<lparr>friendly_name = Some ''Bedroom Lamp'', device_class = None, device_id = None,
       area_id = Some ''bedroom'', battery_level = None, unit_of_measurement = None,
       last_triggered = None, other_attributes = []\<rparr>,
     last_changed = ''1000'', last_updated = ''1000''\<rparr>"

definition hall_sensor :: entity_state where
  "hall_sensor = \<lparr>entity_id = ''sensor.hall_temperature'', state = ''75'',
     attributes = \<lparr>friendly_name = Some ''Hall'', device_class = Some ''temperature'',
       device_id = Some ''dev1'', area_id = Some ''hall'', battery_level = None,
       unit_of_measurement = None, last_triggered = None, other_attributes = []\<rparr>,
     last_changed = ''1000'', last_updated = ''1000''\<rparr>"

definition hall_battery :: entity_state where
  "hall_battery = \<lparr>entity_id = ''sensor.hall_battery'', state = ''12'',
     attributes = \<lparr>friendly_name = Some ''Hall battery'', device_class = Some ''battery'',
       device_id = Some ''dev1'', area_id = Some ''hall'', battery_level = Some 12,
       unit_of_measurement = Some ''%'', last_triggered = None, other_attributes = []\<rparr>,
     last_changed = ''1000'', last_updated = ''1000''\<rparr>"

definition example_helpers :: docs_helpers where
  "example_helpers =
     \<lparr>extractContentFromHtml = (\<lambda>html. \<lparr>title = [], description = [], html_text = html\<rparr>),
      extractYamlExamples = (\<lambda>c. [])\<rparr>"

text \<open>A Home Assistant with the given entity states: it answers \<open>GET /states\<close> and
  \<open>GET /states/<id>\<close>, and 404 to anything else.\<close>

definition json_reply :: "payload \<Rightarrow> exn + response" where
  "json_reply p =
     Inr \<lparr>ok = True, status = 200, statusText = ''OK'',
          content_type = Some ''application/json'', body_text = [], body_json = Some p\<rparr>"

definition example_world :: "entity_state list \<Rightarrow> world" where
  "example_world states =
     (\<lambda>evs url method body.
        if url = SUPERVISOR_API @ ''/states'' \<and> method = ''GET''
        then json_reply (States states)
        else (case find (\<lambda>s. url = SUPERVISOR_API @ ''/states/'' @ entity_id s) states of
                Some s \<Rightarrow> json_reply (State s)
              | None \<Rightarrow>
                  Inr \<lparr>ok = False, status = 404, statusText = ''Not Found'',
                       content_type = Some ''text/plain'', body_text = ''404: Not Found'',
                       body_json = None\<rparr>))"

definition no_arguments :: arguments where
  "no_arguments =
     \<lparr>arg_entity_id = None, arg_domain = None, arg_summarize = None, arg_query = None,
      arg_service = None, arg_target = None, arg_data = None, arg_start_time = None,
      arg_end_time = None, arg_minimal = None, arg_area_id = None, arg_lines = None,
      arg_event_type = None, arg_event_data = None, arg_template = None,
      arg_calendar_entity = None, arg_start = None, arg_end = None, arg_integration = None,
      arg_section = None, arg_version = None, arg_yaml_config = None\<rparr>"

section \<open>Theorems\<close>

lemma length_LOG_LEVELS: "length LOG_LEVELS = 8 \<and> distinct LOG_LEVELS"
  by (simp add: LOG_LEVELS_def)

text \<open>
  C10. The SetLevel handler is atomic on error. For every requested level: if it is one
  of the eight values of \<open>LOG_LEVELS\<close>, the handler returns the empty object and
  \<open>currentLogLevel\<close> is that level afterwards (nothing else of the module state changes);
  otherwise it throws the error "Invalid log level: <level>" and the module state and the
  output are exactly as before.
\<close>

theorem SetLevel_atomic:
  "length LOG_LEVELS = 8 \<and>
   (level \<in> set LOG_LEVELS \<longrightarrow>
      fst (SetLevel clk level (m, evs)) = Inr (JObj []) \<and>
      fst (snd (SetLevel clk level (m, evs))) = m\<lparr>currentLogLevel := level\<rparr>) \<and>
   (level \<notin> set LOG_LEVELS \<longrightarrow>
      SetLevel clk level (m, evs) = (Inl (Error (''Invalid log level: '' @ level)), (m, evs)))"
  by (simp add: SetLevel_def await_def set_currentLogLevel_def sendLog_def emit_def
      return_def throw_def length_LOG_LEVELS)

theorem SetLevel_atomic_witness:
  "fst (SetLevel \<lparr>now = 0, hours = 0, iso = ''t''\<rparr> ''error''
          (\<lparr>currentLogLevel = ''info'', DEPRECATION_PATTERNS = []\<rparr>, [])) = Inr (JObj []) \<and>
   currentLogLevel (fst (snd (SetLevel \<lparr>now = 0, hours = 0, iso = ''t''\<rparr> ''error''
          (\<lparr>currentLogLevel = ''info'', DEPRECATION_PATTERNS = []\<rparr>, [])))) = ''error'' \<and>
   SetLevel \<lparr>now = 0, hours = 0, iso = ''t''\<rparr> ''verbose''
          (\<lparr>currentLogLevel = ''info'', DEPRECATION_PATTERNS = []\<rparr>, [])
     = (Inl (Error ''Invalid log level: verbose''),
        (\<lparr>currentLogLevel = ''info'', DEPRECATION_PATTERNS = []\<rparr>, []))"
  using SetLevel_atomic [of "''error''" "\<lparr>now = 0, hours = 0, iso = ''t''\<rparr>"
          "\<lparr>currentLogLevel = ''info'', DEPRECATION_PATTERNS = []\<rparr>" "[]"]
        SetLevel_atomic [of "''verbose''" "\<lparr>now = 0, hours = 0, iso = ''t''\<rparr>"
          "\<lparr>currentLogLevel = ''info'', DEPRECATION_PATTERNS = []\<rparr>" "[]"]
  by (simp add: LOG_LEVELS_def)

subsection \<open>detectAnomaly and the clock\<close>

text \<open>
  C1, as stated: two evaluations of \<open>detectAnomaly\<close> on the same entity state give the
  same result at any two wall-clock times. The light rule reads \<open>new Date().getHours()\<close>:
  a light that is on is an anomaly at noon and none at eight in the evening.
\<close>

theorem detectAnomaly_time_counterexample:
  "detectAnomaly example_runtime noon kitchen_light
     \<noteq> detectAnomaly example_runtime evening kitchen_light"
  by (simp add: detectAnomaly_def battery_rule_def temperature_rule_def humidity_rule_def
      opening_rule_def light_rule_def kitchen_light_def split_dot_first_def noon_def
      evening_def)

text \<open>
  C1, amended. \<open>detectAnomaly\<close> keeps no state; its result is a function of the entity
  state and of the clock, read as \<open>Date.now()\<close> and as the local hour. Two evaluations on
  the same state agree when the two readings agree, and they agree at any two times when
  the state fires the battery, temperature or humidity rule, or is neither a door or
  window binary sensor that is on nor a light that is on.
\<close>

theorem detectAnomaly_clock:
  "(now clk = now clk' \<and> hours clk = hours clk' \<longrightarrow>
      detectAnomaly rt clk s = detectAnomaly rt clk' s) \<and>
   (battery_rule rt s \<noteq> None \<or> temperature_rule rt s \<noteq> None \<or> humidity_rule rt s \<noteq> None \<or>
    \<not> (split_dot_first (entity_id s) = ''binary_sensor'' \<and>
         (device_class (attributes s) = Some ''door'' \<or>
          device_class (attributes s) = Some ''window'') \<and>
         state s = ''on'') \<and>
    \<not> (split_dot_first (entity_id s) = ''light'' \<and> state s = ''on'')
    \<longrightarrow> detectAnomaly rt clk s = detectAnomaly rt clk' s)"
  by (auto simp add: detectAnomaly_def opening_rule_def light_rule_def split: option.splits)

theorem detectAnomaly_clock_witness:
  "battery_rule example_runtime hall_battery \<noteq> None \<and>
   detectAnomaly example_runtime noon hall_battery
     = detectAnomaly example_runtime evening hall_battery \<and>
   detectAnomaly example_runtime noon hall_battery
     = Some \<lparr>anomaly_entity_id = ''sensor.hall_battery'', reason = ''Low battery (12%)'',
             anomaly_severity = ''warning''\<rparr>"
proof -
  have b: "battery_rule example_runtime hall_battery
     = Some \<lparr>anomaly_entity_id = ''sensor.hall_battery'', reason = ''Low battery (12%)'',
             anomaly_severity = ''warning''\<rparr>"
    by code_simp
  have d: "detectAnomaly example_runtime noon hall_battery = battery_rule example_runtime hall_battery"
    by (simp add: detectAnomaly_def b)
  from b have "battery_rule example_runtime hall_battery \<noteq> None" by simp
  with detectAnomaly_clock [of noon evening example_runtime hall_battery] b d
  show ?thesis by simp
qed

subsection \<open>searchEntities\<close>

lemma score_term_unmatched: "\<not> str_includes (searchText s) t \<Longrightarrow> score_term s sc t = sc"
  by (simp add: score_term_def)

lemma foldl_score_unmatched:
  "\<forall>t \<in> set terms. \<not> str_includes (searchText s) t \<Longrightarrow> foldl (score_term s) sc terms = sc"
  by (induction terms arbitrary: sc) (simp_all add: score_term_unmatched)

lemma score_of_unmatched:
  "\<forall>t \<in> set terms. \<not> str_includes (searchText s) t \<Longrightarrow> score_of terms s = 0"
  by (simp add: score_of_def foldl_score_unmatched)

lemma searchText_cong:
  "entity_id s = entity_id s' \<Longrightarrow> state s = state s' \<Longrightarrow>
   friendly_name (attributes s) = friendly_name (attributes s') \<Longrightarrow>
   device_class (attributes s) = device_class (attributes s') \<Longrightarrow>
   searchText s = searchText s'"
  by (simp add: searchText_def)

lemma sort_by_score_desc:
  "sorted_wrt (\<lambda>a b. snd a \<ge> snd b) (sort_key (\<lambda>r. - int (snd r)) (xs :: ('a \<times> nat) list))"
proof -
  have "sorted (map (\<lambda>r. - int (snd r)) (sort_key (\<lambda>r. - int (snd r)) xs))"
    by (rule sorted_sort_key)
  then show ?thesis
    by (simp add: sorted_map sorted_wrt_iff_nth_less)
qed

lemma searchEntities_ranked:
  "searchEntities states query =
     map (\<lambda>r. \<lparr>result_entity_id = entity_id (fst r), result_state = state (fst r),
                 result_friendly_name = friendly_name (attributes (fst r)),
                 result_device_class = device_class (attributes (fst r)),
                 score = snd r\<rparr>) (ranked states query)"
  by (simp add: searchEntities_def ranked_def Let_def)

lemma ranked_member:
  assumes "r \<in> set (ranked states query)"
  shows "fst r \<in> set states \<and> snd r = score_of (split_ws (toLowerCase query)) (fst r) \<and> 0 < snd r"
proof -
  from assms have "r \<in> set (sort_key (\<lambda>r. - int (snd r))
       (filter (\<lambda>r. snd r > 0) (map (\<lambda>s. (s, score_of (split_ws (toLowerCase query)) s)) states)))"
    unfolding ranked_def by (rule in_set_takeD)
  then show ?thesis by auto
qed

lemma ranked_sorted: "sorted_wrt (\<lambda>a b. snd a \<ge> snd b) (ranked states query)"
  unfolding ranked_def by (rule sorted_wrt_take) (rule sort_by_score_desc)

text \<open>
  C8. For every list of entity states and every query, \<open>searchEntities\<close> returns at most
  20 results, every result has a strictly positive score, the scores never increase along
  the list, and an entity of the input whose search text (entity id, friendly name,
  device class and state, lower-cased) contains none of the terms of the lower-cased
  query split at white space has no result: no result carries its entity id, state,
  friendly name and device class.
\<close>

theorem searchEntities_properties:
  "length (searchEntities states query) \<le> 20 \<and>
   (\<forall>r \<in> set (searchEntities states query). 0 < score r) \<and>
   sorted_wrt (\<lambda>a b. score a \<ge> score b) (searchEntities states query) \<and>
   (\<forall>s \<in> set states.
      (\<forall>t \<in> set (split_ws (toLowerCase query)). \<not> str_includes (searchText s) t) \<longrightarrow>
      (\<forall>r \<in> set (searchEntities states query).
         \<not> (result_entity_id r = entity_id s \<and> result_state r = state s \<and>
            result_friendly_name r = friendly_name (attributes s) \<and>
            result_device_class r = device_class (attributes s))))"
proof (intro conjI ballI impI)
  show "length (searchEntities states query) \<le> 20"
    by (simp add: searchEntities_ranked ranked_def)
next
  fix r assume "r \<in> set (searchEntities states query)"
  then obtain p where p: "p \<in> set (ranked states query)" and r: "score r = snd p"
    by (auto simp add: searchEntities_ranked)
  with ranked_member [OF p] show "0 < score r" by simp
next
  show "sorted_wrt (\<lambda>a b. score a \<ge> score b) (searchEntities states query)"
    using ranked_sorted [of states query]
    by (simp add: searchEntities_ranked sorted_wrt_map)
next
  fix s r
  assume s: "s \<in> set states"
    and none: "\<forall>t \<in> set (split_ws (toLowerCase query)). \<not> str_includes (searchText s) t"
    and "r \<in> set (searchEntities states query)"
  then obtain p where p: "p \<in> set (ranked states query)"
    and r: "result_entity_id r = entity_id (fst p)" "result_state r = state (fst p)"
      "result_friendly_name r = friendly_name (attributes (fst p))"
      "result_device_class r = device_class (attributes (fst p))"
    by (auto simp add: searchEntities_ranked)
  show "\<not> (result_entity_id r = entity_id s \<and> result_state r = state s \<and>
            result_friendly_name r = friendly_name (attributes s) \<and>
            result_device_class r = device_class (attributes s))"
  proof
    assume same: "result_entity_id r = entity_id s \<and> result_state r = state s \<and>
            result_friendly_name r = friendly_name (attributes s) \<and>
            result_device_class r = device_class (attributes s)"
    with r have "searchText (fst p) = searchText s"
      by (intro searchText_cong) simp_all
    with none have "score_of (split_ws (toLowerCase query)) (fst p) = 0"
      by (intro score_of_unmatched) simp
    with ranked_member [OF p] show False by auto
  qed
qed

theorem searchEntities_properties_witness:
  "searchEntities [hall_sensor, bedroom_lamp] ''Bedroom LAMP''
     = [\<lparr>result_entity_id = ''light.bedroom_lamp'', result_state = ''off'',
         result_friendly_name = Some ''Bedroom Lamp'', result_device_class = None,
         score = 8\<rparr>] \<and>
   split_ws (toLowerCase ''Bedroom LAMP'') = [''bedroom'', ''lamp''] \<and>
   \<not> str_includes (searchText hall_sensor) ''bedroom'' \<and>
   \<not> str_includes (searchText hall_sensor) ''lamp'' \<and>
   length (searchEntities [hall_sensor, bedroom_lamp] ''Bedroom LAMP'') \<le> 20"
proof -
  have a: "searchEntities [hall_sensor, bedroom_lamp] ''Bedroom LAMP''
     = [\<lparr>result_entity_id = ''light.bedroom_lamp'', result_state = ''off'',
         result_friendly_name = Some ''Bedroom Lamp'', result_device_class = None,
         score = 8\<rparr>]"
    by code_simp
  have b: "split_ws (toLowerCase ''Bedroom LAMP'') = [''bedroom'', ''lamp'']"
    by code_simp
  have c: "\<not> str_includes (searchText hall_sensor) ''bedroom''"
    by code_simp
  have d: "\<not> str_includes (searchText hall_sensor) ''lamp''"
    by code_simp
  from searchEntities_properties [of "[hall_sensor, bedroom_lamp]" "''Bedroom LAMP''"] a b c d
  show ?thesis by simp
qed

subsection \<open>What the handlers do to the state and to the outside\<close>

named_theorems appends_intros

lemma appends_return [appends_intros]: "appends P (return x)"
  by (simp add: appends_def return_def)

lemma appends_throw [appends_intros]: "appends P (throw e)"
  by (simp add: appends_def throw_def)

lemma appends_await [appends_intros]:
  assumes "appends P m" and "\<And>x. appends P (f x)"
  shows "appends P (await m f)"
  unfolding appends_def
proof (intro allI impI)
  fix ms evs assume t: "table_intact ms"
  from assms(1) t obtain new1 where 1: "snd (m (ms, evs)) = (ms, evs @ new1)" "list_all P new1"
    unfolding appends_def by blast
  then obtain r where mr: "m (ms, evs) = (r, (ms, evs @ new1))"
    by (cases "m (ms, evs)") auto
  show "\<exists>new. snd (await m f (ms, evs)) = (ms, evs @ new) \<and> list_all P new"
  proof (cases r)
    case (Inl e)
    with mr have "snd (await m f (ms, evs)) = (ms, evs @ new1)"
      by (simp add: await_def)
    with 1 show ?thesis by blast
  next
    case (Inr x)
    from assms(2) [of x] t obtain new2
      where 2: "snd (f x (ms, evs @ new1)) = (ms, (evs @ new1) @ new2)" "list_all P new2"
      unfolding appends_def by blast
    from Inr mr have "await m f (ms, evs) = f x (ms, evs @ new1)"
      by (simp add: await_def)
    with 2 have "snd (await m f (ms, evs)) = (ms, evs @ (new1 @ new2))" by simp
    moreover from 1 2 have "list_all P (new1 @ new2)" by simp
    ultimately show ?thesis by blast
  qed
qed

lemma appends_try_catch [appends_intros]:
  assumes "appends P m" and "\<And>e. appends P (h e)"
  shows "appends P (try_catch m h)"
  unfolding appends_def
proof (intro allI impI)
  fix ms evs assume t: "table_intact ms"
  from assms(1) t obtain new1 where 1: "snd (m (ms, evs)) = (ms, evs @ new1)" "list_all P new1"
    unfolding appends_def by blast
  then obtain r where mr: "m (ms, evs) = (r, (ms, evs @ new1))"
    by (cases "m (ms, evs)") auto
  show "\<exists>new. snd (try_catch m h (ms, evs)) = (ms, evs @ new) \<and> list_all P new"
  proof (cases r)
    case (Inr x)
    with mr have "snd (try_catch m h (ms, evs)) = (ms, evs @ new1)"
      by (simp add: try_catch_def)
    with 1 show ?thesis by blast
  next
    case (Inl e)
    from assms(2) [of e] t obtain new2
      where 2: "snd (h e (ms, evs @ new1)) = (ms, (evs @ new1) @ new2)" "list_all P new2"
      unfolding appends_def by blast
    from Inl mr have "try_catch m h (ms, evs) = h e (ms, evs @ new1)"
      by (simp add: try_catch_def)
    with 2 have "snd (try_catch m h (ms, evs)) = (ms, evs @ (new1 @ new2))" by simp
    moreover from 1 2 have "list_all P (new1 @ new2)" by simp
    ultimately show ?thesis by blast
  qed
qed

lemma appends_attempt [appends_intros]:
  assumes "appends P m"
  shows "appends P (attempt m)"
  unfolding appends_def
proof (intro allI impI)
  fix ms evs assume t: "table_intact ms"
  from assms t obtain new1 where 1: "snd (m (ms, evs)) = (ms, evs @ new1)" "list_all P new1"
    unfolding appends_def by blast
  then have "snd (attempt m (ms, evs)) = (ms, evs @ new1)"
    by (cases "m (ms, evs)") (auto simp add: attempt_def)
  with 1 show "\<exists>new. snd (attempt m (ms, evs)) = (ms, evs @ new) \<and> list_all P new" by blast
qed

lemma appends_lift [appends_intros]: "appends P (lift r)"
  by (cases r) (simp_all add: lift_def appends_intros)

lemma appends_encoded [appends_intros]: "appends P (encoded rt s)"
  by (cases "encodeURIComponent rt s") (simp_all add: encoded_def appends_intros)

lemma appends_emit: "P ev \<Longrightarrow> appends P (emit ev)"
  by (simp add: appends_def emit_def)

lemma appends_sendLog [appends_intros]:
  "(\<And>l g d t. P (Stderr l g d t)) \<Longrightarrow> appends P (sendLog clk level logger data)"
  by (simp add: appends_def sendLog_def emit_def)

lemma appends_fetch: "P (Fetch url method body) \<Longrightarrow> appends P (fetch W url method body)"
  by (simp add: appends_def fetch_def)

lemma appends_callHA [appends_intros]:
  assumes "\<And>l g d t. P (Stderr l g d t)"
    and "\<And>u m b. prefix SUPERVISOR_API u \<Longrightarrow> P (Fetch u m b)"
  shows "appends P (callHA W clk endpoint method body)"
  unfolding callHA_def
  by (auto intro!: appends_intros appends_fetch assms split: option.split)

lemma appends_fetchUrl [appends_intros]:
  assumes "\<And>l g d t. P (Stderr l g d t)"
    and "P (Fetch url ''GET'' None)"
  shows "appends P (fetchUrl W clk url)"
  unfolding fetchUrl_def
  by (auto intro!: appends_intros appends_fetch assms)

lemma appends_respond [appends_intros]: "appends P (respond t a p)"
  by (simp add: respond_def appends_intros)

lemma appends_contents [appends_intros]: "appends P (contents u mt t a p)"
  by (simp add: contents_def appends_intros)

lemma appends_defined [appends_intros]: "appends P (defined args)"
  by (simp add: defined_def appends_intros split: option.split)

lemma appends_as_states [appends_intros]: "appends P (as_states p)"
  by (simp add: as_states_def appends_intros split: payload.split json.split list.split)

lemma appends_as_iterable [appends_intros]: "appends P (as_iterable p)"
  by (simp add: as_iterable_def appends_intros split: payload.split json.split list.split)

lemma appends_as_state [appends_intros]: "appends P (as_state p)"
  by (simp add: as_state_def appends_intros split: payload.split)

lemma appends_filter_by_domain [appends_intros]: "appends P (filter_by_domain d p)"
  by (simp add: filter_by_domain_def appends_intros)

lemma appends_diagnose_finish [appends_intros]: "appends P (diagnose_finish rt d)"
  by (simp add: diagnose_finish_def appends_intros)

lemma appends_getEntityRelationships [appends_intros]:
  assumes "\<And>l g d t. P (Stderr l g d t)"
    and "\<And>u m b. prefix SUPERVISOR_API u \<Longrightarrow> P (Fetch u m b)"
  shows "appends P (getEntityRelationships W clk entityId)"
  unfolding getEntityRelationships_def
  by (intro appends_intros assms)

lemma appends_get_states:
  assumes "\<And>l g d t. P (Stderr l g d t)"
    and "\<And>u m b. prefix SUPERVISOR_API u \<Longrightarrow> P (Fetch u m b)"
  shows "appends P (tool_get_states rt W clk args)"
  unfolding tool_get_states_def Let_def
  by (auto intro!: appends_intros assms split: option.split sum.split json.split)

lemma appends_search_entities:
  assumes "\<And>l g d t. P (Stderr l g d t)"
    and "\<And>u m b. prefix SUPERVISOR_API u \<Longrightarrow> P (Fetch u m b)"
  shows "appends P (tool_search_entities rt W clk args)"
  unfolding tool_search_entities_def Let_def
  by (auto intro!: appends_intros assms split: option.split sum.split json.split)

lemma appends_get_entity_details:
  assumes "\<And>l g d t. P (Stderr l g d t)"
    and "\<And>u m b. prefix SUPERVISOR_API u \<Longrightarrow> P (Fetch u m b)"
  shows "appends P (tool_get_entity_details rt W clk args)"
  unfolding tool_get_entity_details_def Let_def
  by (auto intro!: appends_intros assms split: option.split sum.split json.split)

lemma appends_call_service:
  assumes "\<And>l g d t. P (Stderr l g d t)"
    and "\<And>u m b. prefix SUPERVISOR_API u \<Longrightarrow> P (Fetch u m b)"
  shows "appends P (tool_call_service rt W clk args)"
  unfolding tool_call_service_def Let_def
  by (auto intro!: appends_intros assms split: option.split sum.split json.split)

lemma appends_get_services:
  assumes "\<And>l g d t. P (Stderr l g d t)"
    and "\<And>u m b. prefix SUPERVISOR_API u \<Longrightarrow> P (Fetch u m b)"
  shows "appends P (tool_get_services rt W clk args)"
  unfolding tool_get_services_def Let_def
  by (auto intro!: appends_intros assms split: option.split sum.split json.split)

lemma appends_get_history:
  assumes "\<And>l g d t. P (Stderr l g d t)"
    and "\<And>u m b. prefix SUPERVISOR_API u \<Longrightarrow> P (Fetch u m b)"
  shows "appends P (tool_get_history rt W clk args)"
  unfolding tool_get_history_def Let_def
  by (auto intro!: appends_intros assms split: option.split sum.split json.split)

lemma appends_get_logbook:
  assumes "\<And>l g d t. P (Stderr l g d t)"
    and "\<And>u m b. prefix SUPERVISOR_API u \<Longrightarrow> P (Fetch u m b)"
  shows "appends P (tool_get_logbook rt W clk args)"
  unfolding tool_get_logbook_def Let_def
  by (auto intro!: appends_intros assms split: option.split sum.split json.split)

lemma appends_get_config:
  assumes "\<And>l g d t. P (Stderr l g d t)"
    and "\<And>u m b. prefix SUPERVISOR_API u \<Longrightarrow> P (Fetch u m b)"
  shows "appends P (tool_get_config rt W clk args)"
  unfolding tool_get_config_def Let_def
  by (auto intro!: appends_intros assms split: option.split sum.split json.split)

lemma appends_get_areas:
  assumes "\<And>l g d t. P (Stderr l g d t)"
    and "\<And>u m b. prefix SUPERVISOR_API u \<Longrightarrow> P (Fetch u m b)"
  shows "appends P (tool_get_areas rt W clk args)"
  unfolding tool_get_areas_def Let_def
  by (auto intro!: appends_intros assms split: option.split sum.split json.split)

lemma appends_get_devices:
  assumes "\<And>l g d t. P (Stderr l g d t)"
    and "\<And>u m b. prefix SUPERVISOR_API u \<Longrightarrow> P (Fetch u m b)"
  shows "appends P (tool_get_devices rt W clk args)"
  unfolding tool_get_devices_def Let_def
  by (auto intro!: appends_intros assms split: option.split sum.split json.split)

lemma appends_validate_config:
  assumes "\<And>l g d t. P (Stderr l g d t)"
    and "\<And>u m b. prefix SUPERVISOR_API u \<Longrightarrow> P (Fetch u m b)"
  shows "appends P (tool_validate_config rt W clk args)"
  unfolding tool_validate_config_def Let_def
  by (auto intro!: appends_intros assms split: option.split sum.split json.split)

lemma appends_get_error_log:
  assumes "\<And>l g d t. P (Stderr l g d t)"
    and "\<And>u m b. prefix SUPERVISOR_API u \<Longrightarrow> P (Fetch u m b)"
  shows "appends P (tool_get_error_log rt W clk args)"
  unfolding tool_get_error_log_def Let_def
  by (auto intro!: appends_intros assms split: option.split sum.split json.split)

lemma appends_fire_event:
  assumes "\<And>l g d t. P (Stderr l g d t)"
    and "\<And>u m b. prefix SUPERVISOR_API u \<Longrightarrow> P (Fetch u m b)"
  shows "appends P (tool_fire_event rt W clk args)"
  unfolding tool_fire_event_def Let_def
  by (auto intro!: appends_intros assms split: option.split sum.split json.split)

lemma appends_render_template:
  assumes "\<And>l g d t. P (Stderr l g d t)"
    and "\<And>u m b. prefix SUPERVISOR_API u \<Longrightarrow> P (Fetch u m b)"
  shows "appends P (tool_render_template rt W clk args)"
  unfolding tool_render_template_def Let_def
  by (auto intro!: appends_intros assms split: option.split sum.split json.split)

lemma appends_get_calendars:
  assumes "\<And>l g d t. P (Stderr l g d t)"
    and "\<And>u m b. prefix SUPERVISOR_API u \<Longrightarrow> P (Fetch u m b)"
  shows "appends P (tool_get_calendars rt W clk args)"
  unfolding tool_get_calendars_def Let_def
  by (auto intro!: appends_intros assms split: option.split sum.split json.split)

lemma appends_get_calendar_events:
  assumes "\<And>l g d t. P (Stderr l g d t)"
    and "\<And>u m b. prefix SUPERVISOR_API u \<Longrightarrow> P (Fetch u m b)"
  shows "appends P (tool_get_calendar_events rt W clk args)"
  unfolding tool_get_calendar_events_def Let_def
  by (auto intro!: appends_intros assms split: option.split sum.split json.split)

lemma appends_detect_anomalies:
  assumes "\<And>l g d t. P (Stderr l g d t)"
    and "\<And>u m b. prefix SUPERVISOR_API u \<Longrightarrow> P (Fetch u m b)"
  shows "appends P (tool_detect_anomalies rt W clk args)"
  unfolding tool_detect_anomalies_def Let_def
  by (auto intro!: appends_intros assms split: option.split sum.split json.split)

lemma appends_get_suggestions:
  assumes "\<And>l g d t. P (Stderr l g d t)"
    and "\<And>u m b. prefix SUPERVISOR_API u \<Longrightarrow> P (Fetch u m b)"
  shows "appends P (tool_get_suggestions rt W clk args)"
  unfolding tool_get_suggestions_def Let_def
  by (auto intro!: appends_intros assms split: option.split sum.split json.split)

lemma appends_diagnose_entity:
  assumes "\<And>l g d t. P (Stderr l g d t)"
    and "\<And>u m b. prefix SUPERVISOR_API u \<Longrightarrow> P (Fetch u m b)"
  shows "appends P (tool_diagnose_entity rt W clk args)"
  unfolding tool_diagnose_entity_def Let_def
  by (auto intro!: appends_intros assms split: option.split sum.split json.split)

lemma table_flags:
  "\<forall>p \<in> set DEPRECATION_PATTERNS_table. flags (pattern p) = ''m''"
  by (simp add: DEPRECATION_PATTERNS_table_def regex_def)

lemma RegExp_test_stateless:
  "CHR ''g'' \<notin> set (flags r) \<Longrightarrow> CHR ''y'' \<notin> set (flags r) \<Longrightarrow>
   RegExp_test rt r s = (RegExp_exec rt (source r) (flags r) 0 s \<noteq> None, r)"
  by (simp add: RegExp_test_def)

lemma check_patterns_keeps:
  "\<forall>p \<in> set ps. CHR ''g'' \<notin> set (flags (pattern p)) \<and> CHR ''y'' \<notin> set (flags (pattern p)) \<Longrightarrow>
   snd (check_patterns rt y integ ps acc) = ps"
  by (induction ps arbitrary: acc)
     (simp_all add: RegExp_test_stateless Let_def split_beta)

lemma check_patterns_table:
  "snd (check_patterns rt y integ DEPRECATION_PATTERNS_table acc) = DEPRECATION_PATTERNS_table"
  by (rule check_patterns_keeps) (use table_flags in auto)

lemma appends_checkConfig [appends_intros]:
  "appends P (checkConfigForDeprecations rt y integ)"
  unfolding appends_def
proof (intro allI impI)
  fix m evs assume "table_intact m"
  then have t: "DEPRECATION_PATTERNS m = DEPRECATION_PATTERNS_table"
    by (simp add: table_intact_def)
  obtain res ps' where c: "check_patterns rt (template_string y) integ DEPRECATION_PATTERNS_table
        \<lparr>deprecated = False, warnings = [], suggestions = []\<rparr> = (res, ps')"
    by (cases "check_patterns rt (template_string y) integ DEPRECATION_PATTERNS_table
        \<lparr>deprecated = False, warnings = [], suggestions = []\<rparr>")
  with check_patterns_table [of rt "template_string y" integ
        "\<lparr>deprecated = False, warnings = [], suggestions = []\<rparr>"]
  have "ps' = DEPRECATION_PATTERNS_table" by simp
  with t have "m\<lparr>DEPRECATION_PATTERNS := ps'\<rparr> = m" by simp
  with c t have "snd (checkConfigForDeprecations rt y integ (m, evs)) = (m, evs @ [])"
    by (simp add: checkConfigForDeprecations_def)
  then show "\<exists>new. snd (checkConfigForDeprecations rt y integ (m, evs)) = (m, evs @ new) \<and> list_all P new"
    by (intro exI [of _ "[]"]) simp
qed



lemma appends_if [appends_intros]:
  "appends P a \<Longrightarrow> appends P b \<Longrightarrow> appends P (if c then a else b)"
  by simp

lemma appends_Let [appends_intros]:
  "appends P (f v) \<Longrightarrow> appends P (Let v f)"
  by simp

lemma appends_case_option [appends_intros]:
  "appends P a \<Longrightarrow> (\<And>x. appends P (f x)) \<Longrightarrow>
   appends P (case v of None \<Rightarrow> a | Some x \<Rightarrow> f x)"
  by (cases v) simp_all

lemma appends_check_config_syntax:
  assumes "\<And>l g d t. P (Stderr l g d t)"
  shows "appends P (tool_check_config_syntax rt clk args)"
  unfolding tool_check_config_syntax_def
  by (intro appends_intros assms)

lemma appends_get_haVersion [appends_intros]:
  assumes "\<And>l g d t. P (Stderr l g d t)"
    and "\<And>u m b. prefix SUPERVISOR_API u \<Longrightarrow> P (Fetch u m b)"
  shows "appends P (get_haVersion W clk)"
  unfolding get_haVersion_def
  by (intro appends_intros assms)

lemma docs_prefix: "prefix HA_DOCS_BASE (HA_INTEGRATIONS_URL @ x)" "prefix HA_DOCS_BASE (HA_BLOG_URL @ x)"
  by (simp_all add: HA_INTEGRATIONS_URL_def HA_BLOG_URL_def)

lemma appends_get_integration_docs:
  "appends docs_api_or_log (tool_get_integration_docs rt dh W clk args)"
  unfolding tool_get_integration_docs_def
  by (intro appends_intros; simp add: HA_INTEGRATIONS_URL_def)

lemma appends_get_breaking_changes:
  "appends docs_api_or_log (tool_get_breaking_changes rt dh W clk args)"
  unfolding tool_get_breaking_changes_def
  by (intro appends_intros; simp add: HA_BLOG_URL_def)

lemmas appends_tools = appends_get_states appends_search_entities appends_get_entity_details
  appends_call_service appends_get_services appends_get_history appends_get_logbook
  appends_get_config appends_get_areas appends_get_devices appends_validate_config
  appends_get_error_log appends_fire_event appends_render_template appends_get_calendars
  appends_get_calendar_events appends_detect_anomalies appends_get_suggestions
  appends_diagnose_entity

lemma appends_mono:
  assumes "appends P c" and "\<And>ev. P ev \<Longrightarrow> Q ev"
  shows "appends Q c"
  unfolding appends_def
proof (intro allI impI)
  fix m evs assume "table_intact m"
  with assms(1) obtain new where n: "snd (c (m, evs)) = (m, evs @ new)" "list_all P new"
    unfolding appends_def by blast
  from n(2) assms(2) have "list_all Q new" by (auto simp add: list_all_iff)
  with n(1) show "\<exists>new. snd (c (m, evs)) = (m, evs @ new) \<and> list_all Q new" by blast
qed

lemma log_only_api [simp]: "log_only ev \<Longrightarrow> api_or_log ev"
  by (cases ev) simp_all

lemma api_docs [simp]: "api_or_log ev \<Longrightarrow> docs_api_or_log ev"
  by (cases ev) simp_all

lemmas appends_tools_api = appends_tools [of api_or_log, simplified]

lemma appends_check_config_syntax_log:
  "appends log_only (tool_check_config_syntax rt clk args)"
  by (rule appends_check_config_syntax) simp

lemma appends_check_config_syntax_api:
  "appends api_or_log (tool_check_config_syntax rt clk args)"
  by (rule appends_check_config_syntax) simp

lemma appends_dispatch_check_config_syntax:
  "appends log_only (dispatch rt dh W clk ''check_config_syntax'' args)"
  by (simp add: dispatch_def appends_check_config_syntax_log)

lemma appends_dispatch_api:
  assumes "name \<noteq> ''get_integration_docs''" and "name \<noteq> ''get_breaking_changes''"
  shows "appends api_or_log (dispatch rt dh W clk name args)"
  using assms
  by (simp add: dispatch_def appends_tools_api appends_check_config_syntax_api appends_throw)

lemma appends_dispatch:
  "appends docs_api_or_log (dispatch rt dh W clk name args)"
proof (cases "name = ''get_integration_docs'' \<or> name = ''get_breaking_changes''")
  case True
  then show ?thesis
  proof
    assume "name = ''get_integration_docs''"
    then show ?thesis by (simp add: dispatch_def appends_get_integration_docs)
  next
    assume "name = ''get_breaking_changes''"
    then show ?thesis by (simp add: dispatch_def appends_get_breaking_changes)
  qed
next
  case False
  then have "appends api_or_log (dispatch rt dh W clk name args)"
    by (intro appends_dispatch_api) simp_all
  then show ?thesis by (rule appends_mono) simp
qed

lemma appends_CallTool:
  "appends docs_api_or_log (CallTool rt dh W clk name args)"
  unfolding CallTool_def
  by (intro appends_intros appends_dispatch; simp)

lemma appends_states_of_domain [appends_intros]:
  assumes "\<And>l g d t. P (Stderr l g d t)"
    and "\<And>u m b. prefix SUPERVISOR_API u \<Longrightarrow> P (Fetch u m b)"
  shows "appends P (states_of_domain W clk d)"
  unfolding states_of_domain_def
  by (intro appends_intros assms)

lemma appends_read_resource:
  "appends api_or_log (read_resource rt W clk uri)"
  unfolding read_resource_def
  by (intro appends_intros; simp)

lemma appends_ReadResource:
  "appends api_or_log (ReadResource rt W clk uri)"
  unfolding ReadResource_def
  by (intro appends_intros appends_read_resource; simp)

lemma appends_get_prompt: "appends P (get_prompt name args)"
  unfolding get_prompt_def
  by (intro appends_intros)

lemma appends_GetPrompt:
  "appends log_only (GetPrompt clk name args)"
  unfolding GetPrompt_def
  by (intro appends_intros appends_get_prompt; simp)

lemma appends_lists:
  "appends log_only (ListTools clk)" "appends log_only (ListResources clk)"
  "appends log_only ListResourceTemplates" "appends log_only (ListPrompts clk)"
  unfolding ListTools_def ListResources_def ListResourceTemplates_def ListPrompts_def
  by (intro appends_intros; simp)+


named_theorems calls_intros

lemma appends_case_sum [appends_intros]:
  "(\<And>e. appends P (f e)) \<Longrightarrow> (\<And>x. appends P (g x)) \<Longrightarrow>
   appends P (case v of Inl e \<Rightarrow> f e | Inr x \<Rightarrow> g x)"
  by (cases v) simp_all

lemma appends_case_json [appends_intros]:
  "appends P a \<Longrightarrow> (\<And>b. appends P (f1 b)) \<Longrightarrow> (\<And>n. appends P (f2 n)) \<Longrightarrow>
   (\<And>s. appends P (f3 s)) \<Longrightarrow> (\<And>xs. appends P (f4 xs)) \<Longrightarrow>
   (\<And>kvs. appends P (f5 kvs)) \<Longrightarrow>
   appends P (case j of JNull \<Rightarrow> a | JBool b \<Rightarrow> f1 b | JNum n \<Rightarrow> f2 n | JStr s \<Rightarrow> f3 s
                      | JArr xs \<Rightarrow> f4 xs | JObj kvs \<Rightarrow> f5 kvs)"
  by (cases j) simp_all

lemma calls_apiI:
  assumes "appends (\<lambda>_. True) c"
    and "\<And>m evs new. table_intact m \<Longrightarrow> snd (c (m, evs)) = (m, evs @ new) \<Longrightarrow>
           list_ex is_supervisor_call new"
  shows "calls_api c"
  unfolding calls_api_def
proof (intro allI impI)
  fix m evs assume t: "table_intact m"
  with assms(1) obtain new where "snd (c (m, evs)) = (m, evs @ new)"
    unfolding appends_def by blast
  with assms(2) [OF t] show "\<exists>new. snd (c (m, evs)) = (m, evs @ new) \<and> list_ex is_supervisor_call new"
    by blast
qed

lemma calls_await [calls_intros]:
  assumes "calls_api c" and "\<And>x. appends (\<lambda>_. True) (f x)"
  shows "calls_api (await c f)"
  unfolding calls_api_def
proof (intro allI impI)
  fix m evs assume t: "table_intact m"
  from assms(1) t obtain new1
    where 1: "snd (c (m, evs)) = (m, evs @ new1)" "list_ex is_supervisor_call new1"
    unfolding calls_api_def by blast
  then obtain r where cr: "c (m, evs) = (r, (m, evs @ new1))"
    by (cases "c (m, evs)") auto
  show "\<exists>new. snd (await c f (m, evs)) = (m, evs @ new) \<and> list_ex is_supervisor_call new"
  proof (cases r)
    case (Inl e)
    with cr have "snd (await c f (m, evs)) = (m, evs @ new1)" by (simp add: await_def)
    with 1 show ?thesis by blast
  next
    case (Inr x)
    from assms(2) [of x] t obtain new2
      where 2: "snd (f x (m, evs @ new1)) = (m, (evs @ new1) @ new2)"
      unfolding appends_def by blast
    from Inr cr have "await c f (m, evs) = f x (m, evs @ new1)" by (simp add: await_def)
    with 2 have "snd (await c f (m, evs)) = (m, evs @ (new1 @ new2))" by simp
    moreover from 1 have "list_ex is_supervisor_call (new1 @ new2)" by (auto simp add: list_ex_iff)
    ultimately show ?thesis by blast
  qed
qed

lemma calls_try_catch [calls_intros]:
  assumes "calls_api c" and "\<And>e. appends (\<lambda>_. True) (h e)"
  shows "calls_api (try_catch c h)"
  unfolding calls_api_def
proof (intro allI impI)
  fix m evs assume t: "table_intact m"
  from assms(1) t obtain new1
    where 1: "snd (c (m, evs)) = (m, evs @ new1)" "list_ex is_supervisor_call new1"
    unfolding calls_api_def by blast
  then obtain r where cr: "c (m, evs) = (r, (m, evs @ new1))"
    by (cases "c (m, evs)") auto
  show "\<exists>new. snd (try_catch c h (m, evs)) = (m, evs @ new) \<and> list_ex is_supervisor_call new"
  proof (cases r)
    case (Inr x)
    with cr have "snd (try_catch c h (m, evs)) = (m, evs @ new1)" by (simp add: try_catch_def)
    with 1 show ?thesis by blast
  next
    case (Inl e)
    from assms(2) [of e] t obtain new2
      where 2: "snd (h e (m, evs @ new1)) = (m, (evs @ new1) @ new2)"
      unfolding appends_def by blast
    from Inl cr have "try_catch c h (m, evs) = h e (m, evs @ new1)" by (simp add: try_catch_def)
    with 2 have "snd (try_catch c h (m, evs)) = (m, evs @ (new1 @ new2))" by simp
    moreover from 1 have "list_ex is_supervisor_call (new1 @ new2)" by (auto simp add: list_ex_iff)
    ultimately show ?thesis by blast
  qed
qed

lemma calls_attempt [calls_intros]:
  assumes "calls_api c"
  shows "calls_api (attempt c)"
  unfolding calls_api_def
proof (intro allI impI)
  fix m evs assume t: "table_intact m"
  from assms t obtain new1
    where 1: "snd (c (m, evs)) = (m, evs @ new1)" "list_ex is_supervisor_call new1"
    unfolding calls_api_def by blast
  then have "snd (attempt c (m, evs)) = (m, evs @ new1)"
    by (cases "c (m, evs)") (auto simp add: attempt_def)
  with 1 show "\<exists>new. snd (attempt c (m, evs)) = (m, evs @ new) \<and> list_ex is_supervisor_call new"
    by blast
qed

lemma calls_after_sendLog:
  assumes "calls_api c"
  shows "calls_api (await (sendLog clk level logger data) (\<lambda>_. c))"
  unfolding calls_api_def
proof (intro allI impI)
  fix m evs assume t: "table_intact m"
  obtain pre where p: "sendLog clk level logger data (m, evs) = (Inr (), (m, evs @ pre))"
    by (cases "shouldLog m level") (simp_all add: sendLog_def emit_def)
  from assms t obtain new1
    where 1: "snd (c (m, evs @ pre)) = (m, (evs @ pre) @ new1)" "list_ex is_supervisor_call new1"
    unfolding calls_api_def by blast
  from p have "await (sendLog clk level logger data) (\<lambda>_. c) (m, evs) = c (m, evs @ pre)"
    by (simp add: await_def)
  with 1 have "snd (await (sendLog clk level logger data) (\<lambda>_. c) (m, evs)) = (m, evs @ (pre @ new1))"
    by simp
  moreover from 1 have "list_ex is_supervisor_call (pre @ new1)" by (auto simp add: list_ex_iff)
  ultimately show "\<exists>new. snd (await (sendLog clk level logger data) (\<lambda>_. c) (m, evs)) = (m, evs @ new)
      \<and> list_ex is_supervisor_call new" by blast
qed

lemma calls_if [calls_intros]:
  "calls_api a \<Longrightarrow> calls_api b \<Longrightarrow> calls_api (if c then a else b)"
  by simp

lemma calls_Let [calls_intros]: "calls_api (f v) \<Longrightarrow> calls_api (Let v f)"
  by simp


lemma calls_fetch:
  "prefix SUPERVISOR_API url \<Longrightarrow> calls_api (fetch W url method body)"
  by (simp add: calls_api_def fetch_def)

lemma calls_callHA [calls_intros]: "calls_api (callHA W clk endpoint method body)"
  unfolding callHA_def
  by (intro calls_after_sendLog calls_await calls_fetch appends_intros; simp)

lemma await_defined: "await (defined (Some a)) f = f a"
  by (simp add: defined_def await_def return_def)

lemma calls_getEntityRelationships [calls_intros]:
  "calls_api (getEntityRelationships W clk entityId)"
  unfolding getEntityRelationships_def
  by (intro calls_intros appends_intros; simp)

lemma calls_get_haVersion [calls_intros]: "calls_api (get_haVersion W clk)"
  unfolding get_haVersion_def
  by (intro calls_intros appends_intros; simp)

lemma calls_get_states: "calls_api (tool_get_states rt W clk args)"
  unfolding tool_get_states_def
  by (intro calls_intros appends_intros; simp)

lemma calls_get_services: "calls_api (tool_get_services rt W clk args)"
  unfolding tool_get_services_def
  by (intro calls_intros appends_intros; simp)

lemma calls_get_config: "calls_api (tool_get_config rt W clk args)"
  unfolding tool_get_config_def
  by (intro calls_intros appends_intros; simp)

lemma calls_get_areas: "calls_api (tool_get_areas rt W clk args)"
  unfolding tool_get_areas_def
  by (intro calls_intros appends_intros; simp)

lemma calls_get_devices: "calls_api (tool_get_devices rt W clk args)"
  unfolding tool_get_devices_def
  by (intro calls_intros appends_intros; simp)

lemma calls_validate_config: "calls_api (tool_validate_config rt W clk args)"
  unfolding tool_validate_config_def
  by (intro calls_intros appends_intros; simp)

lemma calls_get_error_log: "calls_api (tool_get_error_log rt W clk args)"
  unfolding tool_get_error_log_def
  by (intro calls_intros appends_intros; simp)

lemma calls_get_calendars: "calls_api (tool_get_calendars rt W clk args)"
  unfolding tool_get_calendars_def
  by (intro calls_intros appends_intros; simp)

lemma calls_detect_anomalies: "calls_api (tool_detect_anomalies rt W clk args)"
  unfolding tool_detect_anomalies_def
  by (intro calls_intros appends_intros; simp)

lemma calls_get_suggestions: "calls_api (tool_get_suggestions rt W clk args)"
  unfolding tool_get_suggestions_def
  by (intro calls_intros appends_intros; simp)

lemma calls_search_entities: "calls_api (tool_search_entities rt W clk (Some a))"
  unfolding tool_search_entities_def await_defined
  by (intro calls_intros appends_intros; simp)

lemma calls_get_entity_details: "calls_api (tool_get_entity_details rt W clk (Some a))"
  unfolding tool_get_entity_details_def await_defined
  by (intro calls_intros appends_intros; simp)

lemma await_return: "await (return x) f = f x"
  by (simp add: await_def return_def)

lemma encoded_return:
  "s \<in> set (encoded_strings rt clk name args) \<Longrightarrow> encodes rt clk name args \<Longrightarrow>
     \<exists>e. encoded rt s = return e"
proof -
  assume "s \<in> set (encoded_strings rt clk name args)" and "encodes rt clk name args"
  then obtain y where "encodeURIComponent rt s = Some y"
    by (auto simp add: encodes_def list_all_iff)
  then have "encoded rt s = return y"
    by (simp add: encoded_def)
  then show ?thesis ..
qed

lemma calls_get_history:
  assumes "encodes rt clk ''get_history'' (Some a)"
  shows "calls_api (tool_get_history rt W clk (Some a))"
proof -
  from encoded_return [OF _ assms, of "startTime_of rt clk a"]
  obtain e where "encoded rt (startTime_of rt clk a) = return e"
    by (auto simp add: encoded_strings_def)
  then show ?thesis
    unfolding tool_get_history_def await_defined Let_def
    by (simp only: await_return) (intro calls_intros appends_intros; simp)
qed

lemma calls_get_logbook:
  assumes "encodes rt clk ''get_logbook'' (Some a)"
  shows "calls_api (tool_get_logbook rt W clk (Some a))"
proof -
  from encoded_return [OF _ assms, of "startTime_of rt clk a"]
  obtain e where "encoded rt (startTime_of rt clk a) = return e"
    by (auto simp add: encoded_strings_def)
  then show ?thesis
    unfolding tool_get_logbook_def await_defined Let_def
    by (simp only: await_return) (intro calls_intros appends_intros; simp)
qed

lemma calls_render_template: "calls_api (tool_render_template rt W clk (Some a))"
  unfolding tool_render_template_def await_defined
  by (intro calls_intros appends_intros; simp)

lemma calls_get_calendar_events:
  assumes "encodes rt clk ''get_calendar_events'' (Some a)"
  shows "calls_api (tool_get_calendar_events rt W clk (Some a))"
proof -
  from encoded_return [OF _ assms, of "start_of clk a"]
  obtain e where e: "encoded rt (start_of clk a) = return e"
    by (auto simp add: encoded_strings_def)
  from encoded_return [OF _ assms, of "end_of rt clk a"]
  obtain e' where e': "encoded rt (end_of rt clk a) = return e'"
    by (auto simp add: encoded_strings_def)
  from e e' show ?thesis
    unfolding tool_get_calendar_events_def await_defined Let_def
    by (simp only: await_return) (intro calls_intros appends_intros; simp)
qed

lemma calls_call_service: "calls_api (tool_call_service rt W clk (Some a))"
  unfolding tool_call_service_def await_defined
  by (rule calls_after_sendLog) (intro calls_intros appends_intros; simp)

lemma calls_fire_event: "calls_api (tool_fire_event rt W clk (Some a))"
  unfolding tool_fire_event_def await_defined
  by (rule calls_after_sendLog) (intro calls_intros appends_intros; simp)

lemma calls_diagnose_entity: "calls_api (tool_diagnose_entity rt W clk (Some a))"
  unfolding tool_diagnose_entity_def await_defined
  by (rule calls_after_sendLog) (intro calls_intros appends_intros; simp)

lemma calls_get_integration_docs: "calls_api (tool_get_integration_docs rt dh W clk (Some a))"
  unfolding tool_get_integration_docs_def await_defined
  by (intro calls_Let, rule calls_after_sendLog)
     (intro calls_intros appends_intros; simp add: HA_INTEGRATIONS_URL_def HA_BLOG_URL_def)

lemma calls_get_breaking_changes: "calls_api (tool_get_breaking_changes rt dh W clk (Some a))"
  unfolding tool_get_breaking_changes_def await_defined
  by (intro calls_Let, rule calls_after_sendLog)
     (intro calls_intros appends_intros; simp add: HA_INTEGRATIONS_URL_def HA_BLOG_URL_def)

subsection \<open>The requests of the tool handlers\<close>

lemmas calls_tools_any = calls_get_states calls_get_services calls_get_config calls_get_areas
  calls_get_devices calls_validate_config calls_get_error_log calls_get_calendars
  calls_detect_anomalies calls_get_suggestions

lemmas calls_tools_args = calls_search_entities calls_get_entity_details calls_get_history
  calls_get_logbook calls_render_template calls_get_calendar_events calls_call_service
  calls_fire_event calls_diagnose_entity calls_get_integration_docs calls_get_breaking_changes

lemma dispatch_simps:
  "dispatch rt dh W clk ''get_states'' args = tool_get_states rt W clk args"
  "dispatch rt dh W clk ''search_entities'' args = tool_search_entities rt W clk args"
  "dispatch rt dh W clk ''get_entity_details'' args = tool_get_entity_details rt W clk args"
  "dispatch rt dh W clk ''call_service'' args = tool_call_service rt W clk args"
  "dispatch rt dh W clk ''get_services'' args = tool_get_services rt W clk args"
  "dispatch rt dh W clk ''get_history'' args = tool_get_history rt W clk args"
  "dispatch rt dh W clk ''get_logbook'' args = tool_get_logbook rt W clk args"
  "dispatch rt dh W clk ''get_config'' args = tool_get_config rt W clk args"
  "dispatch rt dh W clk ''get_areas'' args = tool_get_areas rt W clk args"
  "dispatch rt dh W clk ''get_devices'' args = tool_get_devices rt W clk args"
  "dispatch rt dh W clk ''validate_config'' args = tool_validate_config rt W clk args"
  "dispatch rt dh W clk ''get_error_log'' args = tool_get_error_log rt W clk args"
  "dispatch rt dh W clk ''fire_event'' args = tool_fire_event rt W clk args"
  "dispatch rt dh W clk ''render_template'' args = tool_render_template rt W clk args"
  "dispatch rt dh W clk ''get_calendars'' args = tool_get_calendars rt W clk args"
  "dispatch rt dh W clk ''get_calendar_events'' args = tool_get_calendar_events rt W clk args"
  "dispatch rt dh W clk ''detect_anomalies'' args = tool_detect_anomalies rt W clk args"
  "dispatch rt dh W clk ''get_suggestions'' args = tool_get_suggestions rt W clk args"
  "dispatch rt dh W clk ''diagnose_entity'' args = tool_diagnose_entity rt W clk args"
  "dispatch rt dh W clk ''get_integration_docs'' args = tool_get_integration_docs rt dh W clk args"
  "dispatch rt dh W clk ''get_breaking_changes'' args = tool_get_breaking_changes rt dh W clk args"
  "dispatch rt dh W clk ''check_config_syntax'' args = tool_check_config_syntax rt clk args"
  by (simp_all add: dispatch_def)

lemma calls_dispatch_any:
  assumes "name \<in> set TOOLS_without_required_arguments"
  shows "calls_api (dispatch rt dh W clk name args)"
proof -
  from assms consider "name = ''get_states''" | "name = ''get_services''" | "name = ''get_config''"
    | "name = ''get_areas''" | "name = ''get_devices''" | "name = ''validate_config''"
    | "name = ''get_error_log''" | "name = ''get_calendars''" | "name = ''detect_anomalies''"
    | "name = ''get_suggestions''"
    unfolding TOOLS_without_required_arguments_def by fastforce
  then show ?thesis
    by cases (simp_all only: dispatch_simps calls_tools_any)
qed

lemma calls_dispatch_args:
  assumes "name \<in> set TOOLS" and "name \<noteq> ''check_config_syntax''"
    and "encodes rt clk name (Some a)"
  shows "calls_api (dispatch rt dh W clk name (Some a))"
proof -
  from assms(1,2) consider "name \<in> set TOOLS_without_required_arguments"
    | "name = ''search_entities''" | "name = ''get_entity_details''" | "name = ''call_service''"
    | "name = ''get_history''" | "name = ''get_logbook''" | "name = ''fire_event''"
    | "name = ''render_template''" | "name = ''get_calendar_events''"
    | "name = ''diagnose_entity''" | "name = ''get_integration_docs''"
    | "name = ''get_breaking_changes''"
    unfolding TOOLS_def TOOLS_without_required_arguments_def by fastforce
  then show ?thesis
    using assms(3)
    by cases (simp_all only: dispatch_simps calls_tools_args calls_dispatch_any)
qed

lemma calls_dispatch:
  assumes "name \<in> set TOOLS" and "name \<noteq> ''check_config_syntax''"
    and "args \<noteq> None \<or> name \<in> set TOOLS_without_required_arguments"
    and "encodes rt clk name args"
  shows "calls_api (dispatch rt dh W clk name args)"
proof (cases args)
  case None
  with assms(3) show ?thesis by (simp add: calls_dispatch_any)
next
  case (Some a)
  with assms(1,2,4) show ?thesis by (simp add: calls_dispatch_args)
qed

lemma calls_CallTool:
  assumes "name \<in> set TOOLS" and "name \<noteq> ''check_config_syntax''"
    and "args \<noteq> None \<or> name \<in> set TOOLS_without_required_arguments"
    and "encodes rt clk name args"
  shows "calls_api (CallTool rt dh W clk name args)"
  unfolding CallTool_def
  by (rule calls_after_sendLog, rule calls_try_catch, rule calls_dispatch [OF assms])
     (intro appends_intros; simp)

lemma appends_CallTool_api:
  assumes "name \<noteq> ''get_integration_docs''" and "name \<noteq> ''get_breaking_changes''"
  shows "appends api_or_log (CallTool rt dh W clk name args)"
  unfolding CallTool_def
  by (intro appends_intros appends_dispatch_api assms; simp)

lemma appends_CallTool_check_config_syntax:
  "appends log_only (CallTool rt dh W clk ''check_config_syntax'' args)"
  unfolding CallTool_def
  by (intro appends_intros appends_dispatch_check_config_syntax; simp)

lemma sendLog_logs:
  "\<exists>new. sendLog clk level logger data (m, evs) = (Inr (), (m, evs @ new)) \<and> list_all log_only new"
  by (cases "shouldLog m level") (simp_all add: sendLog_def emit_def)

lemma encodes_cases:
  assumes "\<not> encodes rt clk name args"
  obtains a where "args = Some a" "name = ''get_history'' \<or> name = ''get_logbook''"
      "encodeURIComponent rt (startTime_of rt clk a) = None"
    | a where "args = Some a" "name = ''get_calendar_events''"
      "encodeURIComponent rt (start_of clk a) = None \<or> encodeURIComponent rt (end_of rt clk a) = None"
  using assms
  by (auto simp add: encodes_def encoded_strings_def split: option.splits if_splits)

lemma dispatch_URIError:
  assumes "\<not> encodes rt clk name args"
  shows "dispatch rt dh W clk name args run = (Inl (URIError ''URI malformed''), run)"
  using assms
proof (cases rule: encodes_cases)
  case (1 a)
  then show ?thesis
    by (auto simp add: dispatch_simps tool_get_history_def tool_get_logbook_def defined_def
        encoded_def await_def throw_def return_def)
next
  case (2 a)
  then show ?thesis
    by (cases "encodeURIComponent rt (start_of clk a)")
       (auto simp add: dispatch_simps tool_get_calendar_events_def defined_def
          encoded_def await_def throw_def return_def)
qed

lemma CallTool_thrown:
  assumes "\<And>run. dispatch rt dh W clk name args run = (Inl e, run)"
  shows "\<exists>new. CallTool rt dh W clk name args (m, evs) = (Inr (error_response e), (m, evs @ new)) \<and>
           list_all log_only new"
proof -
  let ?d1 = "[(''action'', Some (JStr ''call_tool'')), (''tool'', Some (JStr name)),
               (''args'', map_option arguments_json args)]"
  let ?d2 = "[(''action'', Some (JStr ''tool_error'')), (''tool'', Some (JStr name)),
                  (''error'', Some (JStr (message e)))]"
  from sendLog_logs [of clk "''info''" "''mcp-server''" ?d1 m evs] obtain pre
    where 1: "sendLog clk ''info'' ''mcp-server'' ?d1 (m, evs) = (Inr (), (m, evs @ pre))"
      and p1: "list_all log_only pre" by blast
  from sendLog_logs [of clk "''error''" "''mcp-server''" ?d2 m "evs @ pre"] obtain post
    where 2: "sendLog clk ''error'' ''mcp-server'' ?d2 (m, evs @ pre) = (Inr (), (m, (evs @ pre) @ post))"
      and p2: "list_all log_only post" by blast
  from 1 2 assms have "CallTool rt dh W clk name args (m, evs)
      = (Inr (error_response e), (m, evs @ (pre @ post)))"
    by (simp add: CallTool_def await_def try_catch_def return_def)
  moreover from p1 p2 have "list_all log_only (pre @ post)" by simp
  ultimately show ?thesis by blast
qed

lemma sends_or_await:
  assumes "sends_or P E c" and "\<And>x. appends (\<lambda>_. True) (f x)"
  shows "sends_or P E (await c f)"
  unfolding sends_or_def
proof (intro allI impI)
  fix m evs assume t: "table_intact m"
  from assms(1) t obtain r new1
    where 1: "c (m, evs) = (r, (m, evs @ new1))"
      and d: "list_ex P new1 \<or> (\<exists>e. r = Inl e \<and> E e)"
    unfolding sends_or_def by blast
  show "\<exists>r new. await c f (m, evs) = (r, (m, evs @ new)) \<and>
          (list_ex P new \<or> (\<exists>e. r = Inl e \<and> E e))"
  proof (cases r)
    case (Inl e)
    with 1 have "await c f (m, evs) = (Inl e, (m, evs @ new1))" by (simp add: await_def)
    with d Inl show ?thesis by auto
  next
    case (Inr x)
    with d have p: "list_ex P new1" by simp
    from assms(2) [of x] t obtain new2
      where 2: "snd (f x (m, evs @ new1)) = (m, (evs @ new1) @ new2)"
      unfolding appends_def by blast
    from Inr 1 have "await c f (m, evs) = f x (m, evs @ new1)" by (simp add: await_def)
    with 2 have "await c f (m, evs) = (fst (f x (m, evs @ new1)), (m, evs @ (new1 @ new2)))"
      by (simp add: prod_eq_iff)
    moreover from p have "list_ex P (new1 @ new2)" by (auto simp add: list_ex_iff)
    ultimately show ?thesis by blast
  qed
qed

lemma sends_or_after:
  assumes "\<And>m evs. table_intact m \<Longrightarrow> \<exists>x new. c (m, evs) = (Inr x, (m, evs @ new))"
    and "\<And>x. sends_or P E (f x)"
  shows "sends_or P E (await c f)"
  unfolding sends_or_def
proof (intro allI impI)
  fix m evs assume t: "table_intact m"
  from assms(1) [OF t, of evs] obtain x new1 where 1: "c (m, evs) = (Inr x, (m, evs @ new1))"
    by blast
  from assms(2) [of x] t obtain r new2
    where 2: "f x (m, evs @ new1) = (r, (m, (evs @ new1) @ new2))"
      and d: "list_ex P new2 \<or> (\<exists>e. r = Inl e \<and> E e)"
    unfolding sends_or_def by blast
  from 1 2 have "await c f (m, evs) = (r, (m, evs @ (new1 @ new2)))" by (simp add: await_def)
  moreover from d have "list_ex P (new1 @ new2) \<or> (\<exists>e. r = Inl e \<and> E e)"
    by (auto simp add: list_ex_iff)
  ultimately show "\<exists>r new. await c f (m, evs) = (r, (m, evs @ new)) \<and>
          (list_ex P new \<or> (\<exists>e. r = Inl e \<and> E e))" by blast
qed

lemma sends_or_try_catch:
  assumes "sends_or P (\<lambda>_. False) c" and "\<And>e. appends (\<lambda>_. True) (h e)"
  shows "sends_or P E (try_catch c h)"
  unfolding sends_or_def
proof (intro allI impI)
  fix m evs assume t: "table_intact m"
  from assms(1) t obtain r new1
    where 1: "c (m, evs) = (r, (m, evs @ new1))" and p: "list_ex P new1"
    unfolding sends_or_def by blast
  show "\<exists>r new. try_catch c h (m, evs) = (r, (m, evs @ new)) \<and>
          (list_ex P new \<or> (\<exists>e. r = Inl e \<and> E e))"
  proof (cases r)
    case (Inr x)
    with 1 have "try_catch c h (m, evs) = (Inr x, (m, evs @ new1))" by (simp add: try_catch_def)
    with p show ?thesis by blast
  next
    case (Inl e)
    from assms(2) [of e] t obtain new2
      where 2: "snd (h e (m, evs @ new1)) = (m, (evs @ new1) @ new2)"
      unfolding appends_def by blast
    from Inl 1 have "try_catch c h (m, evs) = h e (m, evs @ new1)" by (simp add: try_catch_def)
    with 2 have "try_catch c h (m, evs) = (fst (h e (m, evs @ new1)), (m, evs @ (new1 @ new2)))"
      by (simp add: prod_eq_iff)
    moreover from p have "list_ex P (new1 @ new2)" by (auto simp add: list_ex_iff)
    ultimately show ?thesis by blast
  qed
qed

lemma sends_or_lift:
  assumes "\<And>e. r = Inl e \<Longrightarrow> E e" and "\<And>x. r = Inr x \<Longrightarrow> sends_or P E (f x)"
  shows "sends_or P E (await (lift r) f)"
proof (cases r)
  case (Inl e)
  with assms(1) show ?thesis
    by (auto simp add: sends_or_def lift_def await_def throw_def)
next
  case (Inr x)
  with assms(2) show ?thesis
    by (simp add: lift_def await_return)
qed

lemma sends_or_fetch: "P (Fetch url method body) \<Longrightarrow> sends_or P E (fetch W url method body)"
  by (simp add: sends_or_def fetch_def)

lemma sends_or_after_sendLog:
  assumes "sends_or P E c"
  shows "sends_or P E (await (sendLog clk level logger data) (\<lambda>_. c))"
proof (rule sends_or_after)
  fix m evs
  from sendLog_logs [of clk level logger data m evs]
  show "\<exists>x new. sendLog clk level logger data (m, evs) = (Inr x, (m, evs @ new))" by blast
qed (rule assms)

lemma sends_or_fetchUrl:
  "prefix HA_DOCS_BASE url \<Longrightarrow> sends_or is_docs_call (\<lambda>_. False) (fetchUrl W clk url)"
  unfolding fetchUrl_def
  by (intro sends_or_after_sendLog sends_or_try_catch sends_or_await sends_or_fetch
        appends_intros; simp)

lemma get_haVersion_always:
  assumes "table_intact m"
  shows "\<exists>x new. get_haVersion W clk (m, evs) = (Inr x, (m, evs @ new))"
proof -
  let ?c = "await (callHA W clk ''/config'' ''GET'' None) (\<lambda>config. lift (config_version config))"
  have "appends (\<lambda>_. True) ?c"
    by (intro appends_intros; simp)
  with assms obtain new1 where "snd (?c (m, evs)) = (m, evs @ new1)"
    unfolding appends_def by blast
  then obtain r where c: "?c (m, evs) = (r, (m, evs @ new1))"
    by (cases "?c (m, evs)") auto
  show ?thesis
  proof (cases r)
    case (Inr x)
    with c show ?thesis by (simp add: get_haVersion_def try_catch_def)
  next
    case (Inl e)
    let ?d = "[(''action'', Some (JStr ''version_fetch_failed'')),
                  (''error'', Some (JStr (message e)))]"
    from sendLog_logs [of clk "''warning''" "''docs''" ?d m "evs @ new1"] obtain post
      where "sendLog clk ''warning'' ''docs'' ?d (m, evs @ new1) = (Inr (), (m, (evs @ new1) @ post))"
      by blast
    with Inl c have "get_haVersion W clk (m, evs) = (Inr (JStr ''unknown''), (m, evs @ (new1 @ post)))"
      by (simp add: get_haVersion_def try_catch_def await_def return_def)
    then show ?thesis by blast
  qed
qed

lemma sends_or_after_haVersion:
  assumes "\<And>x. sends_or P E (f x)"
  shows "sends_or P E (await (get_haVersion W clk) f)"
  by (rule sends_or_after) (rule get_haVersion_always, assumption, rule assms)

lemma docs_get_integration_docs:
  "sends_or is_docs_call (\<lambda>_. False) (tool_get_integration_docs rt dh W clk (Some a))"
  unfolding tool_get_integration_docs_def await_defined Let_def
  by (intro sends_or_after_sendLog sends_or_after_haVersion sends_or_try_catch sends_or_await
        sends_or_fetchUrl docs_prefix appends_intros; simp add: HA_INTEGRATIONS_URL_def)

lemma targetVersion_of_throws:
  "targetVersion_of version haVersion = Inl e \<Longrightarrow>
     \<not> truthy version \<and> e = TypeError ''haVersion.split''"
  by (auto simp add: targetVersion_of_def split: if_splits json.splits)

lemma docs_get_breaking_changes:
  "sends_or is_docs_call (\<lambda>e. \<not> truthy (arg_version a) \<and> e = TypeError ''haVersion.split'')
     (tool_get_breaking_changes rt dh W clk (Some a))"
  unfolding tool_get_breaking_changes_def await_defined Let_def
  by (intro sends_or_after_sendLog sends_or_after_haVersion sends_or_lift
        targetVersion_of_throws sends_or_try_catch sends_or_await
        sends_or_fetchUrl docs_prefix appends_intros; simp add: HA_BLOG_URL_def)

lemma CallTool_sends_or:
  assumes "sends_or P E (dispatch rt dh W clk name args)" and "table_intact m"
  shows "\<exists>r new. CallTool rt dh W clk name args (m, evs) = (r, (m, evs @ new)) \<and>
           (list_ex P new \<or> (\<exists>e. E e \<and> r = Inr (error_response e)))"
proof -
  let ?d1 = "[(''action'', Some (JStr ''call_tool'')), (''tool'', Some (JStr name)),
               (''args'', map_option arguments_json args)]"
  from sendLog_logs [of clk "''info''" "''mcp-server''" ?d1 m evs] obtain pre
    where 1: "sendLog clk ''info'' ''mcp-server'' ?d1 (m, evs) = (Inr (), (m, evs @ pre))"
    by blast
  from assms obtain r new1
    where 2: "dispatch rt dh W clk name args (m, evs @ pre) = (r, (m, (evs @ pre) @ new1))"
      and d: "list_ex P new1 \<or> (\<exists>e. r = Inl e \<and> E e)"
    unfolding sends_or_def by blast
  show ?thesis
  proof (cases r)
    case (Inr x)
    with 1 2 have "CallTool rt dh W clk name args (m, evs) = (Inr x, (m, evs @ (pre @ new1)))"
      by (simp add: CallTool_def await_def try_catch_def)
    moreover from d Inr have "list_ex P (pre @ new1)" by (auto simp add: list_ex_iff)
    ultimately show ?thesis by blast
  next
    case (Inl e)
    let ?d2 = "[(''action'', Some (JStr ''tool_error'')), (''tool'', Some (JStr name)),
                  (''error'', Some (JStr (message e)))]"
    from sendLog_logs [of clk "''error''" "''mcp-server''" ?d2 m "(evs @ pre) @ new1"] obtain post
      where 3: "sendLog clk ''error'' ''mcp-server'' ?d2 (m, (evs @ pre) @ new1)
                  = (Inr (), (m, ((evs @ pre) @ new1) @ post))"
      by blast
    from 1 2 3 Inl have "CallTool rt dh W clk name args (m, evs)
        = (Inr (error_response e), (m, evs @ (pre @ new1 @ post)))"
      by (simp add: CallTool_def await_def try_catch_def return_def)
    moreover from d Inl have "list_ex P (pre @ new1 @ post) \<or> E e"
      by (auto simp add: list_ex_iff)
    ultimately show ?thesis by blast
  qed
qed




subsection \<open>The catch of the tool dispatch\<close>

lemma sendLog_returns:
  "\<exists>new. sendLog clk level logger data (m, evs) = (Inr (), (m, evs @ new))"
  by (cases "shouldLog m level") (simp_all add: sendLog_def emit_def)

lemma dispatch_unknown:
  "name \<notin> set TOOLS \<Longrightarrow> dispatch rt dh W clk name args = throw (Error (''Unknown tool: '' @ name))"
  by (simp add: TOOLS_def dispatch_def)

text \<open>
  C6. The handler of a tool call always returns a response: no exception of the dispatched
  tool handler escapes it. If the dispatched handler (run after the first log line of
  the handler) throws an error, the response has the single text item "Error: " followed
  by the message of the error, and \<open>isError\<close> is true. A name that is none of the
  twenty-two tools gives that response with the message "Unknown tool: <name>".
\<close>

theorem CallTool_catches:
  "(\<exists>response. fst (CallTool rt dh W clk name args run) = Inr response) \<and>
   (\<forall>error. fst (dispatch rt dh W clk name args
                   (snd (sendLog clk ''info'' ''mcp-server''
                           [(''action'', Some (JStr ''call_tool'')), (''tool'', Some (JStr name)),
                            (''args'', map_option arguments_json args)] run))) = Inl error
      \<longrightarrow> fst (CallTool rt dh W clk name args run)
            = Inr \<lparr>content = [\<lparr>text_of = JStr (''Error: '' @ message error),
                                 audience = [''user''], priority = 1\<rparr>],
                    isError = True\<rparr>) \<and>
   (name \<notin> set TOOLS
      \<longrightarrow> fst (CallTool rt dh W clk name args run)
            = Inr \<lparr>content = [\<lparr>text_of = JStr (''Error: Unknown tool: '' @ name),
                                 audience = [''user''], priority = 1\<rparr>],
                    isError = True\<rparr>)"
proof -
  obtain m evs where run: "run = (m, evs)" by (cases run)
  obtain new where l: "sendLog clk ''info'' ''mcp-server''
       [(''action'', Some (JStr ''call_tool'')), (''tool'', Some (JStr name)),
        (''args'', map_option arguments_json args)] run = (Inr (), (m, evs @ new))"
    using sendLog_returns run by blast
  obtain r m' evs' where d: "dispatch rt dh W clk name args (m, evs @ new) = (r, (m', evs'))"
    by (cases "dispatch rt dh W clk name args (m, evs @ new)") auto
  have caught: "fst (CallTool rt dh W clk name args run) = Inr (error_response error)"
    if "r = Inl error" for error
  proof -
    obtain new' where "sendLog clk ''error'' ''mcp-server''
         [(''action'', Some (JStr ''tool_error'')), (''tool'', Some (JStr name)),
          (''error'', Some (JStr (message error)))] (m', evs') = (Inr (), (m', evs' @ new'))"
      using sendLog_returns by blast
    with that l d show ?thesis
      by (simp add: CallTool_def await_def try_catch_def return_def)
  qed
  have passed: "fst (CallTool rt dh W clk name args run) = Inr x" if "r = Inr x" for x
    using that l d by (simp add: CallTool_def await_def try_catch_def)
  have 1: "\<exists>response. fst (CallTool rt dh W clk name args run) = Inr response"
    using caught passed by (cases r) auto
  have 2: "fst (CallTool rt dh W clk name args run)
            = Inr \<lparr>content = [\<lparr>text_of = JStr (''Error: '' @ message error),
                                 audience = [''user''], priority = 1\<rparr>],
                    isError = True\<rparr>"
    if "fst (dispatch rt dh W clk name args
                   (snd (sendLog clk ''info'' ''mcp-server''
                           [(''action'', Some (JStr ''call_tool'')), (''tool'', Some (JStr name)),
                            (''args'', map_option arguments_json args)] run))) = Inl error" for error
  proof -
    from that l d have "r = Inl error" by simp
    then show ?thesis
      using caught by (simp add: error_response_def makeCompatibleResponse_def createTextContent_def)
  qed
  have 3: "fst (CallTool rt dh W clk name args run)
            = Inr \<lparr>content = [\<lparr>text_of = JStr (''Error: Unknown tool: '' @ name),
                                 audience = [''user''], priority = 1\<rparr>],
                    isError = True\<rparr>" if "name \<notin> set TOOLS"
  proof -
    from that d have "r = Inl (Error (''Unknown tool: '' @ name))"
      by (simp add: dispatch_unknown throw_def)
    then show ?thesis
      using caught by (simp add: error_response_def makeCompatibleResponse_def createTextContent_def)
  qed
  from 1 2 3 show ?thesis by blast
qed

theorem CallTool_catches_witness:
  "''nope'' \<notin> set TOOLS \<and>
   fst (CallTool example_runtime example_helpers (example_world []) noon ''nope'' None
          (initial_state, []))
     = Inr \<lparr>content = [\<lparr>text_of = JStr ''Error: Unknown tool: nope'',
                          audience = [''user''], priority = 1\<rparr>],
             isError = True\<rparr> \<and>
   fst (dispatch example_runtime example_helpers (example_world []) noon ''get_config'' None
          (snd (sendLog noon ''info'' ''mcp-server''
                  [(''action'', Some (JStr ''call_tool'')), (''tool'', Some (JStr ''get_config'')),
                   (''args'', map_option arguments_json None)] (initial_state, []))))
     = Inl (Error ''HA API error (404): 404: Not Found'') \<and>
   fst (CallTool example_runtime example_helpers (example_world []) noon ''get_config'' None
          (initial_state, []))
     = Inr \<lparr>content = [\<lparr>text_of = JStr ''Error: HA API error (404): 404: Not Found'',
                          audience = [''user''], priority = 1\<rparr>],
             isError = True\<rparr>"
proof -
  have n: "''nope'' \<notin> set TOOLS" by (simp add: TOOLS_def)
  have d: "fst (dispatch example_runtime example_helpers (example_world []) noon ''get_config'' None
          (snd (sendLog noon ''info'' ''mcp-server''
                  [(''action'', Some (JStr ''call_tool'')), (''tool'', Some (JStr ''get_config'')),
                   (''args'', map_option arguments_json None)] (initial_state, []))))
     = Inl (Error ''HA API error (404): 404: Not Found'')"
    by code_simp
  from CallTool_catches [of example_runtime example_helpers "example_world []" noon "''nope''" None
      "(initial_state, [])"]
    CallTool_catches [of example_runtime example_helpers "example_world []" noon "''get_config''" None
      "(initial_state, [])"] n d
  show ?thesis by simp
qed

subsection \<open>The module state across requests\<close>

lemma appends_handle:
  assumes "\<And>level. request \<noteq> SetLevelRequest level"
  shows "appends docs_api_or_log (handle rt dh W clk request)"
proof (cases request)
  case (SetLevelRequest level)
  with assms [of level] show ?thesis by blast
next
  case ListToolsRequest
  then show ?thesis
    by (auto intro!: appends_intros appends_mono [OF appends_lists(1)])
next
  case (CallToolRequest name args)
  then show ?thesis
    by (auto intro!: appends_intros appends_CallTool)
next
  case ListResourcesRequest
  then show ?thesis
    by (auto intro!: appends_intros appends_mono [OF appends_lists(2)])
next
  case ListResourceTemplatesRequest
  then show ?thesis
    by (auto intro!: appends_intros appends_mono [OF appends_lists(3)])
next
  case (ReadResourceRequest uri)
  then show ?thesis
    by (auto intro!: appends_intros appends_mono [OF appends_ReadResource])
next
  case ListPromptsRequest
  then show ?thesis
    by (auto intro!: appends_intros appends_mono [OF appends_lists(4)])
next
  case (GetPromptRequest name args)
  then show ?thesis
    by (auto intro!: appends_intros appends_mono [OF appends_GetPrompt])
qed

lemma handle_SetLevel:
  "fst (snd (handle rt dh W clk (SetLevelRequest level) (m, evs)))
     = (if level \<in> set LOG_LEVELS then m\<lparr>currentLogLevel := level\<rparr> else m)"
  by (simp add: SetLevel_def await_def set_currentLogLevel_def sendLog_def emit_def
      return_def throw_def)

lemma handle_other:
  assumes "table_intact m" and "\<And>level. request \<noteq> SetLevelRequest level"
  shows "fst (snd (handle rt dh W clk request (m, evs))) = m"
proof -
  from appends_handle [OF assms(2)] assms(1) obtain new
    where "snd (handle rt dh W clk request (m, evs)) = (m, evs @ new)"
    unfolding appends_def by blast
  then show ?thesis by simp
qed

lemma handle_intact:
  assumes "table_intact (fst s)"
  shows "table_intact (fst (snd (handle rt dh W clk request s)))"
proof (cases "\<exists>level. request = SetLevelRequest level")
  case True
  then obtain level where "request = SetLevelRequest level" by blast
  with assms handle_SetLevel [of rt dh W clk level "fst s" "snd s"] show ?thesis
    by (simp add: table_intact_def)
next
  case False
  with assms handle_other [of "fst s" request rt dh W clk "snd s"] show ?thesis by simp
qed

lemma serve_intact:
  "table_intact (fst s) \<Longrightarrow> table_intact (fst (serve rt dh history s))"
proof (induction history arbitrary: s)
  case Nil
  then show ?case by simp
next
  case (Cons a history)
  obtain W clk request where a: "a = (W, clk, request)" by (cases a)
  from Cons.prems have "table_intact (fst (snd (handle rt dh W clk request s)))"
    by (rule handle_intact)
  with Cons.IH a show ?case by simp
qed

text \<open>
  C2. The module state is the variable \<open>currentLogLevel\<close> and the table of deprecation
  patterns with the \<open>lastIndex\<close> of its regular expressions. In every state the server
  reaches from its initial state by serving requests, in any worlds and at any times:
  a request handler other than the SetLevel handler leaves the whole module state, and so
  \<open>currentLogLevel\<close>, as it was; the SetLevel handler changes \<open>currentLogLevel\<close> and
  nothing else; and after any handler the table is the one the module created.
\<close>

theorem handlers_frame:
  "DEPRECATION_PATTERNS
     (fst (snd (handle rt dh W clk request (serve rt dh history (initial_state, [])))))
     = DEPRECATION_PATTERNS_table \<and>
   ((\<forall>level. request \<noteq> SetLevelRequest level) \<longrightarrow>
      fst (snd (handle rt dh W clk request (serve rt dh history (initial_state, []))))
        = fst (serve rt dh history (initial_state, []))) \<and>
   (\<forall>level. request = SetLevelRequest level \<longrightarrow>
      fst (snd (handle rt dh W clk request (serve rt dh history (initial_state, []))))
        = (if level \<in> set LOG_LEVELS
           then (fst (serve rt dh history (initial_state, [])))\<lparr>currentLogLevel := level\<rparr>
           else fst (serve rt dh history (initial_state, []))))"
proof -
  obtain m evs where s: "serve rt dh history (initial_state, []) = (m, evs)"
    by (cases "serve rt dh history (initial_state, [])")
  have "table_intact (fst (initial_state, []::event list))"
    by (simp add: table_intact_def initial_state_def)
  then have "table_intact (fst (serve rt dh history (initial_state, [])))"
    by (rule serve_intact)
  with s have t: "table_intact m" by simp
  with handle_intact [of "(m, evs)" rt dh W clk request]
  have 1: "DEPRECATION_PATTERNS (fst (snd (handle rt dh W clk request (m, evs))))
      = DEPRECATION_PATTERNS_table"
    by (simp add: table_intact_def)
  have 2: "fst (snd (handle rt dh W clk request (m, evs))) = m"
    if "\<forall>level. request \<noteq> SetLevelRequest level"
    using that t by (intro handle_other) simp_all
  have 3: "fst (snd (handle rt dh W clk request (m, evs)))
        = (if level \<in> set LOG_LEVELS then m\<lparr>currentLogLevel := level\<rparr> else m)"
    if "request = SetLevelRequest level" for level
    using that by (simp only: handle_SetLevel)
  from 1 2 3 show ?thesis unfolding s by simp
qed


theorem handlers_frame_witness:
  "fst (serve example_runtime example_helpers
          [(example_world [], noon, SetLevelRequest ''debug'')] (initial_state, []))
     = initial_state\<lparr>currentLogLevel := ''debug''\<rparr> \<and>
   fst (snd (handle example_runtime example_helpers (example_world [kitchen_light]) evening
               (CallToolRequest ''detect_anomalies'' None)
               (serve example_runtime example_helpers
                  [(example_world [], noon, SetLevelRequest ''debug'')] (initial_state, []))))
     = initial_state\<lparr>currentLogLevel := ''debug''\<rparr> \<and>
   fst (snd (handle example_runtime example_helpers (example_world []) evening
               (SetLevelRequest ''warning'')
               (serve example_runtime example_helpers
                  [(example_world [], noon, SetLevelRequest ''debug'')] (initial_state, []))))
     = initial_state\<lparr>currentLogLevel := ''warning''\<rparr>"
proof -
  have s: "fst (serve example_runtime example_helpers
          [(example_world [], noon, SetLevelRequest ''debug'')] (initial_state, []))
     = initial_state\<lparr>currentLogLevel := ''debug''\<rparr>"
    by (simp del: handle.simps add: handle_SetLevel LOG_LEVELS_def)
  have w: "''warning'' \<in> set LOG_LEVELS" by (simp add: LOG_LEVELS_def)
  from handlers_frame [of example_runtime example_helpers "example_world [kitchen_light]" evening
      "CallToolRequest ''detect_anomalies'' None"
      "[(example_world [], noon, SetLevelRequest ''debug'')]"]
    handlers_frame [of example_runtime example_helpers "example_world []" evening
      "SetLevelRequest ''warning''"
      "[(example_world [], noon, SetLevelRequest ''debug'')]"] s w
  show ?thesis by simp
qed

subsection \<open>getEntityRelationships\<close>

lemma find_present:
  "entityId \<in> entity_id ` set states \<Longrightarrow>
   \<exists>entity. find (\<lambda>s. entity_id s = entityId) states = Some entity"
  by (induction states) auto

lemma find_absent:
  "entityId \<notin> entity_id ` set states \<Longrightarrow> find (\<lambda>s. entity_id s = entityId) states = None"
  by (induction states) auto

lemma is_related_iff:
  "is_related entityId entity s \<longleftrightarrow>
     entity_id s \<noteq> entityId \<and>
     (truthy (device_id (attributes entity)) \<and> device_id (attributes s) = device_id (attributes entity) \<or>
      truthy (area_id (attributes entity)) \<and> area_id (attributes s) = area_id (attributes entity))"
  by (auto simp add: is_related_def)

lemma getEntityRelationships_of_states:
  assumes "callHA W clk ''/states'' ''GET'' None run = (Inr (States states), run')"
  shows "getEntityRelationships W clk (Some entityId) run
           = (Inr (relationships_of states entityId), run')"
  using assms by (simp add: getEntityRelationships_def await_def as_states_def return_def)

text \<open>
  C9. Let the call of \<open>GET /states\<close> give the list \<open>states\<close>. For an entity id present
  in the list, \<open>getEntityRelationships\<close> returns the details of the first state with that
  id, with at most 10 related entities; none of them has the queried id; each comes from a
  state of the list that shares the device id or the area id of the queried entity (one
  that the queried entity has); and its label is "same_device" exactly when its device id
  equals that of the queried entity (two absent device ids are equal), "same_area"
  otherwise. For an entity id not in the list it returns the object whose \<open>error\<close> is
  "Entity not found".
\<close>

theorem getEntityRelationships_properties:
  assumes "callHA W clk ''/states'' ''GET'' None run = (Inr (States states), run')"
  shows
  "(entityId \<in> entity_id ` set states \<longrightarrow>
      (\<exists>entity d ss.
         find (\<lambda>s. entity_id s = entityId) states = Some entity \<and>
         getEntityRelationships W clk (Some entityId) run = (Inr (Details d), run') \<and>
         related_entities d = map (to_related entity) ss \<and>
         length (related_entities d) \<le> 10 \<and>
         (\<forall>r \<in> set (related_entities d). related_entity_id r \<noteq> entityId) \<and>
         (\<forall>s \<in> set ss.
            s \<in> set states \<and>
            (truthy (device_id (attributes entity)) \<and>
               device_id (attributes s) = device_id (attributes entity) \<or>
             truthy (area_id (attributes entity)) \<and>
               area_id (attributes s) = area_id (attributes entity)) \<and>
            (relationship (to_related entity s) = ''same_device''
               \<longleftrightarrow> device_id (attributes s) = device_id (attributes entity)) \<and>
            (device_id (attributes s) \<noteq> device_id (attributes entity)
               \<longrightarrow> relationship (to_related entity s) = ''same_area'')))) \<and>
   (entityId \<notin> entity_id ` set states \<longrightarrow>
      getEntityRelationships W clk (Some entityId) run
        = (Inr (Failure ''Entity not found''), run'))"
proof (intro conjI impI)
  assume "entityId \<in> entity_id ` set states"
  then obtain entity where f: "find (\<lambda>s. entity_id s = entityId) states = Some entity"
    using find_present by blast
  define ss where "ss = take 10 (filter (is_related entityId entity) states)"
  define d where "d = \<lparr>details_entity_id = entityId,
                 details_friendly_name = friendly_name (attributes entity),
                 details_state = state entity,
                 details_domain = split_dot_first entityId,
                 details_device_class = device_class (attributes entity),
                 details_device_id = device_id (attributes entity),
                 details_area_id = area_id (attributes entity),
                 details_attributes = attributes entity,
                 related_entities = map (to_related entity) ss\<rparr>"
  have "relationships_of states entityId = Details d"
    by (simp add: relationships_of_def f d_def ss_def Let_def take_map)
  with getEntityRelationships_of_states [OF assms, of entityId]
  have r: "getEntityRelationships W clk (Some entityId) run = (Inr (Details d), run')"
    by simp
  have m: "\<And>s. s \<in> set ss \<Longrightarrow> s \<in> set states \<and> is_related entityId entity s"
    unfolding ss_def by (auto dest: in_set_takeD)
  have "related_entities d = map (to_related entity) ss" by (simp add: d_def)
  moreover have "length (related_entities d) \<le> 10" by (simp add: d_def ss_def)
  moreover have "\<forall>r \<in> set (related_entities d). related_entity_id r \<noteq> entityId"
    using m by (auto simp add: d_def to_related_def is_related_iff)
  moreover have "\<forall>s \<in> set ss.
            s \<in> set states \<and>
            (truthy (device_id (attributes entity)) \<and>
               device_id (attributes s) = device_id (attributes entity) \<or>
             truthy (area_id (attributes entity)) \<and>
               area_id (attributes s) = area_id (attributes entity)) \<and>
            (relationship (to_related entity s) = ''same_device''
               \<longleftrightarrow> device_id (attributes s) = device_id (attributes entity)) \<and>
            (device_id (attributes s) \<noteq> device_id (attributes entity)
               \<longrightarrow> relationship (to_related entity s) = ''same_area'')"
    using m by (auto simp add: to_related_def is_related_iff)
  ultimately show "\<exists>entity d ss.
         find (\<lambda>s. entity_id s = entityId) states = Some entity \<and>
         getEntityRelationships W clk (Some entityId) run = (Inr (Details d), run') \<and>
         related_entities d = map (to_related entity) ss \<and>
         length (related_entities d) \<le> 10 \<and>
         (\<forall>r \<in> set (related_entities d). related_entity_id r \<noteq> entityId) \<and>
         (\<forall>s \<in> set ss.
            s \<in> set states \<and>
            (truthy (device_id (attributes entity)) \<and>
               device_id (attributes s) = device_id (attributes entity) \<or>
             truthy (area_id (attributes entity)) \<and>
               area_id (attributes s) = area_id (attributes entity)) \<and>
            (relationship (to_related entity s) = ''same_device''
               \<longleftrightarrow> device_id (attributes s) = device_id (attributes entity)) \<and>
            (device_id (attributes s) \<noteq> device_id (attributes entity)
               \<longrightarrow> relationship (to_related entity s) = ''same_area''))"
    using f r by blast
next
  assume "entityId \<notin> entity_id ` set states"
  then have "relationships_of states entityId = Failure ''Entity not found''"
    by (simp add: relationships_of_def find_absent)
  with getEntityRelationships_of_states [OF assms, of entityId]
  show "getEntityRelationships W clk (Some entityId) run
        = (Inr (Failure ''Entity not found''), run')"
    by simp
qed

theorem getEntityRelationships_properties_witness:
  "callHA (example_world [hall_sensor, kitchen_light, hall_battery]) noon ''/states'' ''GET'' None
     (initial_state, [])
     = (Inr (States [hall_sensor, kitchen_light, hall_battery]),
        (initial_state, [Fetch ''http://supervisor/core/api/states'' ''GET'' None])) \<and>
   ''sensor.nope'' \<notin> entity_id ` set [hall_sensor, kitchen_light, hall_battery] \<and>
   getEntityRelationships (example_world [hall_sensor, kitchen_light, hall_battery]) noon
     (Some ''sensor.nope'') (initial_state, [])
     = (Inr (Failure ''Entity not found''),
        (initial_state, [Fetch ''http://supervisor/core/api/states'' ''GET'' None])) \<and>
   fst (getEntityRelationships (example_world [hall_sensor, kitchen_light, hall_battery]) noon
     (Some ''sensor.hall_temperature'') (initial_state, []))
     = Inr (Details
         \<lparr>details_entity_id = ''sensor.hall_temperature'',
          details_friendly_name = Some ''Hall'', details_state = ''75'',
          details_domain = ''sensor'', details_device_class = Some ''temperature'',
          details_device_id = Some ''dev1'', details_area_id = Some ''hall'',
          details_attributes = attributes hall_sensor,
          related_entities =
            [\<lparr>related_entity_id = ''sensor.hall_battery'',
              related_friendly_name = Some ''Hall battery'',
              related_state = ''12'', relationship = ''same_device''\<rparr>]\<rparr>)"
proof -
  have c: "callHA (example_world [hall_sensor, kitchen_light, hall_battery]) noon ''/states'' ''GET'' None
     (initial_state, [])
     = (Inr (States [hall_sensor, kitchen_light, hall_battery]),
        (initial_state, [Fetch ''http://supervisor/core/api/states'' ''GET'' None]))"
    by code_simp
  have n: "''sensor.nope'' \<notin> entity_id ` set [hall_sensor, kitchen_light, hall_battery]"
    by (simp add: hall_sensor_def kitchen_light_def hall_battery_def)
  have d: "fst (getEntityRelationships (example_world [hall_sensor, kitchen_light, hall_battery]) noon
     (Some ''sensor.hall_temperature'') (initial_state, []))
     = Inr (Details
         \<lparr>details_entity_id = ''sensor.hall_temperature'',
          details_friendly_name = Some ''Hall'', details_state = ''75'',
          details_domain = ''sensor'', details_device_class = Some ''temperature'',
          details_device_id = Some ''dev1'', details_area_id = Some ''hall'',
          details_attributes = attributes hall_sensor,
          related_entities =
            [\<lparr>related_entity_id = ''sensor.hall_battery'',
              related_friendly_name = Some ''Hall battery'',
              related_state = ''12'', relationship = ''same_device''\<rparr>]\<rparr>)"
    by code_simp
  from getEntityRelationships_properties [OF c, of "''sensor.nope''"] c n d
  show ?thesis by simp
qed

subsection \<open>checkConfigForDeprecations\<close>

lemma check_patterns_result:
  assumes "\<forall>p \<in> set ps. CHR ''g'' \<notin> set (flags (pattern p)) \<and> CHR ''y'' \<notin> set (flags (pattern p))"
  shows "fst (check_patterns rt y integ ps acc)
     = \<lparr>deprecated = (deprecated acc \<or> (\<exists>p \<in> set (hits rt y integ ps). deprecated_in p \<noteq> None)),
        warnings = warnings acc @ map warning_of (hits rt y integ ps),
        suggestions = suggestions acc
          @ map (\<lambda>p. or_empty (suggestion p))
              (filter (\<lambda>p. truthy (suggestion p)) (hits rt y integ ps))\<rparr>"
  using assms
proof (induction ps arbitrary: acc)
  case Nil
  then show ?case by (simp add: hits_def)
next
  case (Cons p ps)
  then have ih: "\<And>acc. fst (check_patterns rt y integ ps acc)
     = \<lparr>deprecated = (deprecated acc \<or> (\<exists>p \<in> set (hits rt y integ ps). deprecated_in p \<noteq> None)),
        warnings = warnings acc @ map warning_of (hits rt y integ ps),
        suggestions = suggestions acc
          @ map (\<lambda>p. or_empty (suggestion p))
              (filter (\<lambda>p. truthy (suggestion p)) (hits rt y integ ps))\<rparr>"
    by simp
  from Cons.prems have fl: "CHR ''g'' \<notin> set (flags (pattern p))" "CHR ''y'' \<notin> set (flags (pattern p))"
    by simp_all
  show ?case
  proof (cases "skipped integ p")
    case True
    then show ?thesis by (simp add: split_beta ih hits_def)
  next
    case False
    show ?thesis
    proof (cases "matches rt p y")
      case True
      with False fl show ?thesis
        by (auto simp add: split_beta ih hits_def matches_def RegExp_test_stateless Let_def)
    next
      case m: False
      with False fl show ?thesis
        by (simp add: split_beta ih hits_def matches_def RegExp_test_stateless Let_def)
    qed
  qed
qed

lemma table_no_global:
  "\<forall>p \<in> set DEPRECATION_PATTERNS_table.
     CHR ''g'' \<notin> set (flags (pattern p)) \<and> CHR ''y'' \<notin> set (flags (pattern p))"
  using table_flags by auto

lemma table_tags:
  "\<forall>p \<in> set DEPRECATION_PATTERNS_table. integration p \<noteq> Some []"
  by (simp add: DEPRECATION_PATTERNS_table_def)

lemma checkConfig_run:
  assumes "table_intact m"
  shows "checkConfigForDeprecations rt yamlConfig integ (m, evs)
     = (Inr (fst (check_patterns rt (template_string yamlConfig) integ DEPRECATION_PATTERNS_table
                    \<lparr>deprecated = False, warnings = [], suggestions = []\<rparr>)), (m, evs))"
proof -
  obtain res ps' where c: "check_patterns rt (template_string yamlConfig) integ DEPRECATION_PATTERNS_table
        \<lparr>deprecated = False, warnings = [], suggestions = []\<rparr> = (res, ps')"
    by (cases "check_patterns rt (template_string yamlConfig) integ DEPRECATION_PATTERNS_table
        \<lparr>deprecated = False, warnings = [], suggestions = []\<rparr>")
  with check_patterns_table [of rt "template_string yamlConfig" integ
        "\<lparr>deprecated = False, warnings = [], suggestions = []\<rparr>"]
  have "ps' = DEPRECATION_PATTERNS_table" by simp
  moreover from assms have t: "DEPRECATION_PATTERNS m = DEPRECATION_PATTERNS_table"
    by (simp add: table_intact_def)
  ultimately have "m\<lparr>DEPRECATION_PATTERNS := ps'\<rparr> = m" by simp
  with c t show ?thesis by (simp add: checkConfigForDeprecations_def)
qed

text \<open>
  C5, as stated: when an integration name is given, patterns tagged with a different
  integration are skipped. The loop tests \<open>integration && pattern.integration && ...\<close>,
  and the empty string is falsy: with the integration name \<open>""\<close> the pattern tagged
  \<open>time_date\<close> is applied and reported.
\<close>

theorem checkConfigForDeprecations_empty_integration:
  "integration (DEPRECATION_PATTERNS_table ! 3) = Some ''time_date'' \<and>
   fst (checkConfigForDeprecations example_runtime (Some ''- platform: time_date'') (Some [])
          (initial_state, []))
     = Inr \<lparr>deprecated = True,
            warnings = [''[DEPRECATED since 2024.6] The time_date sensor platform is deprecated.''],
            suggestions = [''Use template sensors with now() or built-in date/time entities.'']\<rparr>"
  by code_simp

text \<open>
  C5, amended. While the pattern table is the one the module declares,
  \<open>checkConfigForDeprecations\<close> returns a result and leaves the module state and the output
  as they were, so a second run with the same arguments returns the same result. The
  \<open>deprecated\<close> flag is true exactly when some pattern that is not skipped and matches the
  configuration has a \<open>deprecated_in\<close> field; the warnings and the suggestions are those
  of the patterns that are not skipped and match, in the order of the table. When a
  non-empty integration name is given, every pattern tagged with a different integration
  is skipped and contributes nothing.
\<close>

theorem checkConfigForDeprecations_stateless:
  assumes "table_intact m"
  shows "\<exists>res.
     checkConfigForDeprecations rt yamlConfig integ (m, evs) = (Inr res, (m, evs)) \<and>
     checkConfigForDeprecations rt yamlConfig integ
         (snd (checkConfigForDeprecations rt yamlConfig integ (m, evs)))
       = (Inr res, (m, evs)) \<and>
     deprecated res
       = (\<exists>p \<in> set DEPRECATION_PATTERNS_table.
            \<not> skipped integ p \<and> matches rt p (template_string yamlConfig) \<and>
            deprecated_in p \<noteq> None) \<and>
     warnings res
       = map warning_of (hits rt (template_string yamlConfig) integ DEPRECATION_PATTERNS_table) \<and>
     suggestions res
       = map (\<lambda>p. or_empty (suggestion p))
           (filter (\<lambda>p. truthy (suggestion p))
              (hits rt (template_string yamlConfig) integ DEPRECATION_PATTERNS_table)) \<and>
     (\<forall>p \<in> set DEPRECATION_PATTERNS_table.
        \<forall>name tag. integ = Some name \<and> name \<noteq> [] \<and> integration p = Some tag \<and> tag \<noteq> name
          \<longrightarrow> skipped integ p \<and>
              p \<notin> set (hits rt (template_string yamlConfig) integ DEPRECATION_PATTERNS_table))"
proof -
  define res where "res = fst (check_patterns rt (template_string yamlConfig) integ
      DEPRECATION_PATTERNS_table \<lparr>deprecated = False, warnings = [], suggestions = []\<rparr>)"
  have r1: "checkConfigForDeprecations rt yamlConfig integ (m, evs) = (Inr res, (m, evs))"
    unfolding res_def by (rule checkConfig_run [OF assms])
  then have r2: "checkConfigForDeprecations rt yamlConfig integ
         (snd (checkConfigForDeprecations rt yamlConfig integ (m, evs))) = (Inr res, (m, evs))"
    by simp
  have shape: "res = \<lparr>deprecated =
        (\<exists>p \<in> set (hits rt (template_string yamlConfig) integ DEPRECATION_PATTERNS_table).
           deprecated_in p \<noteq> None),
      warnings = map warning_of
        (hits rt (template_string yamlConfig) integ DEPRECATION_PATTERNS_table),
      suggestions = map (\<lambda>p. or_empty (suggestion p))
           (filter (\<lambda>p. truthy (suggestion p))
              (hits rt (template_string yamlConfig) integ DEPRECATION_PATTERNS_table))\<rparr>"
    unfolding res_def
    using check_patterns_result [OF table_no_global, of rt "template_string yamlConfig" integ
        "\<lparr>deprecated = False, warnings = [], suggestions = []\<rparr>"]
    by simp
  have d: "deprecated res
       = (\<exists>p \<in> set DEPRECATION_PATTERNS_table.
            \<not> skipped integ p \<and> matches rt p (template_string yamlConfig) \<and>
            deprecated_in p \<noteq> None)"
    by (subst shape) (auto simp add: hits_def)
  have w: "warnings res
       = map warning_of (hits rt (template_string yamlConfig) integ DEPRECATION_PATTERNS_table)"
    by (subst shape) simp
  have s: "suggestions res
       = map (\<lambda>p. or_empty (suggestion p))
           (filter (\<lambda>p. truthy (suggestion p))
              (hits rt (template_string yamlConfig) integ DEPRECATION_PATTERNS_table))"
    by (subst shape) simp
  have k: "\<forall>p \<in> set DEPRECATION_PATTERNS_table.
        \<forall>name tag. integ = Some name \<and> name \<noteq> [] \<and> integration p = Some tag \<and> tag \<noteq> name
          \<longrightarrow> skipped integ p \<and>
              p \<notin> set (hits rt (template_string yamlConfig) integ DEPRECATION_PATTERNS_table)"
    using table_tags by (auto simp add: skipped_def truthy_def hits_def)
  from r1 r2 d w s k show ?thesis by blast
qed

theorem checkConfigForDeprecations_stateless_witness:
  "table_intact initial_state \<and>
   checkConfigForDeprecations example_runtime (Some ''- platform: time_date'') (Some ''mqtt'')
       (initial_state, [])
     = (Inr \<lparr>deprecated = False, warnings = [], suggestions = []\<rparr>, (initial_state, [])) \<and>
   checkConfigForDeprecations example_runtime (Some ''- platform: time_date'') None
       (initial_state, [])
     = (Inr \<lparr>deprecated = True,
            warnings = [''[DEPRECATED since 2024.6] The time_date sensor platform is deprecated.''],
            suggestions = [''Use template sensors with now() or built-in date/time entities.'']\<rparr>,
        (initial_state, [])) \<and>
   DEPRECATION_PATTERNS_table ! 3 \<in> set DEPRECATION_PATTERNS_table \<and>
   integration (DEPRECATION_PATTERNS_table ! 3) = Some ''time_date'' \<and>
   skipped (Some ''mqtt'') (DEPRECATION_PATTERNS_table ! 3) \<and>
   matches example_runtime (DEPRECATION_PATTERNS_table ! 3) ''- platform: time_date''"
proof -
  have t: "table_intact initial_state"
    by (simp add: table_intact_def initial_state_def)
  have a: "checkConfigForDeprecations example_runtime (Some ''- platform: time_date'') (Some ''mqtt'')
       (initial_state, [])
     = (Inr \<lparr>deprecated = False, warnings = [], suggestions = []\<rparr>, (initial_state, []))"
    by code_simp
  have b: "checkConfigForDeprecations example_runtime (Some ''- platform: time_date'') None
       (initial_state, [])
     = (Inr \<lparr>deprecated = True,
            warnings = [''[DEPRECATED since 2024.6] The time_date sensor platform is deprecated.''],
            suggestions = [''Use template sensors with now() or built-in date/time entities.'']\<rparr>,
        (initial_state, []))"
    by code_simp
  have i: "DEPRECATION_PATTERNS_table ! 3 \<in> set DEPRECATION_PATTERNS_table"
    by (simp add: DEPRECATION_PATTERNS_table_def)
  have g: "integration (DEPRECATION_PATTERNS_table ! 3) = Some ''time_date''"
    by (simp add: DEPRECATION_PATTERNS_table_def)
  have m: "matches example_runtime (DEPRECATION_PATTERNS_table ! 3) ''- platform: time_date''"
    by code_simp
  from checkConfigForDeprecations_stateless
         [OF t, of example_runtime "Some ''- platform: time_date''" "Some ''mqtt''" "[]"] i g
  have k: "skipped (Some ''mqtt'') (DEPRECATION_PATTERNS_table ! 3)"
    by auto
  from t a b i g k m show ?thesis by simp
qed


subsection \<open>The tools detect_anomalies and get_states\<close>

lemma insort_key_append_less:
  "\<forall>a \<in> set ys. f a < f x \<Longrightarrow> insort_key f x (ys @ zs) = ys @ insort_key f x zs"
  by (induction ys) auto

lemma sort_key_partition:
  "sort_key (\<lambda>a. if P a then 0 else (1::nat)) xs = filter P xs @ filter (\<lambda>a. \<not> P a) xs"
proof (induction xs)
  case Nil
  show ?case by simp
next
  case (Cons x xs)
  show ?case
  proof (cases "P x")
    case True
    then show ?thesis by (simp add: Cons insort_is_Cons)
  next
    case False
    then have "insort_key (\<lambda>a. if P a then 0 else (1::nat)) x
                 (filter P xs @ filter (\<lambda>a. \<not> P a) xs)
               = filter P xs @ insort_key (\<lambda>a. if P a then 0 else (1::nat)) x
                   (filter (\<lambda>a. \<not> P a) xs)"
      using insort_key_append_less [where f = "\<lambda>a. if P a then 0 else (1::nat)" and x = x
          and ys = "filter P xs" and zs = "filter (\<lambda>a. \<not> P a) xs"]
      by simp
    with False show ?thesis by (simp add: Cons insort_is_Cons)
  qed
qed

lemma detected_anomalies_partition:
  "detected_anomalies rt clk states
     = filter (\<lambda>a. anomaly_severity a = ''warning'') (List.map_filter (detectAnomaly rt clk) states)
       @ filter (\<lambda>a. anomaly_severity a \<noteq> ''warning'')
           (List.map_filter (detectAnomaly rt clk) states)"
  unfolding detected_anomalies_def by (rule sort_key_partition)

lemma detectAnomaly_entity_id:
  "detectAnomaly rt clk s = Some a \<Longrightarrow> anomaly_entity_id a = entity_id s"
  by (auto simp add: detectAnomaly_def battery_rule_def temperature_rule_def humidity_rule_def
      opening_rule_def light_rule_def Let_def split: option.splits if_splits)

lemma set_detected_anomalies:
  "a \<in> set (detected_anomalies rt clk states)
     \<longleftrightarrow> (\<exists>s \<in> set states. detectAnomaly rt clk s = Some a)"
  by (auto simp add: detected_anomalies_def map_filter_def image_iff)

lemma warnings_first:
  assumes "xs = filter P ys @ filter (\<lambda>a. \<not> P a) ys"
    and "i < length xs" "j < length xs" "P (xs ! i)" "\<not> P (xs ! j)"
  shows "i < j"
proof -
  have i: "i < length (filter P ys)"
  proof (rule ccontr)
    assume "\<not> i < length (filter P ys)"
    with assms(1,2) have "i - length (filter P ys) < length (filter (\<lambda>a. \<not> P a) ys)"
      and "xs ! i = filter (\<lambda>a. \<not> P a) ys ! (i - length (filter P ys))"
      by (simp_all add: nth_append)
    then have "xs ! i \<in> set (filter (\<lambda>a. \<not> P a) ys)"
      by (simp only: nth_mem)
    with assms(4) show False by simp
  qed
  have "\<not> j < length (filter P ys)"
  proof
    assume "j < length (filter P ys)"
    with assms(1) have "xs ! j = filter P ys ! j"
      by (simp add: nth_append)
    with \<open>j < length (filter P ys)\<close> have "xs ! j \<in> set (filter P ys)"
      by (simp only: nth_mem)
    with assms(5) show False by simp
  qed
  with i show ?thesis by simp
qed

lemma tool_detect_anomalies_of_states:
  assumes "callHA W clk ''/states'' ''GET'' None run = (Inr (States all), run')"
  shows "tool_detect_anomalies rt W clk args run
     = (let anomalies = detected_anomalies rt clk
              (if truthy (optional args arg_domain)
               then domain_filter (optional args arg_domain) all else all)
        in if anomalies = []
           then respond (JStr ''No anomalies detected. All entities appear to be operating normally.'')
                  [''user''] (9 / 10) run'
           else respond (JStr (''Found '' @ show_nat (length anomalies)
                               @ '' potential anomalies:\<newline>\<newline>''
                               @ JSON_stringify rt (JArr (map anomaly_json anomalies))))
                  [''user'', ''assistant''] (9 / 10) run')"
  using assms
  by (simp add: tool_detect_anomalies_def await_def filter_by_domain_def as_states_def
      return_def Let_def)

text \<open>
  C3. Let the call of \<open>GET /states\<close> give the list \<open>all\<close>, and let \<open>states\<close> be that list
  after the optional domain filter. The tool \<open>detect_anomalies\<close> answers with the list
  \<open>anomalies\<close> (as text, or with the message that there are none when it is empty), where
  \<open>anomalies\<close> holds exactly one record for each state on which \<open>detectAnomaly\<close> returns
  non-null and nothing else: it is a permutation of those records, namely the records of
  severity "warning" in the order of the scan followed by the other records in the order
  of the scan. So every anomaly of severity "warning" is before every anomaly of another
  severity.
\<close>

theorem detect_anomalies_scan:
  assumes "callHA W clk ''/states'' ''GET'' None run = (Inr (States all), run')"
  shows
  "let states = (if truthy (optional args arg_domain)
                 then domain_filter (optional args arg_domain) all else all);
       found = List.map_filter (detectAnomaly rt clk) states;
       anomalies = detected_anomalies rt clk states
   in tool_detect_anomalies rt W clk args run
        = (if anomalies = []
           then respond (JStr ''No anomalies detected. All entities appear to be operating normally.'')
                  [''user''] (9 / 10) run'
           else respond (JStr (''Found '' @ show_nat (length anomalies)
                               @ '' potential anomalies:\<newline>\<newline>''
                               @ JSON_stringify rt (JArr (map anomaly_json anomalies))))
                  [''user'', ''assistant''] (9 / 10) run') \<and>
      found = map (\<lambda>s. the (detectAnomaly rt clk s))
                (filter (\<lambda>s. detectAnomaly rt clk s \<noteq> None) states) \<and>
      mset anomalies = mset found \<and>
      anomalies = filter (\<lambda>a. anomaly_severity a = ''warning'') found
                  @ filter (\<lambda>a. anomaly_severity a \<noteq> ''warning'') found \<and>
      (\<forall>i j. i < length anomalies \<and> j < length anomalies \<and>
             anomaly_severity (anomalies ! i) = ''warning'' \<and>
             anomaly_severity (anomalies ! j) \<noteq> ''warning'' \<longrightarrow> i < j)"
proof -
  define states where "states = (if truthy (optional args arg_domain)
                 then domain_filter (optional args arg_domain) all else all)"
  define found where "found = List.map_filter (detectAnomaly rt clk) states"
  define anomalies where "anomalies = detected_anomalies rt clk states"
  have h: "tool_detect_anomalies rt W clk args run
        = (if anomalies = []
           then respond (JStr ''No anomalies detected. All entities appear to be operating normally.'')
                  [''user''] (9 / 10) run'
           else respond (JStr (''Found '' @ show_nat (length anomalies)
                               @ '' potential anomalies:\<newline>\<newline>''
                               @ JSON_stringify rt (JArr (map anomaly_json anomalies))))
                  [''user'', ''assistant''] (9 / 10) run')"
    unfolding anomalies_def states_def
    using tool_detect_anomalies_of_states [OF assms, of rt args] by (simp add: Let_def)
  have f: "found = map (\<lambda>s. the (detectAnomaly rt clk s))
                (filter (\<lambda>s. detectAnomaly rt clk s \<noteq> None) states)"
    by (simp add: found_def map_filter_def comp_def)
  have m: "mset anomalies = mset found"
    by (simp add: anomalies_def found_def detected_anomalies_def)
  have p: "anomalies = filter (\<lambda>a. anomaly_severity a = ''warning'') found
                  @ filter (\<lambda>a. anomaly_severity a \<noteq> ''warning'') found"
    unfolding anomalies_def found_def by (rule detected_anomalies_partition)
  have o: "\<forall>i j. i < length anomalies \<and> j < length anomalies \<and>
             anomaly_severity (anomalies ! i) = ''warning'' \<and>
             anomaly_severity (anomalies ! j) \<noteq> ''warning'' \<longrightarrow> i < j"
    using warnings_first [OF p] by blast
  from h f m p o show ?thesis
    unfolding Let_def states_def [symmetric] found_def [symmetric] anomalies_def [symmetric]
    by blast
qed

theorem detect_anomalies_scan_witness:
  "callHA (example_world [kitchen_light, hall_sensor, bedroom_lamp, hall_battery]) noon
       ''/states'' ''GET'' None (initial_state, [])
     = (Inr (States [kitchen_light, hall_sensor, bedroom_lamp, hall_battery]),
        (initial_state, [Fetch ''http://supervisor/core/api/states'' ''GET'' None])) \<and>
   map (detectAnomaly example_runtime noon) [kitchen_light, hall_sensor, bedroom_lamp, hall_battery]
     = [Some \<lparr>anomaly_entity_id = ''light.kitchen'', reason = ''Light on during daytime'',
              anomaly_severity = ''info''\<rparr>,
        Some \<lparr>anomaly_entity_id = ''sensor.hall_temperature'',
              reason = ''Unusual temperature: 75'' @ default_unit,
              anomaly_severity = ''warning''\<rparr>,
        None,
        Some \<lparr>anomaly_entity_id = ''sensor.hall_battery'', reason = ''Low battery (12%)'',
              anomaly_severity = ''warning''\<rparr>] \<and>
   detected_anomalies example_runtime noon [kitchen_light, hall_sensor, bedroom_lamp, hall_battery]
     = [\<lparr>anomaly_entity_id = ''sensor.hall_temperature'',
         reason = ''Unusual temperature: 75'' @ default_unit, anomaly_severity = ''warning''\<rparr>,
        \<lparr>anomaly_entity_id = ''sensor.hall_battery'', reason = ''Low battery (12%)'',
         anomaly_severity = ''warning''\<rparr>,
        \<lparr>anomaly_entity_id = ''light.kitchen'', reason = ''Light on during daytime'',
         anomaly_severity = ''info''\<rparr>] \<and>
   tool_detect_anomalies example_runtime
       (example_world [kitchen_light, hall_sensor, bedroom_lamp, hall_battery]) noon None
       (initial_state, [])
     = respond
         (JStr (''Found 3 potential anomalies:\<newline>\<newline>''
                @ JSON_stringify example_runtime
                    (JArr (map anomaly_json
                       (detected_anomalies example_runtime noon
                          [kitchen_light, hall_sensor, bedroom_lamp, hall_battery])))))
         [''user'', ''assistant''] (9 / 10)
         (initial_state, [Fetch ''http://supervisor/core/api/states'' ''GET'' None])"
proof -
  have c: "callHA (example_world [kitchen_light, hall_sensor, bedroom_lamp, hall_battery]) noon
       ''/states'' ''GET'' None (initial_state, [])
     = (Inr (States [kitchen_light, hall_sensor, bedroom_lamp, hall_battery]),
        (initial_state, [Fetch ''http://supervisor/core/api/states'' ''GET'' None]))"
    by code_simp
  have d: "map (detectAnomaly example_runtime noon)
       [kitchen_light, hall_sensor, bedroom_lamp, hall_battery]
     = [Some \<lparr>anomaly_entity_id = ''light.kitchen'', reason = ''Light on during daytime'',
              anomaly_severity = ''info''\<rparr>,
        Some \<lparr>anomaly_entity_id = ''sensor.hall_temperature'',
              reason = ''Unusual temperature: 75'' @ default_unit,
              anomaly_severity = ''warning''\<rparr>,
        None,
        Some \<lparr>anomaly_entity_id = ''sensor.hall_battery'', reason = ''Low battery (12%)'',
              anomaly_severity = ''warning''\<rparr>]"
    by code_simp
  have a: "detected_anomalies example_runtime noon
       [kitchen_light, hall_sensor, bedroom_lamp, hall_battery]
     = [\<lparr>anomaly_entity_id = ''sensor.hall_temperature'',
         reason = ''Unusual temperature: 75'' @ default_unit, anomaly_severity = ''warning''\<rparr>,
        \<lparr>anomaly_entity_id = ''sensor.hall_battery'', reason = ''Low battery (12%)'',
         anomaly_severity = ''warning''\<rparr>,
        \<lparr>anomaly_entity_id = ''light.kitchen'', reason = ''Light on during daytime'',
         anomaly_severity = ''info''\<rparr>]"
    by code_simp
  have tr: "truthy (optional None arg_domain) = False"
    by (simp add: optional_def truthy_def)
  have ne: "detected_anomalies example_runtime noon
       [kitchen_light, hall_sensor, bedroom_lamp, hall_battery] \<noteq> []"
    by (simp add: a)
  have len: "show_nat (length (detected_anomalies example_runtime noon
       [kitchen_light, hall_sensor, bedroom_lamp, hall_battery])) = ''3''"
    by code_simp
  note r = detect_anomalies_scan [OF c, of None example_runtime, unfolded Let_def,
      THEN conjunct1, unfolded tr if_False]
  from r ne len
  have "tool_detect_anomalies example_runtime
       (example_world [kitchen_light, hall_sensor, bedroom_lamp, hall_battery]) noon None
       (initial_state, [])
     = respond
         (JStr (''Found 3 potential anomalies:\<newline>\<newline>''
                @ JSON_stringify example_runtime
                    (JArr (map anomaly_json
                       (detected_anomalies example_runtime noon
                          [kitchen_light, hall_sensor, bedroom_lamp, hall_battery])))))
         [''user'', ''assistant''] (9 / 10)
         (initial_state, [Fetch ''http://supervisor/core/api/states'' ''GET'' None])"
    by simp
  with c d a show ?thesis by (intro conjI)
qed

lemma tool_get_states_of_states:
  assumes "callHA W clk ''/states'' ''GET'' None run = (Inr (States all), run')"
    and "\<not> truthy (optional args arg_entity_id)"
  shows "tool_get_states rt W clk args run
     = (let states = (if truthy (optional args arg_domain)
                      then domain_filter (optional args arg_domain) all else all)
        in if optional args arg_summarize = Some True
           then await (lift (generateStateSummary rt clk states)) (\<lambda>summary.
                  respond (JStr summary) [''user'', ''assistant''] (9 / 10)) run'
           else respond (JStr (JSON_stringify rt (JArr (map simplified_json states))))
                  [''assistant''] (7 / 10) run')"
  using assms
  by (simp add: tool_get_states_def await_def filter_by_domain_def as_states_def
      as_iterable_def return_def Let_def)

text \<open>
  C7, as stated: for every domain string the two tools return results only for entities
  whose id starts with the domain followed by a dot. The filter is applied under
  \<open>if (args?.domain)\<close>, and the empty string is falsy: with the domain \<open>""\<close> the tool
  \<open>get_states\<close> returns every entity, though no id of the list starts with a dot.
\<close>

theorem get_states_empty_domain:
  "\<not> startsWith (entity_id kitchen_light) ([] @ ''.'') \<and>
   \<not> startsWith (entity_id hall_sensor) ([] @ ''.'') \<and>
   fst (tool_get_states example_runtime (example_world [kitchen_light, hall_sensor]) noon
          (Some (no_arguments\<lparr>arg_domain := Some []\<rparr>)) (initial_state, []))
     = Inr (makeCompatibleResponse
              [createTextContent
                 (JStr (JSON_stringify example_runtime
                          (JArr [simplified_json kitchen_light, simplified_json hall_sensor])))
                 [''assistant''] (7 / 10)] False)"
  by code_simp

text \<open>
  C7, amended. Let the call of \<open>GET /states\<close> give the list \<open>all\<close>, let the domain argument
  be a non-empty string, and let \<open>kept\<close> be the states of \<open>all\<close> whose entity id starts with
  the domain followed by a dot, in the order of \<open>all\<close>. Then \<open>get_states\<close>, called without
  an \<open>entity_id\<close> argument, answers with the summary or the simplified list of \<open>kept\<close>,
  and \<open>detect_anomalies\<close> answers with the anomalies of \<open>kept\<close>: every entity of \<open>all\<close>
  whose id starts with the domain and a dot is kept, every anomaly reported is that of
  such an entity, and every anomaly of such an entity is reported.
\<close>

theorem domain_filter_tools:
  assumes "callHA W clk ''/states'' ''GET'' None run = (Inr (States all), run')"
    and "optional args arg_domain = Some domain" and "domain \<noteq> []"
  shows
  "let kept = filter (\<lambda>s. startsWith (entity_id s) (domain @ ''.'')) all;
       anomalies = detected_anomalies rt clk kept
   in (\<not> truthy (optional args arg_entity_id) \<longrightarrow>
         tool_get_states rt W clk args run
           = (if optional args arg_summarize = Some True
              then await (lift (generateStateSummary rt clk kept)) (\<lambda>summary.
                     respond (JStr summary) [''user'', ''assistant''] (9 / 10)) run'
              else respond (JStr (JSON_stringify rt (JArr (map simplified_json kept))))
                     [''assistant''] (7 / 10) run')) \<and>
      tool_detect_anomalies rt W clk args run
        = (if anomalies = []
           then respond (JStr ''No anomalies detected. All entities appear to be operating normally.'')
                  [''user''] (9 / 10) run'
           else respond (JStr (''Found '' @ show_nat (length anomalies)
                               @ '' potential anomalies:\<newline>\<newline>''
                               @ JSON_stringify rt (JArr (map anomaly_json anomalies))))
                  [''user'', ''assistant''] (9 / 10) run') \<and>
      (\<forall>s \<in> set kept. s \<in> set all \<and> startsWith (entity_id s) (domain @ ''.'')) \<and>
      (\<forall>s \<in> set all. startsWith (entity_id s) (domain @ ''.'') \<longrightarrow> s \<in> set kept) \<and>
      (\<forall>a \<in> set anomalies. startsWith (anomaly_entity_id a) (domain @ ''.'')) \<and>
      (\<forall>s \<in> set all. \<forall>a.
         startsWith (entity_id s) (domain @ ''.'') \<and> detectAnomaly rt clk s = Some a
           \<longrightarrow> a \<in> set anomalies)"
proof -
  define kept where "kept = filter (\<lambda>s. startsWith (entity_id s) (domain @ ''.'')) all"
  define anomalies where "anomalies = detected_anomalies rt clk kept"
  from assms(2,3) have t: "truthy (optional args arg_domain)"
    by (simp add: truthy_def)
  from assms(2) have k: "domain_filter (optional args arg_domain) all = kept"
    by (simp add: domain_filter_def kept_def template_string_def)
  have g: "\<not> truthy (optional args arg_entity_id) \<longrightarrow>
         tool_get_states rt W clk args run
           = (if optional args arg_summarize = Some True
              then await (lift (generateStateSummary rt clk kept)) (\<lambda>summary.
                     respond (JStr summary) [''user'', ''assistant''] (9 / 10)) run'
              else respond (JStr (JSON_stringify rt (JArr (map simplified_json kept))))
                     [''assistant''] (7 / 10) run')"
  proof
    assume "\<not> truthy (optional args arg_entity_id)"
    from tool_get_states_of_states [OF assms(1) this, of rt] t k
    show "tool_get_states rt W clk args run
           = (if optional args arg_summarize = Some True
              then await (lift (generateStateSummary rt clk kept)) (\<lambda>summary.
                     respond (JStr summary) [''user'', ''assistant''] (9 / 10)) run'
              else respond (JStr (JSON_stringify rt (JArr (map simplified_json kept))))
                     [''assistant''] (7 / 10) run')"
      by (simp add: Let_def)
  qed
  have d: "tool_detect_anomalies rt W clk args run
        = (if anomalies = []
           then respond (JStr ''No anomalies detected. All entities appear to be operating normally.'')
                  [''user''] (9 / 10) run'
           else respond (JStr (''Found '' @ show_nat (length anomalies)
                               @ '' potential anomalies:\<newline>\<newline>''
                               @ JSON_stringify rt (JArr (map anomaly_json anomalies))))
                  [''user'', ''assistant''] (9 / 10) run')"
    using tool_detect_anomalies_of_states [OF assms(1), of rt args] t k
    by (simp add: Let_def anomalies_def)
  have s1: "\<forall>s \<in> set kept. s \<in> set all \<and> startsWith (entity_id s) (domain @ ''.'')"
    by (simp add: kept_def)
  have s2: "\<forall>s \<in> set all. startsWith (entity_id s) (domain @ ''.'') \<longrightarrow> s \<in> set kept"
    by (simp add: kept_def)
  have a1: "\<forall>a \<in> set anomalies. startsWith (anomaly_entity_id a) (domain @ ''.'')"
  proof
    fix a assume "a \<in> set anomalies"
    then obtain s where s: "s \<in> set kept" "detectAnomaly rt clk s = Some a"
      unfolding anomalies_def set_detected_anomalies by blast
    from s(2) have "anomaly_entity_id a = entity_id s"
      by (rule detectAnomaly_entity_id)
    with s(1) s1 show "startsWith (anomaly_entity_id a) (domain @ ''.'')" by simp
  qed
  have a2: "\<forall>s \<in> set all. \<forall>a.
         startsWith (entity_id s) (domain @ ''.'') \<and> detectAnomaly rt clk s = Some a
           \<longrightarrow> a \<in> set anomalies"
    unfolding anomalies_def set_detected_anomalies using s2 by blast
  from g d s1 s2 a1 a2 show ?thesis
    unfolding Let_def kept_def [symmetric] anomalies_def [symmetric] by blast
qed

theorem domain_filter_tools_witness:
  "callHA (example_world [kitchen_light, hall_sensor, bedroom_lamp, hall_battery]) noon
       ''/states'' ''GET'' None (initial_state, [])
     = (Inr (States [kitchen_light, hall_sensor, bedroom_lamp, hall_battery]),
        (initial_state, [Fetch ''http://supervisor/core/api/states'' ''GET'' None])) \<and>
   optional (Some (no_arguments\<lparr>arg_domain := Some ''sensor''\<rparr>)) arg_domain = Some ''sensor'' \<and>
   \<not> truthy (optional (Some (no_arguments\<lparr>arg_domain := Some ''sensor''\<rparr>)) arg_entity_id) \<and>
   filter (\<lambda>s. startsWith (entity_id s) (''sensor'' @ ''.''))
       [kitchen_light, hall_sensor, bedroom_lamp, hall_battery]
     = [hall_sensor, hall_battery] \<and>
   tool_get_states example_runtime
       (example_world [kitchen_light, hall_sensor, bedroom_lamp, hall_battery]) noon
       (Some (no_arguments\<lparr>arg_domain := Some ''sensor''\<rparr>)) (initial_state, [])
     = respond (JStr (JSON_stringify example_runtime
                        (JArr [simplified_json hall_sensor, simplified_json hall_battery])))
         [''assistant''] (7 / 10)
         (initial_state, [Fetch ''http://supervisor/core/api/states'' ''GET'' None]) \<and>
   map anomaly_entity_id (detected_anomalies example_runtime noon [hall_sensor, hall_battery])
     = [''sensor.hall_temperature'', ''sensor.hall_battery'']"
proof -
  have c: "callHA (example_world [kitchen_light, hall_sensor, bedroom_lamp, hall_battery]) noon
       ''/states'' ''GET'' None (initial_state, [])
     = (Inr (States [kitchen_light, hall_sensor, bedroom_lamp, hall_battery]),
        (initial_state, [Fetch ''http://supervisor/core/api/states'' ''GET'' None]))"
    by code_simp
  have o: "optional (Some (no_arguments\<lparr>arg_domain := Some ''sensor''\<rparr>)) arg_domain
             = Some ''sensor''"
    by (simp add: optional_def)
  have e: "\<not> truthy (optional (Some (no_arguments\<lparr>arg_domain := Some ''sensor''\<rparr>)) arg_entity_id)"
    by (simp add: optional_def no_arguments_def truthy_def)
  have u: "optional (Some (no_arguments\<lparr>arg_domain := Some ''sensor''\<rparr>)) arg_summarize = None"
    by (simp add: optional_def no_arguments_def)
  have f: "filter (\<lambda>s. startsWith (entity_id s) (''sensor'' @ ''.''))
       [kitchen_light, hall_sensor, bedroom_lamp, hall_battery]
     = [hall_sensor, hall_battery]"
    by code_simp
  have a: "map anomaly_entity_id (detected_anomalies example_runtime noon [hall_sensor, hall_battery])
     = [''sensor.hall_temperature'', ''sensor.hall_battery'']"
    by code_simp
  have s: "''sensor'' \<noteq> []"
    by simp
  have nt: "(None = Some True) = False"
    by simp
  note r = domain_filter_tools [OF c o s, of example_runtime, unfolded Let_def,
      THEN conjunct1, THEN mp, OF e, unfolded u f nt if_False list.map]
  from r c o e f a show ?thesis by (intro conjI)
qed


end
